theory Spec2Isabelle
  imports Main "HOL-Library.Word"
begin

section \<open>JavaScript strings\<close>

text \<open>
  A JavaScript string is a sequence of UTF-16 code units. The model keeps the code units
  below 256 (the Latin-1 range), one \<^typ>\<open>char\<close> each: every address, hash, base64 blob and
  attribute name handled by the tracing steps lies in that range.
\<close>

definition charCode :: "char \<Rightarrow> nat" where
  "charCode c = of_char c"

definition isWhiteSpace :: "char \<Rightarrow> bool" where
  \<comment> \<open>the WhiteSpace and LineTerminator code units below 256 that \<open>trim\<close> strips\<close>
  "isWhiteSpace c = (charCode c \<in> {9, 10, 11, 12, 13, 32, 160})"

definition trim :: "string \<Rightarrow> string" where
  "trim s = rev (dropWhile isWhiteSpace (rev (dropWhile isWhiteSpace s)))"

definition lowerChar :: "char \<Rightarrow> char" where
  \<comment> \<open>A-Z, and the Latin-1 capitals 192..222 except the multiplication sign 215\<close>
  "lowerChar c =
     (let n = charCode c
      in if (65 \<le> n \<and> n \<le> 90) \<or> (192 \<le> n \<and> n \<le> 222 \<and> n \<noteq> 215)
         then char_of (n + 32) else c)"

definition toLowerCase :: "string \<Rightarrow> string" where
  "toLowerCase s = map lowerChar s"

definition startsWith :: "string \<Rightarrow> string \<Rightarrow> bool" where
  "startsWith s p = (take (length p) s = p)"

definition strip0x :: "string \<Rightarrow> string" where
  \<comment> \<open>\<open>s.replace(/^0x/, '')\<close>\<close>
  "strip0x s = (if startsWith s ''0x'' then drop 2 s else s)"

section \<open>helpers: address normalization\<close>

definition normalizeAddress :: "string \<Rightarrow> string" where
  \<comment> \<open>\<open>(s || '').trim().toLowerCase().replace(/^0x/, '')\<close>; for a string \<open>s\<close>,
      \<open>s || ''\<close> is \<open>s\<close>\<close>
  "normalizeAddress s = strip0x (toLowerCase (trim s))"

definition isHexDigit :: "char \<Rightarrow> bool" where
  "isHexDigit c =
     (let n = charCode c
      in (48 \<le> n \<and> n \<le> 57) \<or> (65 \<le> n \<and> n \<le> 70) \<or> (97 \<le> n \<and> n \<le> 102))"

section \<open>JavaScript values\<close>

text \<open>
  The provider payloads are untyped (\<open>any\<close>) documents. \<open>json\<close> is the type of the
  JavaScript values that occur: the JSON values, \<open>undefined\<close> (what reading an absent
  property gives) and \<open>NaN\<close>. Numbers are integers: the payloads carry amounts, hashes
  and identifiers as strings, and a number that is not an integer is outside the model.
  An object lists each of its properties once.
\<close>

datatype json =
    JUndefined
  | JNull
  | JBool bool
  | JNum int
  | JNaN
  | JStr string
  | JArr "json list"
  | JObj "(string \<times> json) list"

datatype exn = TypeError | RangeError | SyntaxError | InvalidCharacterError

fun truthy :: "json \<Rightarrow> bool" where
  "truthy JUndefined = False"
| "truthy JNull = False"
| "truthy (JBool b) = b"
| "truthy (JNum n) = (n \<noteq> 0)"
| "truthy JNaN = False"
| "truthy (JStr s) = (s \<noteq> [])"
| "truthy (JArr xs) = True"
| "truthy (JObj kvs) = True"

fun nullish :: "json \<Rightarrow> bool" where
  "nullish JUndefined = True"
| "nullish JNull = True"
| "nullish v = False"

definition or_js :: "json \<Rightarrow> json \<Rightarrow> json" where
  \<comment> \<open>\<open>a || b\<close>\<close>
  "or_js a b = (if truthy a then a else b)"

definition coalesce :: "json \<Rightarrow> json \<Rightarrow> json" where
  \<comment> \<open>\<open>a ?? b\<close>\<close>
  "coalesce a b = (if nullish a then b else a)"

fun getProp :: "json \<Rightarrow> string \<Rightarrow> json" where
  \<comment> \<open>reading a named property of a value that is neither \<open>null\<close> nor \<open>undefined\<close>;
      none of the names read by the steps is a built-in property of a primitive or an array\<close>
  "getProp (JObj kvs) k = (case map_of kvs k of Some v \<Rightarrow> v | None \<Rightarrow> JUndefined)"
| "getProp v k = JUndefined"

definition member :: "json \<Rightarrow> string \<Rightarrow> exn + json" where
  \<comment> \<open>\<open>v.k\<close>: a TypeError on \<open>null\<close> and \<open>undefined\<close>\<close>
  "member v k = (if nullish v then Inl TypeError else Inr (getProp v k))"

definition optMember :: "json \<Rightarrow> string \<Rightarrow> json" where
  \<comment> \<open>\<open>v?.k\<close>\<close>
  "optMember v k = (if nullish v then JUndefined else getProp v k)"

fun decimalNat :: "nat \<Rightarrow> string" where
  "decimalNat n =
     (if n < 10 then [char_of (48 + n)] else decimalNat (n div 10) @ [char_of (48 + n mod 10)])"

definition decimalInt :: "int \<Rightarrow> string" where
  "decimalInt i = (if i < 0 then CHR ''-'' # decimalNat (nat (- i)) else decimalNat (nat i))"

fun joinWith :: "string \<Rightarrow> string list \<Rightarrow> string" where
  "joinWith sep [] = []"
| "joinWith sep [x] = x"
| "joinWith sep (x # y # ys) = x @ sep @ joinWith sep (y # ys)"

fun String_js :: "json \<Rightarrow> string" where
  \<comment> \<open>\<open>String(v)\<close>, also the conversion inside a template literal; an integer below
      \<open>10^21\<close> in magnitude prints in decimal\<close>
  "String_js JUndefined = ''undefined''"
| "String_js JNull = ''null''"
| "String_js (JBool b) = (if b then ''true'' else ''false'')"
| "String_js (JNum n) = decimalInt n"
| "String_js JNaN = ''NaN''"
| "String_js (JStr s) = s"
| "String_js (JArr xs) = joinWith '','' (map (\<lambda>x. if nullish x then [] else String_js x) xs)"
| "String_js (JObj kvs) = ''[object Object]''"

definition strictEqStr :: "json \<Rightarrow> string \<Rightarrow> bool" where
  \<comment> \<open>\<open>v === s\<close> for a string \<open>s\<close>: no conversion of \<open>v\<close>\<close>
  "strictEqStr v s = (v = JStr s)"

definition isArray :: "json \<Rightarrow> bool" where
  "isArray v = (case v of JArr xs \<Rightarrow> True | _ \<Rightarrow> False)"

definition arrayOf :: "json \<Rightarrow> exn + json list" where
  \<comment> \<open>the receiver of an array method (\<open>find\<close>, \<open>reduce\<close>, \<open>map\<close>, \<open>filter\<close>):
      only arrays have them, calling one on any other value is a TypeError\<close>
  "arrayOf v = (case v of JArr xs \<Rightarrow> Inr xs | _ \<Rightarrow> Inl TypeError)"

definition iterate :: "json \<Rightarrow> exn + json list" where
  \<comment> \<open>the values a \<open>for ... of\<close> loop visits: the elements of an array, the characters
      of a string; other values are not iterable\<close>
  "iterate v =
     (case v of JArr xs \<Rightarrow> Inr xs
              | JStr s \<Rightarrow> Inr (map (\<lambda>c. JStr [c]) s)
              | _ \<Rightarrow> Inl TypeError)"

fun lengthOf :: "json \<Rightarrow> json" where
  \<comment> \<open>\<open>v.length\<close> of a value that is neither \<open>null\<close> nor \<open>undefined\<close>\<close>
  "lengthOf (JArr xs) = JNum (int (length xs))"
| "lengthOf (JStr s) = JNum (int (length s))"
| "lengthOf v = getProp v ''length''"

fun element :: "json \<Rightarrow> nat \<Rightarrow> json" where
  \<comment> \<open>\<open>v[i]\<close> of a value that is neither \<open>null\<close> nor \<open>undefined\<close>\<close>
  "element (JArr xs) i = (if i < length xs then xs ! i else JUndefined)"
| "element (JStr s) i = (if i < length s then JStr [s ! i] else JUndefined)"
| "element v i = getProp v (decimalNat i)"

section \<open>The platform's \<open>atob\<close>\<close>

text \<open>
  \<open>atob\<close> is the forgiving base64 decoder of the web platform: it removes ASCII
  whitespace, removes one or two trailing \<open>=\<close> when the length is a multiple of four,
  fails when the remaining length is 1 modulo 4 or a character is outside the alphabet,
  and decodes six bits per character, dropping the bits left over at the end. The result
  is a string with one code unit below 256 per decoded byte; a failure is an
  InvalidCharacterError exception.
\<close>

definition isAsciiWhitespace :: "char \<Rightarrow> bool" where
  "isAsciiWhitespace c = (charCode c \<in> {9, 10, 12, 13, 32})"

definition base64Index :: "char \<Rightarrow> nat option" where
  "base64Index c =
     (let n = charCode c
      in if 65 \<le> n \<and> n \<le> 90 then Some (n - 65)
         else if 97 \<le> n \<and> n \<le> 122 then Some (n - 71)
         else if 48 \<le> n \<and> n \<le> 57 then Some (n + 4)
         else if n = 43 then Some 62
         else if n = 47 then Some 63
         else None)"

definition removePadding :: "string \<Rightarrow> string" where
  "removePadding d =
     (if length d mod 4 = 0 \<and> d \<noteq> [] \<and> last d = CHR ''=''
      then (if butlast d \<noteq> [] \<and> last (butlast d) = CHR ''='' then butlast (butlast d)
            else butlast d)
      else d)"

fun sextetsToBytes :: "nat list \<Rightarrow> nat list" where
  "sextetsToBytes (a # b # c # d # rest) =
     (let n = ((a * 64 + b) * 64 + c) * 64 + d
      in (n div 65536) # (n div 256 mod 256) # (n mod 256) # sextetsToBytes rest)"
| "sextetsToBytes [a, b, c] =
     (let n = ((a * 64 + b) * 64 + c) div 4 in [n div 256, n mod 256])"
| "sextetsToBytes [a, b] = [(a * 64 + b) div 16]"
| "sextetsToBytes _ = []"

definition atob :: "string \<Rightarrow> exn + string" where
  "atob data =
     (let d = removePadding (filter (\<lambda>c. \<not> isAsciiWhitespace c) data)
      in if length d mod 4 = 1 then Inl InvalidCharacterError
         else (case those (map base64Index d) of
                 None \<Rightarrow> Inl InvalidCharacterError
               | Some sextets \<Rightarrow> Inr (map char_of (sextetsToBytes sextets))))"

section \<open>Step 3: decoding the CCTP burn event (cctp-noble)\<close>

definition hexDigit :: "nat \<Rightarrow> char" where
  "hexDigit n = (if n < 10 then char_of (48 + n) else char_of (87 + n))"

definition toString16 :: "nat \<Rightarrow> string" where
  \<comment> \<open>\<open>b.toString(16)\<close> of a byte\<close>
  "toString16 n = (if n < 16 then [hexDigit n] else [hexDigit (n div 16), hexDigit (n mod 16)])"

definition padStart2 :: "string \<Rightarrow> string" where
  \<comment> \<open>\<open>s.padStart(2, '0')\<close>\<close>
  "padStart2 s = replicate (2 - length s) CHR ''0'' @ s"

definition byteHex :: "8 word \<Rightarrow> string" where
  "byteHex b = padStart2 (toString16 (unat b))"

definition decodeMintRecipient :: "string \<Rightarrow> string option" where
  \<comment> \<open>\<open>None\<close> is the \<open>null\<close> result; the \<open>catch\<close> turns the exception of \<open>atob\<close> into it\<close>
  "decodeMintRecipient base64Str =
     (case atob base64Str of
        Inl e \<Rightarrow> None
      | Inr binary \<Rightarrow>
          (let bytes = map (\<lambda>c. (word_of_nat (charCode c) :: 8 word)) binary
           in if length bytes < 20 then None
              else (let evmBytes = drop (length bytes - 20) bytes
                    in Some (''0x'' @ concat (map byteHex evmBytes)))))"

record cctp_data =
  mintRecipient :: "string option"
  destinationDomain :: "string option"

definition flatMapEvents :: "json list \<Rightarrow> json list" where
  \<comment> \<open>\<open>logs.flatMap((l) => l?.events ?? [])\<close>: an array returned by the callback is
      spliced in, any other value is kept as one element\<close>
  "flatMapEvents logs =
     concat (map (\<lambda>l. case coalesce (optMember l ''events'') (JArr []) of
                          JArr es \<Rightarrow> es | v \<Rightarrow> [v]) logs)"

definition stripQuotes :: "string \<Rightarrow> string" where
  \<comment> \<open>\<open>s.replace(/^"+|"+$/g, '')\<close>\<close>
  "stripQuotes s =
     rev (dropWhile (\<lambda>c. c = CHR 0x22) (rev (dropWhile (\<lambda>c. c = CHR 0x22) s)))"

definition collectAttr :: "(string \<rightharpoonup> string) \<Rightarrow> json \<Rightarrow> (string \<rightharpoonup> string)" where
  \<comment> \<open>the reducer of \<open>extractCctpDataFromLogs\<close>\<close>
  "collectAttr m a =
     (if truthy (optMember a ''key'') \<and> optMember a ''value'' \<noteq> JUndefined
         \<and> optMember a ''value'' \<noteq> JNull
      then m(String_js (getProp a ''key'') \<mapsto> stripQuotes (String_js (getProp a ''value'')))
      else m)"

definition isDepositForBurn :: "json \<Rightarrow> bool" where
  "isDepositForBurn e = strictEqStr (optMember e ''type'') ''circle.cctp.v1.DepositForBurn''"

definition extractCctpDataFromLogs :: "json \<Rightarrow> exn + cctp_data" where
  "extractCctpDataFromLogs logs =
     (case arrayOf (coalesce logs (JArr [])) of
        Inl e \<Rightarrow> Inl e
      | Inr ls \<Rightarrow>
          (case find isDepositForBurn (flatMapEvents ls) of
             None \<Rightarrow> Inr \<lparr>mintRecipient = None, destinationDomain = None\<rparr>
           | Some evt \<Rightarrow>
               (if \<not> truthy evt then Inr \<lparr>mintRecipient = None, destinationDomain = None\<rparr>
                else (case arrayOf (coalesce (getProp evt ''attributes'') (JArr [])) of
                        Inl e \<Rightarrow> Inl e
                      | Inr as \<Rightarrow>
                          (let attrs = foldl collectAttr Map.empty as;
                               base64Recipient = attrs ''mint_recipient'';
                               destinationDomain = attrs ''destination_domain''
                           in Inr \<lparr>mintRecipient =
                                     (case base64Recipient of
                                        None \<Rightarrow> None
                                      | Some r \<Rightarrow> if r \<noteq> [] then decodeMintRecipient r else None),
                                   destinationDomain = destinationDomain\<rparr>)))))"

text \<open>
  Reading a hexadecimal string back as bytes, to state what the decoded recipient encodes.
\<close>

definition isLowerHexDigit :: "char \<Rightarrow> bool" where
  "isLowerHexDigit c =
     (let n = charCode c in (48 \<le> n \<and> n \<le> 57) \<or> (97 \<le> n \<and> n \<le> 102))"

definition hexValue :: "char \<Rightarrow> nat" where
  "hexValue c = (let n = charCode c in if n \<le> 57 then n - 48 else n - 87)"

fun bytesOfHex :: "string \<Rightarrow> nat list" where
  "bytesOfHex (h # l # rest) = (hexValue h * 16 + hexValue l) # bytesOfHex rest"
| "bytesOfHex _ = []"

section \<open>The JavaScript runtime\<close>

text \<open>
  Parsing and printing of dates, numbers and JSON text belong to the runtime, and partly
  depend on the engine. The steps receive them as a record of functions; what the
  language fixes for every engine (the conversions of values that are not strings, the
  range of time values, the exceptions) is defined on top of it.
\<close>

record js_runtime =
  Date_parse :: "string \<Rightarrow> int option"
    \<comment> \<open>\<open>Date.parse(s)\<close> in milliseconds, \<open>None\<close> for \<open>NaN\<close>\<close>
  isoString :: "int \<Rightarrow> string"
    \<comment> \<open>\<open>toISOString\<close> of a valid time value\<close>
  JSON_parse :: "string \<Rightarrow> json option"
    \<comment> \<open>\<open>JSON.parse(s)\<close>, \<open>None\<close> when it throws a SyntaxError\<close>
  StringToNumber :: "string \<Rightarrow> json"
    \<comment> \<open>\<open>Number(s)\<close> of a string: \<open>JNum\<close> or \<open>JNaN\<close>\<close>
  gweiFixed2 :: "json \<Rightarrow> string"
    \<comment> \<open>\<open>(n / 1e9).toFixed(2)\<close> of a number \<open>n\<close>\<close>
  unsafeIntegerString :: "int \<Rightarrow> string"
    \<comment> \<open>the string of an integer outside the safe range \<open>-(2^53 - 1) .. 2^53 - 1\<close>: the
        digits of the shortest decimal that reads back as the same number, in exponent form
        from \<open>10^21\<close> on\<close>
  Array_sort :: "(json \<Rightarrow> json \<Rightarrow> json) \<Rightarrow> json list \<Rightarrow> json list"
    \<comment> \<open>\<open>Array.prototype.sort\<close> with a comparator that is not consistent: the order is
        left to the engine\<close>

fun Number_js :: "js_runtime \<Rightarrow> json \<Rightarrow> json" where
  \<comment> \<open>\<open>Number(v)\<close>\<close>
  "Number_js rt JUndefined = JNaN"
| "Number_js rt JNull = JNum 0"
| "Number_js rt (JBool b) = JNum (if b then 1 else 0)"
| "Number_js rt (JNum n) = JNum n"
| "Number_js rt JNaN = JNaN"
| "Number_js rt (JStr s) = StringToNumber rt s"
| "Number_js rt (JArr xs) = StringToNumber rt (String_js (JArr xs))"
| "Number_js rt (JObj kvs) = StringToNumber rt (String_js (JObj kvs))"

definition timeClip :: "int \<Rightarrow> int option" where
  "timeClip t = (if \<bar>t\<bar> \<le> 8640000000000000 then Some t else None)"

fun timeValue :: "js_runtime \<Rightarrow> json \<Rightarrow> int option" where
  \<comment> \<open>the time value of \<open>new Date(v)\<close>: a string is parsed, any other value is converted
      to a number\<close>
  "timeValue rt (JStr s) = Date_parse rt s"
| "timeValue rt (JArr xs) = Date_parse rt (String_js (JArr xs))"
| "timeValue rt (JObj kvs) = Date_parse rt (String_js (JObj kvs))"
| "timeValue rt v = (case Number_js rt v of JNum n \<Rightarrow> timeClip n | _ \<Rightarrow> None)"

definition toISOString :: "js_runtime \<Rightarrow> int option \<Rightarrow> exn + string" where
  \<comment> \<open>\<open>toISOString\<close> throws a RangeError on an invalid date\<close>
  "toISOString rt t = (case t of None \<Rightarrow> Inl RangeError | Some ms \<Rightarrow> Inr (isoString rt ms))"

definition newDateISO :: "js_runtime \<Rightarrow> json \<Rightarrow> exn + string" where
  \<comment> \<open>\<open>new Date(v).toISOString()\<close>\<close>
  "newDateISO rt v = toISOString rt (timeValue rt v)"

definition secondsISO :: "js_runtime \<Rightarrow> json \<Rightarrow> exn + string" where
  \<comment> \<open>\<open>new Date(Number(v) * 1000).toISOString()\<close>\<close>
  "secondsISO rt v =
     toISOString rt (case Number_js rt v of JNum n \<Rightarrow> timeClip (n * 1000) | _ \<Rightarrow> None)"

definition numberString :: "js_runtime \<Rightarrow> int \<Rightarrow> string" where
  \<comment> \<open>a number parameter inside a template literal: a safe integer prints its decimal
      digits\<close>
  "numberString rt n =
     (if \<bar>n\<bar> \<le> 9007199254740991 then decimalInt n else unsafeIntegerString rt n)"

subsection \<open>\<open>BigInt\<close>\<close>

definition digitValue :: "char \<Rightarrow> nat option" where
  \<comment> \<open>the value of a digit or letter as a digit of some radix up to 16\<close>
  "digitValue c =
     (let n = charCode c
      in if 48 \<le> n \<and> n \<le> 57 then Some (n - 48)
         else if 65 \<le> n \<and> n \<le> 70 then Some (n - 55)
         else if 97 \<le> n \<and> n \<le> 102 then Some (n - 87)
         else None)"

definition parseRadix :: "nat \<Rightarrow> string \<Rightarrow> int option" where
  \<comment> \<open>one or more digits of the radix\<close>
  "parseRadix r s =
     (if s = [] then None
      else (case those (map digitValue s) of
              None \<Rightarrow> None
            | Some ds \<Rightarrow> if list_all (\<lambda>d. d < r) ds
                         then Some (int (foldl (\<lambda>acc d. acc * r + d) 0 ds)) else None))"

definition StringToBigInt :: "string \<Rightarrow> int option" where
  \<comment> \<open>the StringIntegerLiteral grammar: surrounding white space, the empty string as
      zero, a decimal integer with an optional sign, or an unsigned hexadecimal, octal or
      binary integer with its prefix\<close>
  "StringToBigInt str =
     (let s = trim str
      in if s = [] then Some 0
         else if take 2 s = ''0x'' \<or> take 2 s = ''0X'' then parseRadix 16 (drop 2 s)
         else if take 2 s = ''0o'' \<or> take 2 s = ''0O'' then parseRadix 8 (drop 2 s)
         else if take 2 s = ''0b'' \<or> take 2 s = ''0B'' then parseRadix 2 (drop 2 s)
         else (case s of
                 [] \<Rightarrow> Some 0
               | c # cs \<Rightarrow>
                   if c = CHR ''-'' then map_option uminus (parseRadix 10 cs)
                   else if c = CHR ''+'' then parseRadix 10 cs
                   else parseRadix 10 s))"

fun BigInt_js :: "json \<Rightarrow> exn + int" where
  \<comment> \<open>\<open>BigInt(v)\<close>\<close>
  "BigInt_js JUndefined = Inl TypeError"
| "BigInt_js JNull = Inl TypeError"
| "BigInt_js (JBool b) = Inr (if b then 1 else 0)"
| "BigInt_js (JNum n) = Inr n"
| "BigInt_js JNaN = Inl RangeError"
| "BigInt_js (JStr s) = (case StringToBigInt s of None \<Rightarrow> Inl SyntaxError | Some n \<Rightarrow> Inr n)"
| "BigInt_js v = (case StringToBigInt (String_js v) of None \<Rightarrow> Inl SyntaxError | Some n \<Rightarrow> Inr n)"

section \<open>utils: the retrying HTTP client (api-client)\<close>

text \<open>
  The network is a function from a request and the number of the attempt to what
  \<open>fetch\<close> does then: it fails, or it answers with a status, a body text and, when the
  text is JSON, the parsed body.
\<close>

datatype fetch_result =
    NetworkFailure
  | HttpResponse nat string "json option"

record request =
  httpMethod :: string
  url :: string
  searchParams :: "(string \<times> string) list"
  headers :: "(string \<times> string) list"
  body :: "json option"

type_synonym network = "request \<Rightarrow> nat \<Rightarrow> fetch_result"

definition responseOk :: "nat \<Rightarrow> bool" where
  \<comment> \<open>\<open>response.ok\<close>\<close>
  "responseOk status = (200 \<le> status \<and> status \<le> 299)"

function makeRequest_attempts :: "(nat \<Rightarrow> fetch_result) \<Rightarrow> bool \<Rightarrow> nat \<Rightarrow> nat \<Rightarrow> json" where
  \<comment> \<open>the loop of \<open>makeRequest\<close> from attempt number \<open>attempt\<close> on: a network failure, a
      status outside 2xx and a body that is not JSON are caught and the loop goes on (after
      a delay that doubles each time); when the attempts are used up the result is \<open>null\<close>\<close>
  "makeRequest_attempts fetch toJson retries attempt =
     (if attempt < retries then
        (case fetch attempt of
           NetworkFailure \<Rightarrow> makeRequest_attempts fetch toJson retries (Suc attempt)
         | HttpResponse status text parsed \<Rightarrow>
             if \<not> responseOk status
             then makeRequest_attempts fetch toJson retries (Suc attempt)
             else if toJson
             then (case parsed of
                     None \<Rightarrow> makeRequest_attempts fetch toJson retries (Suc attempt)
                   | Some j \<Rightarrow> j)
             else JStr text)
      else JNull)"
  by pat_completeness auto
termination
  by (relation "measure (\<lambda>(fetch, toJson, retries, attempt). retries - attempt)") auto

declare makeRequest_attempts.simps [simp del]

definition mergeHeaders :: "string \<Rightarrow> (string \<times> string) list \<Rightarrow> (string \<times> string) list" where
  \<comment> \<open>\<open>{ Accept: acceptHeaders, ...options.headers }\<close>: an \<open>Accept\<close> header of the caller
      replaces the default, in the first place\<close>
  "mergeHeaders acceptHeaders hs =
     (''Accept'', (case map_of hs ''Accept'' of None \<Rightarrow> acceptHeaders | Some v \<Rightarrow> v))
       # filter (\<lambda>kv. fst kv \<noteq> ''Accept'') hs"

definition makeRequest :: "network \<Rightarrow> request \<Rightarrow> string \<Rightarrow> bool \<Rightarrow> nat \<Rightarrow> json" where
  "makeRequest net options acceptHeaders toJson retries =
     makeRequest_attempts
       (net (options\<lparr>headers := mergeHeaders acceptHeaders (headers options)\<rparr>))
       toJson retries 0"

definition httpGet ::
  "network \<Rightarrow> string \<Rightarrow> (string \<times> string) list \<Rightarrow> string \<Rightarrow> bool \<Rightarrow> nat
     \<Rightarrow> (string \<times> string) list option \<Rightarrow> json" where
  \<comment> \<open>\<open>get\<close>; the query parameters of a URL built with \<open>searchParams\<close> are kept apart\<close>
  "httpGet net u params acceptHeaders toJson retries customHeaders =
     makeRequest net
       \<lparr>httpMethod = ''GET'', url = u, searchParams = params,
        headers = (case customHeaders of None \<Rightarrow> [] | Some h \<Rightarrow> h), body = None\<rparr>
       acceptHeaders toJson retries"

definition post :: "network \<Rightarrow> string \<Rightarrow> json \<Rightarrow> json" where
  \<comment> \<open>\<open>post\<close> with its defaults \<open>toJson = true\<close> and \<open>retries = 3\<close>\<close>
  "post net u data =
     makeRequest net
       \<lparr>httpMethod = ''POST'', url = u, searchParams = [],
        headers = [(''Content-Type'', ''application/json'')], body = Some data\<rparr>
       ''application/json'' True 3"

section \<open>cross-chain-tracing: constants and helpers\<close>

record chain_info =
  CHAIN_ID :: nat
  EXPLORER_URL :: string
  FACTORY_CONTRACTS :: "string list"
  DOMAIN :: string

definition EVM_CHAIN_INFO :: "(string \<times> chain_info) list" where
  "EVM_CHAIN_INFO =
     [(''AVALANCHE'',
       \<lparr>CHAIN_ID = 43114, EXPLORER_URL = ''https://snowscan.xyz/tx/'',
        FACTORY_CONTRACTS = [''0x647Ead1a35dbC2b0160Cbe6e565f25C4915a125F'',
                             ''0x13cA288486f2bb6B3619c5fd6A2917Ec98a41E7f''],
        DOMAIN = ''1''\<rparr>),
      (''ARBITRUM'',
       \<lparr>CHAIN_ID = 42161, EXPLORER_URL = ''https://arbiscan.io/tx/'',
        FACTORY_CONTRACTS = [''0x647Ead1a35dbC2b0160Cbe6e565f25C4915a125F'',
                             ''0x51e589D94b51d01B75442AE1504cD8c50d6127C9''],
        DOMAIN = ''3''\<rparr>),
      (''ETHEREUM'',
       \<lparr>CHAIN_ID = 1, EXPLORER_URL = ''https://etherscan.io/tx/'',
        FACTORY_CONTRACTS = [''0x647Ead1a35dbC2b0160Cbe6e565f25C4915a125F'',
                             ''0x3bF3056835f7C25b1f71aff99B734Ad07d644577'',
                             ''0x6ca3e8BFe9196A463136cB2442672e46BBe00BCc''],
        DOMAIN = ''0''\<rparr>),
      (''OPTIMISM'',
       \<lparr>CHAIN_ID = 10, EXPLORER_URL = ''https://optimistic.etherscan.io/tx/'',
        FACTORY_CONTRACTS = [''0x6ca3e8BFe9196A463136cB2442672e46BBe00BCc''],
        DOMAIN = ''2''\<rparr>),
      (''BASE'',
       \<lparr>CHAIN_ID = 8453, EXPLORER_URL = ''https://basescan.org/tx/'',
        FACTORY_CONTRACTS = [''0x724fB9Fd9876d12Da33223C84E7Abf46fFc159C1''],
        DOMAIN = ''6''\<rparr>)]"

definition RecvPacket :: string where "RecvPacket = ''recv_packet''"
definition WriteAcknowledgement :: string where "WriteAcknowledgement = ''write_acknowledgement''"
definition FungibleTokenPacket :: string where "FungibleTokenPacket = ''fungible_token_packet''"

record env =
  MINTSCAN_ACCESS_TOKEN :: "string option"
  ETHERSCAN_API_KEY :: "string option"

definition getMintscanHeaders :: "env \<Rightarrow> (string \<times> string) list option" where
  "getMintscanHeaders e =
     (case MINTSCAN_ACCESS_TOKEN e of
        None \<Rightarrow> None
      | Some t \<Rightarrow> if t \<noteq> [] then Some [(''Authorization'', ''Bearer '' @ t)] else None)"

definition getEtherscanApiKey :: "env \<Rightarrow> string option" where
  "getEtherscanApiKey e = ETHERSCAN_API_KEY e"

definition upperChar :: "char \<Rightarrow> char" where
  \<comment> \<open>a-z, and the Latin-1 small letters 224..254 except the division sign 247. The three
      code units whose capital is not a single code unit below 256 (181, 223, 255) are
      left as they are: a chain name containing one of them matches no key of the table
      either way.\<close>
  "upperChar c =
     (let n = charCode c
      in if (97 \<le> n \<and> n \<le> 122) \<or> (224 \<le> n \<and> n \<le> 254 \<and> n \<noteq> 247)
         then char_of (n - 32) else c)"

definition toUpperCase :: "string \<Rightarrow> string" where
  "toUpperCase s = map upperChar s"

definition canonicalizeChain :: "string \<Rightarrow> string" where
  "canonicalizeChain chain = toLowerCase chain"

definition getChainInfo :: "string \<Rightarrow> chain_info option" where
  "getChainInfo chain = map_of EVM_CHAIN_INFO (toUpperCase chain)"

section \<open>utils: response-formatter\<close>

text \<open>
  Both formatters wrap a text. The model keeps what the text is made from: the message
  of \<open>error\<close>, which in a \<open>catch\<close> block is a fixed prefix followed by the message of
  the exception caught, and the data object that \<open>success\<close> serializes.
\<close>

datatype response =
    ErrorText string
  | CaughtError string exn
  | Success json

definition item :: "string \<Rightarrow> json \<Rightarrow> json" where
  \<comment> \<open>a TraceItem without link\<close>
  "item l v = JObj [(''label'', JStr l), (''value'', v)]"

definition itemHref :: "string \<Rightarrow> json \<Rightarrow> json \<Rightarrow> json" where
  "itemHref l v h = JObj [(''label'', JStr l), (''value'', v), (''href'', h)]"

section \<open>Step 3: the handler \<open>cctpNobleTxHandler\<close>\<close>

definition isMsgBurn :: "json \<Rightarrow> bool" where
  "isMsgBurn msg =
     (strictEqStr (optMember msg ''@type'') ''/circle.fiattokenfactory.v1.MsgBurn''
      \<and> truthy (optMember msg ''amount''))"

definition burnOf :: "json list \<Rightarrow> json \<times> json" where
  \<comment> \<open>the loop over the messages: amount and denomination of the first MsgBurn message
      with an amount, \<open>null\<close> when there is none\<close>
  "burnOf messages =
     (case find isMsgBurn messages of
        None \<Rightarrow> (JNull, JNull)
      | Some msg \<Rightarrow> (getProp (getProp msg ''amount'') ''amount'',
                     getProp (getProp msg ''amount'') ''denom''))"

definition txMessages :: "json \<Rightarrow> json" where
  \<comment> \<open>\<open>tx?.tx?.body?.messages || []\<close>\<close>
  "txMessages tx =
     or_js (optMember (optMember (optMember tx ''tx'') ''body'') ''messages'') (JArr [])"

definition cctpMatch :: "string \<Rightarrow> string \<Rightarrow> cctp_data \<Rightarrow> bool" where
  \<comment> \<open>\<open>sameDomain && sameAddress\<close>\<close>
  "cctpMatch expectedDomain evmAddress d =
     ((case destinationDomain d of None \<Rightarrow> ''null'' | Some x \<Rightarrow> x) = expectedDomain
      \<and> normalizeAddress (case mintRecipient d of None \<Rightarrow> [] | Some r \<Rightarrow> r)
          = normalizeAddress evmAddress)"

definition cctpFound :: "js_runtime \<Rightarrow> string \<Rightarrow> cctp_data \<Rightarrow> json \<Rightarrow> exn + json" where
  \<comment> \<open>the body of the \<open>if (sameDomain && sameAddress)\<close> branch: the data of the result\<close>
  "cctpFound rt evmAddress d tx =
     (let txHash = getProp tx ''txhash'';
          txUrl = ''https://www.mintscan.io/noble/txs/'' @ String_js txHash
      in case iterate (txMessages tx) of
           Inl e \<Rightarrow> Inl e
         | Inr messages \<Rightarrow>
             (let (burnAmount, burnDenom) = burnOf messages;
                  items =
                    [itemHref ''Noble CCTP Tx'' txHash (JStr txUrl),
                     item ''Destination EVM'' (JStr evmAddress),
                     item ''Destination Domain''
                       (JStr (case destinationDomain d of None \<Rightarrow> ''null'' | Some x \<Rightarrow> x))]
                    @ (if truthy burnAmount \<and> truthy burnDenom
                       then [item ''Amount''
                               (JStr (String_js burnAmount @ '' '' @ String_js burnDenom))]
                       else [])
              in case newDateISO rt (getProp tx ''timestamp'') of
                   Inl e \<Rightarrow> Inl e
                 | Inr isoTime \<Rightarrow>
                     (let sanitizedTx =
                            JObj [(''hash'', JStr (String_js (getProp tx ''txhash''))),
                                  (''height'',
                                   Number_js rt (coalesce (getProp tx ''height'') (JNum 0))),
                                  (''code'',
                                   Number_js rt (coalesce (getProp tx ''code'') (JNum 0))),
                                  (''timestamp'', JStr isoTime),
                                  (''explorerUrl'', JStr txUrl)]
                      in Inr (JObj [(''title'', JStr ''CCTP on Noble''),
                                    (''found'', JBool True),
                                    (''txHash'', getProp sanitizedTx ''hash''),
                                    (''burnAmount'', burnAmount),
                                    (''burnDenom'', burnDenom),
                                    (''transaction'', sanitizedTx),
                                    (''items'', JArr items)]))))"

definition cctpNotFound :: json where
  "cctpNotFound =
     JObj [(''title'', JStr ''CCTP on Noble''),
           (''found'', JBool False),
           (''items'', JArr []),
           (''message'', JStr ''No matching CCTP burn transactions found'')]"

fun scanBurnTxs :: "js_runtime \<Rightarrow> string \<Rightarrow> string \<Rightarrow> json list \<Rightarrow> exn + json" where
  \<comment> \<open>the loop \<open>for (const tx of transactions)\<close> and the return after it\<close>
  "scanBurnTxs rt expectedDomain evmAddress [] = Inr cctpNotFound"
| "scanBurnTxs rt expectedDomain evmAddress (tx # txs) =
     (case extractCctpDataFromLogs (or_js (optMember tx ''logs'') (JArr [])) of
        Inl e \<Rightarrow> Inl e
      | Inr d \<Rightarrow>
          if cctpMatch expectedDomain evmAddress d then cctpFound rt evmAddress d tx
          else scanBurnTxs rt expectedDomain evmAddress txs)"

definition responseTransactions :: "json \<Rightarrow> json" where
  \<comment> \<open>\<open>response?.data?.transactions || response?.transactions || []\<close>\<close>
  "responseTransactions response =
     or_js (optMember (optMember response ''data'') ''transactions'')
       (or_js (optMember response ''transactions'') (JArr []))"

definition cctpNobleUrl :: "js_runtime \<Rightarrow> string \<Rightarrow> int \<Rightarrow> string" where
  "cctpNobleUrl rt address n =
     ''https://apis.mintscan.io/v1/noble/accounts/'' @ address @ ''/transactions?take=''
       @ numberString rt n @ ''&messageTypes%5B0%5D=circle.fiattokenfactory.v1.MsgBurn''"

definition cctpNobleTrace ::
  "js_runtime \<Rightarrow> env \<Rightarrow> network \<Rightarrow> string \<Rightarrow> string \<Rightarrow> string \<Rightarrow> int \<Rightarrow> response" where
  \<comment> \<open>the \<open>try\<close> block of \<open>cctpNobleTxHandler\<close> with its \<open>catch\<close>\<close>
  "cctpNobleTrace rt e net nobleAddress destChainParam destinationEvmAddress take' =
     (let destChain = canonicalizeChain destChainParam;
          response = httpGet net (cctpNobleUrl rt nobleAddress take') []
                       ''application/json'' True 3 (getMintscanHeaders e);
          transactions = responseTransactions response
      in case getChainInfo destChain of
           None \<Rightarrow> ErrorText (''Unsupported destination chain: '' @ destChain)
         | Some chainInfo \<Rightarrow>
             (case iterate transactions of
                Inl ex \<Rightarrow> CaughtError ''Error tracing CCTP Noble step: '' ex
              | Inr txs \<Rightarrow>
                  (case scanBurnTxs rt (DOMAIN chainInfo) destinationEvmAddress txs of
                     Inl ex \<Rightarrow> CaughtError ''Error tracing CCTP Noble step: '' ex
                   | Inr data \<Rightarrow> Success data)))"

definition cctpNobleTxHandler ::
  "js_runtime \<Rightarrow> env \<Rightarrow> network
     \<Rightarrow> string option \<Rightarrow> string option \<Rightarrow> string option \<Rightarrow> int option \<Rightarrow> response" where
  \<comment> \<open>the parameters \<open>nobleAddress\<close>, \<open>destChain\<close>, \<open>destinationEvmAddress\<close> and \<open>take\<close>,
      each of which may be absent; \<open>take\<close>, an integer here, defaults to 20\<close>
  "cctpNobleTxHandler rt e net nobleAddress destChainParam destinationEvmAddress take' =
     (case (nobleAddress, destChainParam, destinationEvmAddress) of
        (Some a, Some c, Some d) \<Rightarrow>
          if a = [] \<or> c = [] \<or> d = []
          then ErrorText ''Missing required parameters''
          else cctpNobleTrace rt e net a c d (case take' of None \<Rightarrow> 20 | Some n \<Rightarrow> n)
      | _ \<Rightarrow> ErrorText ''Missing required parameters'')"

section \<open>Step 1: the handler \<open>axelarGmpTxHandler\<close>\<close>

definition gmpBody :: "int \<Rightarrow> string \<Rightarrow> string \<Rightarrow> string \<Rightarrow> json" where
  "gmpBody size' agoricAddress factoryAddress destChain =
     JObj [(''size'', JNum size'),
           (''sourceAddress'', JStr agoricAddress),
           (''address'', JStr factoryAddress),
           (''destinationChain'', JStr destChain)]"

definition searchGMP :: "network \<Rightarrow> json \<Rightarrow> json" where
  "searchGMP net b = post net ''https://api.axelarscan.io/gmp/searchGMP'' b"

definition nonEmptyData :: "json \<Rightarrow> bool" where
  \<comment> \<open>\<open>Array.isArray(data?.data) && data.data.length > 0\<close>\<close>
  "nonEmptyData data = (case optMember data ''data'' of JArr xs \<Rightarrow> xs \<noteq> [] | _ \<Rightarrow> False)"

fun probeFactories ::
  "network \<Rightarrow> int \<Rightarrow> string \<Rightarrow> string \<Rightarrow> string list \<Rightarrow> json list \<Rightarrow> json \<times> json list" where
  \<comment> \<open>the loop over the factory contracts. The second component is the list of the
      bodies posted so far, in order: one entry for each call of \<open>post\<close>.\<close>
  "probeFactories net size' agoricAddress destChain [] posted = (JNull, posted)"
| "probeFactories net size' agoricAddress destChain (factoryAddress # rest) posted =
     (let b = gmpBody size' agoricAddress factoryAddress destChain;
          data = searchGMP net b
      in if nonEmptyData data then (data, posted @ [b])
         else probeFactories net size' agoricAddress destChain rest (posted @ [b]))"

definition optLength :: "json \<Rightarrow> json" where
  \<comment> \<open>\<open>v?.length\<close>\<close>
  "optLength v = (if nullish v then JUndefined else lengthOf v)"

definition whenTruthy :: "json \<Rightarrow> json \<Rightarrow> json" where
  \<comment> \<open>\<open>c ? v : undefined\<close>\<close>
  "whenTruthy c v = (if truthy c then v else JUndefined)"

definition gmpNotFound :: json where
  "gmpNotFound =
     JObj [(''step'', JStr ''step1''),
           (''title'', JStr ''Axelar GMP (make account)''),
           (''found'', JBool False),
           (''message'', JStr ''No GMP transactions found''),
           (''items'', JArr [])]"

definition gmpResult :: "js_runtime \<Rightarrow> chain_info \<Rightarrow> json \<Rightarrow> exn + json" where
  \<comment> \<open>what the handler does with \<open>gmpData\<close> after the loop\<close>
  "gmpResult rt chainInfo gmpData =
     (if \<not> truthy (optLength (optMember gmpData ''data'')) then Inr gmpNotFound
      else
        (let first = element (getProp gmpData ''data'') 0;
             gmpId = optMember (optMember first ''call'') ''_id'';
             event = optMember (optMember first ''call'') ''event'';
             destTxHash = optMember (optMember first ''approved'') ''transactionHash'';
             timestamp = or_js (optMember (optMember first ''call'') ''timestamp'')
                           (optMember first ''timestamp'');
             sourceTxHash = optMember (optMember first ''call'') ''transactionHash'';
             items =
               (if truthy destTxHash \<and> EXPLORER_URL chainInfo \<noteq> []
                then [itemHref ''Destination Tx'' destTxHash
                        (JStr (EXPLORER_URL chainInfo @ String_js destTxHash))]
                else [])
               @ (if truthy sourceTxHash
                  then [itemHref ''Source Tx'' sourceTxHash
                          (JStr (''https://axelarscan.io/tx/'' @ String_js sourceTxHash))]
                  else [])
               @ (if truthy gmpId
                  then [itemHref ''Axelar GMP ID'' gmpId
                          (JStr (''https://axelarscan.io/gmp/'' @ String_js gmpId))]
                  else [])
               @ (if truthy event then [item ''Event'' (JStr (String_js event))] else [])
         in case (if truthy timestamp then map_sum id JStr (newDateISO rt timestamp)
                  else Inr JUndefined) of
              Inl e \<Rightarrow> Inl e
            | Inr isoTime \<Rightarrow>
                (let sanitizedTx =
                       JObj [(''gmpId'', JStr (String_js (coalesce gmpId (JStr [])))),
                             (''event'', whenTruthy event (JStr (String_js event))),
                             (''destTxHash'',
                              whenTruthy destTxHash (JStr (String_js destTxHash))),
                             (''sourceTxHash'',
                              whenTruthy sourceTxHash (JStr (String_js sourceTxHash))),
                             (''timestamp'', isoTime),
                             (''explorerUrl'',
                              whenTruthy destTxHash
                                (JStr (EXPLORER_URL chainInfo @ String_js destTxHash))),
                             (''gmpUrl'',
                              whenTruthy gmpId
                                (JStr (''https://axelarscan.io/gmp/'' @ String_js gmpId)))]
                 in Inr (JObj [(''title'', JStr ''Axelar GMP (make account)''),
                               (''found'', JBool True),
                               (''transaction'', sanitizedTx),
                               (''items'', JArr items)]))))"

definition axelarGmpTrace ::
  "js_runtime \<Rightarrow> network \<Rightarrow> string \<Rightarrow> string \<Rightarrow> int \<Rightarrow> response \<times> json list" where
  \<comment> \<open>the \<open>try\<close> block of \<open>axelarGmpTxHandler\<close> with its \<open>catch\<close>; the result comes
      with the list of the bodies posted to the GMP index\<close>
  "axelarGmpTrace rt net destChainParam agoricAddress size' =
     (let destChain = canonicalizeChain destChainParam
      in case getChainInfo destChain of
           None \<Rightarrow> (ErrorText (''No factory contracts configured for chain: '' @ destChain), [])
         | Some chainInfo \<Rightarrow>
             if FACTORY_CONTRACTS chainInfo = []
             then (ErrorText (''No factory contracts configured for chain: '' @ destChain), [])
             else
               (let (gmpData, posted) =
                      probeFactories net size' agoricAddress destChain
                        (FACTORY_CONTRACTS chainInfo) []
                in (case gmpResult rt chainInfo gmpData of
                      Inl ex \<Rightarrow> CaughtError ''Error tracing Axelar GMP step: '' ex
                    | Inr data \<Rightarrow> Success data,
                    posted)))"

definition axelarGmpTxHandler ::
  "js_runtime \<Rightarrow> network \<Rightarrow> string option \<Rightarrow> string option \<Rightarrow> int option
     \<Rightarrow> response \<times> json list" where
  \<comment> \<open>the parameters \<open>destChain\<close>, \<open>agoricAddress\<close> and \<open>size\<close> (default 1)\<close>
  "axelarGmpTxHandler rt net destChainParam agoricAddress size' =
     (case (destChainParam, agoricAddress) of
        (Some c, Some a) \<Rightarrow>
          if c = [] \<or> a = [] then (ErrorText ''Missing required parameters'', [])
          else axelarGmpTrace rt net c a (case size' of None \<Rightarrow> 1 | Some n \<Rightarrow> n)
      | _ \<Rightarrow> (ErrorText ''Missing required parameters'', []))"

section \<open>Step 2: the handler \<open>agoricFundingTxHandler\<close>\<close>

fun findKey :: "string \<Rightarrow> json list \<Rightarrow> exn + json" where
  \<comment> \<open>\<open>attributes.find((a) => a.key === k)\<close> on an array: the callback reads \<open>a.key\<close>
      without guard, and elements after the first hit are not visited\<close>
  "findKey k [] = Inr JUndefined"
| "findKey k (a # as) =
     (case member a ''key'' of
        Inl e \<Rightarrow> Inl e
      | Inr v \<Rightarrow> if strictEqStr v k then Inr a else findKey k as)"

definition findByKey :: "string \<Rightarrow> json \<Rightarrow> exn + json" where
  "findByKey k attributes =
     (case arrayOf attributes of Inl e \<Rightarrow> Inl e | Inr as \<Rightarrow> findKey k as)"

datatype flow = Return json | Continue | Next

definition packetReceiver :: "js_runtime \<Rightarrow> json \<Rightarrow> json \<Rightarrow> exn + flow" where
  \<comment> \<open>the first \<open>if\<close> of the loop body of \<open>extractReceiverFromLogs\<close>: it returns a
      receiver, continues with the next event, or goes on to the second \<open>if\<close>\<close>
  "packetReceiver rt type attributes =
     (if strictEqStr type RecvPacket \<or> strictEqStr type WriteAcknowledgement then
        (case findByKey ''packet_data'' attributes of
           Inl e \<Rightarrow> Inl e
         | Inr a \<Rightarrow>
             (let packetData = optMember a ''value''
              in if \<not> truthy packetData then Inr Continue
                 else (case JSON_parse rt (String_js packetData) of
                         None \<Rightarrow> Inr Next
                       | Some packet \<Rightarrow>
                           if truthy (optMember packet ''receiver'')
                           then Inr (Return (getProp packet ''receiver''))
                           else Inr Next)))
      else Inr Next)"

definition tokenPacketReceiver :: "json \<Rightarrow> json \<Rightarrow> exn + flow" where
  \<comment> \<open>the second \<open>if\<close> of the loop body\<close>
  "tokenPacketReceiver type attributes =
     (if strictEqStr type FungibleTokenPacket then
        (case findByKey ''receiver'' attributes of
           Inl e \<Rightarrow> Inl e
         | Inr a \<Rightarrow>
             (let receiver = optMember a ''value''
              in if truthy receiver then Inr (Return receiver) else Inr Next))
      else Inr Next)"

fun receiverOfEvents :: "js_runtime \<Rightarrow> json list \<Rightarrow> exn + json" where
  \<comment> \<open>the loop \<open>for (const event of events)\<close> and the \<open>return null\<close> after it\<close>
  "receiverOfEvents rt [] = Inr JNull"
| "receiverOfEvents rt (event # events) =
     (let ev = coalesce event (JObj []);
          type = getProp ev ''type'';
          attributes = (if getProp ev ''attributes'' = JUndefined then JArr []
                        else getProp ev ''attributes'')
      in case packetReceiver rt type attributes of
           Inl e \<Rightarrow> Inl e
         | Inr (Return r) \<Rightarrow> Inr r
         | Inr Continue \<Rightarrow> receiverOfEvents rt events
         | Inr Next \<Rightarrow>
             (case tokenPacketReceiver type attributes of
                Inl e \<Rightarrow> Inl e
              | Inr (Return r) \<Rightarrow> Inr r
              | Inr _ \<Rightarrow> receiverOfEvents rt events))"

definition extractReceiverFromLogs :: "js_runtime \<Rightarrow> json \<Rightarrow> exn + json" where
  "extractReceiverFromLogs rt logs =
     (case logs of
        JArr ls \<Rightarrow> receiverOfEvents rt (flatMapEvents ls)
      | _ \<Rightarrow> Inr JNull)"

definition stripApostrophes :: "string \<Rightarrow> string" where
  \<comment> \<open>\<open>s.replace(/'/g, '')\<close>\<close>
  "stripApostrophes s = filter (\<lambda>c. c \<noteq> CHR 0x27) s"

fun txhashes :: "json list \<Rightarrow> exn + json list" where
  \<comment> \<open>\<open>.map((tx) => tx.txhash)\<close>\<close>
  "txhashes [] = Inr []"
| "txhashes (tx # txs) =
     (case member tx ''txhash'' of
        Inl e \<Rightarrow> Inl e
      | Inr h \<Rightarrow> (case txhashes txs of Inl e \<Rightarrow> Inl e | Inr hs \<Rightarrow> Inr (h # hs)))"

definition getNobleTxByIbc :: "network \<Rightarrow> json \<Rightarrow> json \<Rightarrow> json list" where
  \<comment> \<open>the \<open>hashes\<close> of the result; every exception inside is caught and gives the empty
      list\<close>
  "getNobleTxByIbc net channel sequence =
     (if \<not> truthy channel \<or> \<not> truthy sequence then []
      else
        (let sanitizedChannel = stripApostrophes (String_js channel);
             sanitizedSequence = stripApostrophes (String_js sequence);
             queryValue = ''recv_packet.packet_dst_channel='' @ [CHR 0x27] @ sanitizedChannel
                          @ [CHR 0x27] @ '' AND recv_packet.packet_sequence='' @ [CHR 0x27]
                          @ sanitizedSequence @ [CHR 0x27];
             data = httpGet net ''https://noble-api.polkachu.com/cosmos/tx/v1beta1/txs''
                      [(''pagination.limit'', ''3''), (''limit'', ''3''), (''query'', queryValue)]
                      ''application/json'' True 3 None
         in if \<not> truthy data then []
            else (case arrayOf (coalesce (getProp data ''tx_responses'') (JArr [])) of
                    Inl e \<Rightarrow> []
                  | Inr txs \<Rightarrow>
                      (case txhashes txs of
                         Inl e \<Rightarrow> []
                       | Inr hs \<Rightarrow> filter truthy hs))))"

definition packetItems :: "json \<Rightarrow> json list" where
  \<comment> \<open>the items one message contributes\<close>
  "packetItems msg =
     (let packet = optMember msg ''packet''
      in (if truthy (optMember packet ''sequence'')
          then [item ''IBC Packet Seq'' (JStr (String_js (getProp packet ''sequence'')))]
          else [])
         @ (if truthy (optMember packet ''destination_channel'')
            then [item ''IBC Channel''
                    (JStr (String_js (getProp packet ''destination_channel'')))]
            else [])
         @ (if truthy (optMember packet ''destination_port'')
            then [item ''IBC Port'' (JStr (String_js (getProp packet ''destination_port'')))]
            else []))"

definition nobleTxItems :: "network \<Rightarrow> json list \<Rightarrow> json list" where
  \<comment> \<open>the lookup of the Noble transaction from the first message with a packet\<close>
  "nobleTxItems net messages =
     (case find (\<lambda>m. truthy (optMember m ''packet'')) messages of
        None \<Rightarrow> []
      | Some packetMsg \<Rightarrow>
          (let destChannel = getProp (getProp packetMsg ''packet'') ''destination_channel'';
               sequence = getProp (getProp packetMsg ''packet'') ''sequence''
           in if truthy destChannel \<and> truthy sequence
              then (case getNobleTxByIbc net destChannel sequence of
                      [] \<Rightarrow> []
                    | nobleHash # hs \<Rightarrow>
                        [itemHref ''Noble Tx'' nobleHash
                           (JStr (''https://www.mintscan.io/noble/txs/''
                                  @ String_js nobleHash))])
              else []))"

definition fundingFound :: "network \<Rightarrow> string \<Rightarrow> json \<Rightarrow> exn + json list" where
  \<comment> \<open>the body of the \<open>if (receiverAddress === nobleAddress)\<close> branch: the items\<close>
  "fundingFound net nobleAddress tx =
     (let txHash = getProp tx ''txhash'';
          messages = txMessages tx
      in case iterate messages of
           Inl e \<Rightarrow> Inl e
         | Inr msgs \<Rightarrow>
             (case arrayOf messages of
                Inl e \<Rightarrow> Inl e
              | Inr ms \<Rightarrow>
                  Inr ([itemHref ''Agoric Tx'' txHash
                          (JStr (''https://www.mintscan.io/agoric/txs/'' @ String_js txHash)),
                        item ''Receiver'' (JStr nobleAddress)]
                       @ concat (map packetItems msgs)
                       @ nobleTxItems net ms)))"

fun scanAckTxs ::
  "js_runtime \<Rightarrow> network \<Rightarrow> string \<Rightarrow> json list \<Rightarrow> exn + (json list) option" where
  \<comment> \<open>the loop \<open>for (const tx of transactions)\<close>: \<open>None\<close> when no transaction set
      \<open>foundRelevantTx\<close>, the items otherwise\<close>
  "scanAckTxs rt net nobleAddress [] = Inr None"
| "scanAckTxs rt net nobleAddress (tx # txs) =
     (case extractReceiverFromLogs rt (or_js (optMember tx ''logs'') (JArr [])) of
        Inl e \<Rightarrow> Inl e
      | Inr receiverAddress \<Rightarrow>
          if strictEqStr receiverAddress nobleAddress
          then map_sum id Some (fundingFound net nobleAddress tx)
          else scanAckTxs rt net nobleAddress txs)"

definition agoricFundingUrl :: "js_runtime \<Rightarrow> string \<Rightarrow> int \<Rightarrow> string" where
  "agoricFundingUrl rt address n =
     ''https://apis.mintscan.io/v1/agoric/accounts/'' @ address @ ''/transactions?take=''
       @ numberString rt n @ ''&messageTypes%5B0%5D=/ibc.core.channel.v1.MsgAcknowledgement''"

definition agoricFundingTrace ::
  "js_runtime \<Rightarrow> env \<Rightarrow> network \<Rightarrow> string \<Rightarrow> string \<Rightarrow> int \<Rightarrow> response" where
  \<comment> \<open>the \<open>try\<close> block of \<open>agoricFundingTxHandler\<close> with its \<open>catch\<close>\<close>
  "agoricFundingTrace rt e net agoricAddress nobleAddress take' =
     (let response = httpGet net (agoricFundingUrl rt agoricAddress take') []
                       ''application/json'' True 3 (getMintscanHeaders e);
          transactions = responseTransactions response
      in case iterate transactions of
           Inl ex \<Rightarrow> CaughtError ''Error tracing Agoric funding ACK step: '' ex
         | Inr txs \<Rightarrow>
             (case scanAckTxs rt net nobleAddress txs of
                Inl ex \<Rightarrow> CaughtError ''Error tracing Agoric funding ACK step: '' ex
              | Inr None \<Rightarrow>
                  Success
                    (JObj [(''title'', JStr ''Funding of Noble ICA + IBC ACK''),
                           (''found'', JBool False),
                           (''items'', JArr []),
                           (''message'',
                            JStr (''No relevant IBC acknowledgment transactions found in the last ''
                                  @ String_js (lengthOf transactions)
                                  @ '' transactions (Mintscan limit: 20)''))])
              | Inr (Some items) \<Rightarrow>
                  Success
                    (JObj [(''title'', JStr ''Funding of Noble ICA + IBC ACK''),
                           (''found'', JBool True),
                           (''items'', JArr items),
                           (''message'', JUndefined)])))"

definition agoricFundingTxHandler ::
  "js_runtime \<Rightarrow> env \<Rightarrow> network \<Rightarrow> string option \<Rightarrow> string option \<Rightarrow> int option
     \<Rightarrow> response" where
  \<comment> \<open>the parameters \<open>agoricAddress\<close>, \<open>nobleAddress\<close> and \<open>take\<close> (an integer here,
      default 20)\<close>
  "agoricFundingTxHandler rt e net agoricAddress nobleAddress take' =
     (case (agoricAddress, nobleAddress) of
        (Some a, Some n) \<Rightarrow>
          if a = [] \<or> n = [] then ErrorText ''Missing required parameters''
          else agoricFundingTrace rt e net a n (case take' of None \<Rightarrow> 20 | Some k \<Rightarrow> k)
      | _ \<Rightarrow> ErrorText ''Missing required parameters'')"

section \<open>Step 4: the handler \<open>finalEvmTxHandler\<close>\<close>

definition transferTopic :: string where
  "transferTopic = ''0xddf252ad1be2c89b69c2b068fc378daa952ba7f163c4a11628f55a4df523b3ef''"

definition etherscanApi :: string where
  "etherscanApi = ''https://api.etherscan.io/v2/api''"

fun filterExecutes :: "json list \<Rightarrow> exn + json list" where
  \<comment> \<open>\<open>transactions.filter((t) => String(t.functionName || '').startsWith('execute'))\<close>\<close>
  "filterExecutes [] = Inr []"
| "filterExecutes (t # ts) =
     (case member t ''functionName'' of
        Inl e \<Rightarrow> Inl e
      | Inr f \<Rightarrow>
          (case filterExecutes ts of
             Inl e \<Rightarrow> Inl e
           | Inr r \<Rightarrow> Inr (if startsWith (String_js (or_js f (JStr []))) ''execute''
                            then t # r else r)))"

definition timeCompare :: "js_runtime \<Rightarrow> json \<Rightarrow> json \<Rightarrow> int" where
  \<comment> \<open>the comparator \<open>Number(b.timeStamp || 0) - Number(a.timeStamp || 0)\<close>; a result
      \<open>NaN\<close> counts as 0\<close>
  "timeCompare rt a b =
     (case (Number_js rt (or_js (getProp b ''timeStamp'') (JNum 0)),
            Number_js rt (or_js (getProp a ''timeStamp'') (JNum 0))) of
        (JNum x, JNum y) \<Rightarrow> x - y
      | _ \<Rightarrow> 0)"

fun insertByTime :: "js_runtime \<Rightarrow> json \<Rightarrow> json list \<Rightarrow> json list" where
  "insertByTime rt x [] = [x]"
| "insertByTime rt x (y # ys) =
     (if timeCompare rt x y \<le> 0 then x # y # ys else y # insertByTime rt x ys)"

definition timeDifference :: "js_runtime \<Rightarrow> json \<Rightarrow> json \<Rightarrow> json" where
  \<comment> \<open>the comparator itself, with its result \<open>NaN\<close>\<close>
  "timeDifference rt a b =
     (case (Number_js rt (or_js (getProp b ''timeStamp'') (JNum 0)),
            Number_js rt (or_js (getProp a ''timeStamp'') (JNum 0))) of
        (JNum x, JNum y) \<Rightarrow> JNum (x - y)
      | _ \<Rightarrow> JNaN)"

definition numericTime :: "js_runtime \<Rightarrow> json \<Rightarrow> bool" where
  \<comment> \<open>\<open>Number(t.timeStamp || 0)\<close> is a number\<close>
  "numericTime rt t =
     (case Number_js rt (or_js (getProp t ''timeStamp'') (JNum 0)) of
        JNum x \<Rightarrow> True
      | _ \<Rightarrow> False)"

definition sortByTime :: "js_runtime \<Rightarrow> json list \<Rightarrow> json list" where
  \<comment> \<open>\<open>executes.sort(comparator)\<close>. When every timestamp converts to a number the
      comparator is consistent and the result is that of the stable sort. With a
      timestamp that converts to \<open>NaN\<close> the comparator is not consistent, and the order is
      the one the engine gives.\<close>
  "sortByTime rt xs =
     (if list_all (numericTime rt) xs then foldr (insertByTime rt) xs []
      else Array_sort rt (timeDifference rt) xs)"

definition geNum :: "js_runtime \<Rightarrow> json \<Rightarrow> int \<Rightarrow> bool" where
  \<comment> \<open>\<open>v >= k\<close> for a number \<open>k\<close>\<close>
  "geNum rt v k = (case Number_js rt v of JNum n \<Rightarrow> k \<le> n | _ \<Rightarrow> False)"

definition slice26 :: "json \<Rightarrow> exn + json" where
  \<comment> \<open>\<open>v.slice(26)\<close>: strings and arrays have the method\<close>
  "slice26 v =
     (case v of JStr s \<Rightarrow> Inr (JStr (drop 26 s))
              | JArr xs \<Rightarrow> Inr (JArr (drop 26 xs))
              | _ \<Rightarrow> Inl TypeError)"

definition isTransferTo :: "js_runtime \<Rightarrow> string \<Rightarrow> json \<Rightarrow> exn + bool" where
  \<comment> \<open>the two nested conditions on a log of the receipt\<close>
  "isTransferTo rt destinationEvmAddress log =
     (case member log ''topics'' of
        Inl e \<Rightarrow> Inl e
      | Inr topics \<Rightarrow>
          if \<not> nullish topics \<and> strictEqStr (element topics 0) transferTopic
             \<and> geNum rt (lengthOf topics) 3
          then (case slice26 (element topics 2) of
                  Inl e \<Rightarrow> Inl e
                | Inr sliced \<Rightarrow>
                    Inr (toLowerCase (''0x'' @ String_js sliced)
                         = toLowerCase destinationEvmAddress))
          else Inr False)"

definition amountMatches :: "string option \<Rightarrow> int \<Rightarrow> bool" where
  \<comment> \<open>\<open>if (expectedAmount) { try { if (amountBaseUnits === BigInt(expectedAmount)) ... } catch ... }\<close>\<close>
  "amountMatches expectedAmount amountBaseUnits =
     (case expectedAmount of
        None \<Rightarrow> False
      | Some s \<Rightarrow>
          s \<noteq> [] \<and> (case BigInt_js (JStr s) of
                        Inl e \<Rightarrow> False
                      | Inr expectedBaseUnits \<Rightarrow> amountBaseUnits = expectedBaseUnits))"

definition amountMatchItem :: json where
  "amountMatchItem = item ''Amount Match'' (JStr ''Matches expected base-unit amount'')"

fun scanLogs ::
  "js_runtime \<Rightarrow> string \<Rightarrow> string option \<Rightarrow> json \<Rightarrow> json list \<Rightarrow> json \<times> json list" where
  \<comment> \<open>the loop over the logs of the receipt, from the current value of
      \<open>tokenTransferAmount\<close>: the final value and the items pushed. An exception leaves
      the loop: the \<open>catch\<close> around the receipt block only logs it.\<close>
  "scanLogs rt destinationEvmAddress expectedAmount tokenTransferAmount [] =
     (tokenTransferAmount, [])"
| "scanLogs rt destinationEvmAddress expectedAmount tokenTransferAmount (log # logs) =
     (case isTransferTo rt destinationEvmAddress log of
        Inl e \<Rightarrow> (tokenTransferAmount, [])
      | Inr False \<Rightarrow> scanLogs rt destinationEvmAddress expectedAmount tokenTransferAmount logs
      | Inr True \<Rightarrow>
          (case BigInt_js (getProp log ''data'') of
             Inl e \<Rightarrow>
               scanLogs rt destinationEvmAddress expectedAmount (getProp log ''data'') logs
           | Inr amountBaseUnits \<Rightarrow>
               (getProp log ''data'',
                item ''Token Transfer (base units)'' (JStr (decimalInt amountBaseUnits))
                # (if amountMatches expectedAmount amountBaseUnits then [amountMatchItem]
                   else []))))"

definition receiptTransfer ::
  "js_runtime \<Rightarrow> network \<Rightarrow> nat \<Rightarrow> string \<Rightarrow> string \<Rightarrow> string option \<Rightarrow> json
     \<Rightarrow> json \<times> json list" where
  \<comment> \<open>the \<open>try\<close> block that fetches the receipt, with its \<open>catch\<close>\<close>
  "receiptTransfer rt net chainId apiKey destinationEvmAddress expectedAmount evmTx =
     (let receiptResponse =
            httpGet net etherscanApi
              [(''chainid'', decimalNat chainId), (''module'', ''proxy''),
               (''action'', ''eth_getTransactionReceipt''),
               (''txhash'', String_js (getProp evmTx ''hash'')), (''apikey'', apiKey)]
              ''application/json'' True 3 None;
          receipt = optMember receiptResponse ''result''
      in if truthy (optMember receipt ''logs'')
         then (case iterate (getProp receipt ''logs'') of
                 Inl e \<Rightarrow> (JNull, [])
               | Inr logs \<Rightarrow> scanLogs rt destinationEvmAddress expectedAmount JNull logs)
         else (JNull, []))"

definition methodName :: "json \<Rightarrow> string" where
  \<comment> \<open>\<open>String(f).split('(')[0]\<close>\<close>
  "methodName f = takeWhile (\<lambda>c. c \<noteq> CHR ''('') (String_js f)"

definition evmNotFound :: json where
  "evmNotFound =
     JObj [(''step'', JStr ''step4''),
           (''title'', JStr ''Final EVM Transaction''),
           (''found'', JBool False),
           (''items'', JArr []),
           (''message'', JStr ''No execute* transactions found'')]"

definition explorerLink :: "chain_info \<Rightarrow> json \<Rightarrow> json" where
  \<comment> \<open>\<open>explorer ? `${explorer}${evmTx.hash}` : undefined\<close>\<close>
  "explorerLink chainInfo evmTx =
     (if EXPLORER_URL chainInfo \<noteq> []
      then JStr (EXPLORER_URL chainInfo @ String_js (getProp evmTx ''hash''))
      else JUndefined)"

definition evmItems :: "js_runtime \<Rightarrow> chain_info \<Rightarrow> json \<Rightarrow> exn + json list" where
  \<comment> \<open>the items with the readable transaction info; the date of the \<open>Time\<close> item may
      raise a RangeError\<close>
  "evmItems rt chainInfo evmTx =
     (let field = getProp evmTx
      in case (if truthy (field ''timeStamp'')
               then map_sum id (\<lambda>s. [item ''Time'' (JStr s)]) (secondsISO rt (field ''timeStamp''))
               else Inr []) of
           Inl e \<Rightarrow> Inl e
         | Inr timeItems \<Rightarrow>
             Inr ((if truthy (field ''hash'')
                   then [itemHref ''Tx Hash'' (field ''hash'') (explorerLink chainInfo evmTx)]
                   else [])
                  @ (if truthy (field ''from'') then [item ''From'' (field ''from'')] else [])
                  @ (if truthy (field ''to'') then [item ''To'' (field ''to'')] else [])
                  @ (if truthy (field ''blockNumber'')
                     then [item ''Block'' (JStr (String_js (field ''blockNumber'')))] else [])
                  @ timeItems
                  @ (if truthy (field ''functionName'')
                     then [item ''Method'' (JStr (methodName (field ''functionName'')))]
                     else [])
                  @ (if truthy (field ''gasUsed'')
                     then [item ''Gas Used'' (JStr (String_js (field ''gasUsed'')))] else [])
                  @ (if truthy (field ''gasPrice'')
                     then [item ''Gas Price (Gwei)''
                             (JStr (gweiFixed2 rt (Number_js rt (field ''gasPrice''))))]
                     else [])))"

definition sanitizedEvmTx :: "js_runtime \<Rightarrow> chain_info \<Rightarrow> json \<Rightarrow> exn + json" where
  \<comment> \<open>the object \<open>sanitizedTx\<close>; its date may raise a RangeError\<close>
  "sanitizedEvmTx rt chainInfo evmTx =
     (let field = getProp evmTx
      in case secondsISO rt (field ''timeStamp'') of
           Inl e \<Rightarrow> Inl e
         | Inr isoTime \<Rightarrow>
             Inr (JObj [(''hash'', JStr (String_js (field ''hash''))),
                        (''from'', JStr (String_js (field ''from''))),
                        (''to'', JStr (String_js (field ''to''))),
                        (''value'', JStr (String_js (coalesce (field ''value'') (JStr ''0'')))),
                        (''blockNumber'',
                         Number_js rt (coalesce (field ''blockNumber'') (JNum 0))),
                        (''timeStamp'', JStr isoTime),
                        (''gasUsed'',
                         JStr (String_js (coalesce (field ''gasUsed'') (JStr ''0'')))),
                        (''gasPrice'',
                         JStr (String_js (coalesce (field ''gasPrice'') (JStr ''0'')))),
                        (''method'',
                         whenTruthy (field ''functionName'')
                           (JStr (methodName (field ''functionName'')))),
                        (''confirmations'',
                         Number_js rt (coalesce (field ''confirmations'') (JNum 0))),
                        (''explorerUrl'', explorerLink chainInfo evmTx)]))"

definition evmFound ::
  "js_runtime \<Rightarrow> network \<Rightarrow> chain_info \<Rightarrow> string \<Rightarrow> string \<Rightarrow> string option \<Rightarrow> json
     \<Rightarrow> exn + json" where
  \<comment> \<open>the handler from \<open>const explorer = chainInfo.EXPLORER_URL\<close> on: the items, the
      receipt, the summary and the result\<close>
  "evmFound rt net chainInfo apiKey destinationEvmAddress expectedAmount evmTx =
     (case evmItems rt chainInfo evmTx of
        Inl e \<Rightarrow> Inl e
      | Inr items1 \<Rightarrow>
          (let (tokenTransferAmount, items2) =
                 receiptTransfer rt net (CHAIN_ID chainInfo) apiKey destinationEvmAddress
                   expectedAmount evmTx
           in case sanitizedEvmTx rt chainInfo evmTx of
                Inl e \<Rightarrow> Inl e
              | Inr sanitizedTx \<Rightarrow>
                  Inr (JObj [(''title'', JStr ''Final EVM Transaction''),
                             (''found'', JBool True),
                             (''txHash'', getProp sanitizedTx ''hash''),
                             (''tokenTransferAmount'', tokenTransferAmount),
                             (''transaction'', sanitizedTx),
                             (''items'', JArr (items1 @ items2))])))"

definition evmSelect ::
  "js_runtime \<Rightarrow> network \<Rightarrow> chain_info \<Rightarrow> string \<Rightarrow> string \<Rightarrow> string option \<Rightarrow> json
     \<Rightarrow> exn + response" where
  \<comment> \<open>the handler from \<open>const { status, message, result } = response\<close> on\<close>
  "evmSelect rt net chainInfo apiKey destinationEvmAddress expectedAmount response =
     (let status = getProp response ''status'';
          message = getProp response ''message'';
          result = getProp response ''result''
      in if strictEqStr status ''0'' \<and> \<not> isArray result
         then Inr (ErrorText
                     (''Etherscan error: ''
                      @ String_js (case result of JStr s \<Rightarrow> JStr s
                                   | _ \<Rightarrow> or_js message (JStr ''NOTOK''))))
         else
           (case filterExecutes (case result of JArr ts \<Rightarrow> ts | _ \<Rightarrow> []) of
              Inl e \<Rightarrow> Inl e
            | Inr executes \<Rightarrow>
                (case sortByTime rt executes of
                   [] \<Rightarrow> Inr (Success evmNotFound)
                 | evmTx # others \<Rightarrow>
                     if \<not> truthy evmTx then Inr (Success evmNotFound)
                     else map_sum id Success
                            (evmFound rt net chainInfo apiKey destinationEvmAddress
                               expectedAmount evmTx))))"

definition finalEvmTrace ::
  "js_runtime \<Rightarrow> env \<Rightarrow> network \<Rightarrow> string \<Rightarrow> string \<Rightarrow> string option \<Rightarrow> response" where
  \<comment> \<open>the \<open>try\<close> block of \<open>finalEvmTxHandler\<close> with its \<open>catch\<close>\<close>
  "finalEvmTrace rt e net destChainParam destinationEvmAddress expectedAmount =
     (let destChain = canonicalizeChain destChainParam
      in case getChainInfo destChain of
           None \<Rightarrow> ErrorText (''Unsupported destination chain: '' @ destChain)
         | Some chainInfo \<Rightarrow>
             (case getEtherscanApiKey e of
                None \<Rightarrow> ErrorText ''Missing Etherscan API key''
              | Some apiKey \<Rightarrow>
                  if apiKey = [] then ErrorText ''Missing Etherscan API key''
                  else
                    (let response =
                           httpGet net etherscanApi
                             [(''chainid'', decimalNat (CHAIN_ID chainInfo)),
                              (''module'', ''account''), (''action'', ''txlist''),
                              (''address'', destinationEvmAddress), (''sort'', ''desc''),
                              (''page'', ''1''), (''offset'', ''20''), (''apikey'', apiKey)]
                             ''application/json'' True 3 None
                     in if \<not> truthy response then ErrorText ''Etherscan API request failed''
                        else (case evmSelect rt net chainInfo apiKey destinationEvmAddress
                                     expectedAmount response of
                                Inl ex \<Rightarrow>
                                  CaughtError ''Error tracing final EVM transaction: '' ex
                              | Inr r \<Rightarrow> r))))"

definition finalEvmTxHandler ::
  "js_runtime \<Rightarrow> env \<Rightarrow> network \<Rightarrow> string option \<Rightarrow> string option \<Rightarrow> string option
     \<Rightarrow> response" where
  \<comment> \<open>the parameters \<open>destChain\<close>, \<open>destinationEvmAddress\<close> and \<open>expectedAmount\<close>\<close>
  "finalEvmTxHandler rt e net destChainParam destinationEvmAddress expectedAmount =
     (case (destChainParam, destinationEvmAddress) of
        (Some c, Some d) \<Rightarrow>
          if c = [] \<or> d = [] then ErrorText ''Missing required parameters''
          else finalEvmTrace rt e net c d expectedAmount
      | _ \<Rightarrow> ErrorText ''Missing required parameters'')"

section \<open>Notions used to state the properties\<close>

definition requestFails :: "fetch_result \<Rightarrow> bool" where
  \<comment> \<open>an attempt that fails: a network error or a status outside 2xx\<close>
  "requestFails r =
     (case r of NetworkFailure \<Rightarrow> True | HttpResponse status text parsed \<Rightarrow> \<not> responseOk status)"

definition txlistResponse :: "network \<Rightarrow> chain_info \<Rightarrow> string \<Rightarrow> string \<Rightarrow> json" where
  \<comment> \<open>what Step 4 receives for its transaction-list request\<close>
  "txlistResponse net chainInfo apiKey destinationEvmAddress =
     httpGet net etherscanApi
       [(''chainid'', decimalNat (CHAIN_ID chainInfo)),
        (''module'', ''account''), (''action'', ''txlist''),
        (''address'', destinationEvmAddress), (''sort'', ''desc''),
        (''page'', ''1''), (''offset'', ''20''), (''apikey'', apiKey)]
       ''application/json'' True 3 None"

definition gmpHit :: "network \<Rightarrow> int \<Rightarrow> string \<Rightarrow> string \<Rightarrow> string \<Rightarrow> bool" where
  \<comment> \<open>the GMP index answers the query for this factory contract with a non-empty list\<close>
  "gmpHit net size' agoricAddress destChain factoryAddress =
     nonEmptyData (searchGMP net (gmpBody size' agoricAddress factoryAddress destChain))"

definition fundingPage :: "js_runtime \<Rightarrow> env \<Rightarrow> network \<Rightarrow> string \<Rightarrow> int \<Rightarrow> json" where
  \<comment> \<open>the transaction page Step 2 fetches\<close>
  "fundingPage rt e net agoricAddress take' =
     responseTransactions
       (httpGet net (agoricFundingUrl rt agoricAddress take') []
          ''application/json'' True 3 (getMintscanHeaders e))"

definition receiverOf :: "js_runtime \<Rightarrow> json \<Rightarrow> exn + json" where
  \<comment> \<open>the receiver Step 2 extracts from the logs of a transaction\<close>
  "receiverOf rt tx = extractReceiverFromLogs rt (or_js (optMember tx ''logs'') (JArr []))"

definition burnPage :: "js_runtime \<Rightarrow> env \<Rightarrow> network \<Rightarrow> string \<Rightarrow> int \<Rightarrow> json" where
  \<comment> \<open>the list of burn transactions Step 3 fetches\<close>
  "burnPage rt e net nobleAddress take' =
     responseTransactions
       (httpGet net (cctpNobleUrl rt nobleAddress take') []
          ''application/json'' True 3 (getMintscanHeaders e))"

definition cctpDataOf :: "json \<Rightarrow> exn + cctp_data" where
  \<comment> \<open>what Step 3 extracts from the logs of a transaction\<close>
  "cctpDataOf tx = extractCctpDataFromLogs (or_js (optMember tx ''logs'') (JArr []))"

definition burnMatches :: "chain_info \<Rightarrow> string \<Rightarrow> json \<Rightarrow> bool" where
  \<comment> \<open>the match of the specification: a recipient was decoded and equals the target
      address after normalization, and a domain was extracted and equals the domain id of
      the chain profile\<close>
  "burnMatches chainInfo target tx =
     (case cctpDataOf tx of
        Inl e \<Rightarrow> False
      | Inr d \<Rightarrow>
          (case (mintRecipient d, destinationDomain d) of
             (Some r, Some domain) \<Rightarrow>
               normalizeAddress r = normalizeAddress target \<and> domain = DOMAIN chainInfo
           | _ \<Rightarrow> False))"

definition selectedTx :: "js_runtime \<Rightarrow> json \<Rightarrow> json option" where
  \<comment> \<open>the transaction Step 4 settles on: the first of the \<open>execute\<close> transactions of the
      answer after sorting\<close>
  "selectedTx rt response =
     (case filterExecutes (case getProp response ''result'' of JArr ts \<Rightarrow> ts | _ \<Rightarrow> []) of
        Inl e \<Rightarrow> None
      | Inr executes \<Rightarrow>
          (case sortByTime rt executes of [] \<Rightarrow> None | evmTx # others \<Rightarrow> Some evmTx))"





definition scanMatch :: "string \<Rightarrow> string \<Rightarrow> json \<Rightarrow> bool" where
  \<comment> \<open>the test Step 3 applies to a transaction: its logs can be read and
      \<open>sameDomain && sameAddress\<close> holds\<close>
  "scanMatch expectedDomain evmAddress tx =
     (case cctpDataOf tx of
        Inl e \<Rightarrow> False
      | Inr d \<Rightarrow> cctpMatch expectedDomain evmAddress d)"

definition resultField :: "response \<Rightarrow> string \<Rightarrow> json option" where
  \<comment> \<open>a field of the data of a success result; \<open>None\<close> for an error result\<close>
  "resultField resp name =
     (case resp of Success data \<Rightarrow> Some (getProp data name) | _ \<Rightarrow> None)"

section \<open>Example payloads\<close>

definition otherEventLogs :: "json list" where
  "otherEventLogs =
     [JObj [(''events'',
             JArr [JObj [(''type'', JStr ''burn''),
                         (''attributes'',
                          JArr [JObj [(''key'', JStr ''mint_recipient''),
                                      (''value'', JStr ''EjRWeJCrze8SNFZ4kKvN7xI0q80='')],
                                JObj [(''key'', JStr ''destination_domain''),
                                      (''value'', JStr ''1'')]])]])]]"

definition burnEventLogs :: "json list" where
  "burnEventLogs =
     [JObj [(''events'',
             JArr [JObj [(''type'', JStr ''circle.cctp.v1.DepositForBurn''),
                         (''attributes'',
                          JArr [JObj [(''key'', JStr ''mint_recipient''),
                                      (''value'', JStr ''EjRWeJCrze8SNFZ4kKvN7xI0q80='')],
                                JObj [(''key'', JStr ''destination_domain''),
                                      (''value'', JStr ''1'')]])]])]]"


definition exampleAgoric :: string where
  "exampleAgoric = ''agoric1qqqqqqqqqqqqqqqqqqqqqqqqqqqqqqqqqqqqqq''"

definition exampleNoble :: string where
  "exampleNoble = ''noble1qqqqqqqqqqqqqqqqqqqqqqqqqqqqqqqqqqqqqq''"

definition exampleEvm :: string where
  "exampleEvm = ''0x1234567890abcdef1234567890abcdef1234abcd''"

definition exampleEnv :: env where
  "exampleEnv = \<lparr>MINTSCAN_ACCESS_TOKEN = Some ''token'', ETHERSCAN_API_KEY = Some ''key''\<rparr>"

definition avalanche :: chain_info where
  "avalanche =
     \<lparr>CHAIN_ID = 43114, EXPLORER_URL = ''https://snowscan.xyz/tx/'',
      FACTORY_CONTRACTS = [''0x647Ead1a35dbC2b0160Cbe6e565f25C4915a125F'',
                           ''0x13cA288486f2bb6B3619c5fd6A2917Ec98a41E7f''],
      DOMAIN = ''1''\<rparr>"

definition exampleRuntime :: js_runtime where
  \<comment> \<open>a runtime that knows one date, one JSON text and the decimal numbers\<close>
  "exampleRuntime =
     \<lparr>Date_parse = (\<lambda>s. if s = ''2024-01-01T00:00:00Z'' then Some 1704067200000 else None),
      isoString = (\<lambda>t. if t = 1704067200000 then ''2024-01-01T00:00:00.000Z''
                        else ''1970-01-01T00:00:00.000Z''),
      JSON_parse = (\<lambda>s. if s = ''{}'' then Some (JObj []) else None),
      StringToNumber = (\<lambda>s. case parseRadix 10 s of Some n \<Rightarrow> JNum n | None \<Rightarrow> JNaN),
      gweiFixed2 = (\<lambda>v. ''0.00''),
      unsafeIntegerString = decimalInt,
      Array_sort = (\<lambda>comparator xs. xs)\<rparr>"

definition downNetwork :: network where
  \<comment> \<open>every attempt of every request is answered with status 500\<close>
  "downNetwork = (\<lambda>req k. HttpResponse 500 ''Internal Server Error'' None)"

definition ethereum :: chain_info where
  "ethereum =
     \<lparr>CHAIN_ID = 1, EXPLORER_URL = ''https://etherscan.io/tx/'',
      FACTORY_CONTRACTS = [''0x647Ead1a35dbC2b0160Cbe6e565f25C4915a125F'',
                           ''0x3bF3056835f7C25b1f71aff99B734Ad07d644577'',
                           ''0x6ca3e8BFe9196A463136cB2442672e46BBe00BCc''],
      DOMAIN = ''0''\<rparr>"

definition gmpRecord :: json where
  "gmpRecord =
     JObj [(''call'',
            JObj [(''_id'', JStr ''gmp-1''), (''event'', JStr ''ContractCall''),
                  (''transactionHash'', JStr ''0xaa''),
                  (''timestamp'', JStr ''2024-01-01T00:00:00Z'')]),
           (''approved'', JObj [(''transactionHash'', JStr ''0xbb'')])]"

definition gmpNetwork :: network where
  \<comment> \<open>a GMP index that has a record for the second factory contract of Ethereum only\<close>
  "gmpNetwork =
     (\<lambda>req k.
        case body req of
          None \<Rightarrow> NetworkFailure
        | Some b \<Rightarrow>
            if getProp b ''address'' = JStr ''0x3bF3056835f7C25b1f71aff99B734Ad07d644577''
            then HttpResponse 200 [] (Some (JObj [(''data'', JArr [gmpRecord])]))
            else HttpResponse 200 [] (Some (JObj [(''data'', JArr [])])))"

definition answering :: "json \<Rightarrow> network" where
  \<comment> \<open>every request is answered at once with the given JSON body\<close>
  "answering answer = (\<lambda>req k. HttpResponse 200 [] (Some answer))"

definition noTransactions :: json where
  "noTransactions =
     JObj [(''status'', JStr ''0''), (''message'', JStr ''No transactions found''),
           (''result'', JArr [])]"

definition invalidKey :: json where
  "invalidKey =
     JObj [(''status'', JStr ''0''), (''message'', JStr ''NOTOK''),
           (''result'', JStr ''Invalid API Key'')]"

definition ackTx :: "string \<Rightarrow> string \<Rightarrow> json" where
  \<comment> \<open>an acknowledgement transaction whose token packet names a receiver\<close>
  "ackTx h receiver =
     JObj [(''txhash'', JStr h),
           (''logs'',
            JArr [JObj [(''events'',
                         JArr [JObj [(''type'', JStr ''fungible_token_packet''),
                                     (''attributes'',
                                      JArr [JObj [(''key'', JStr ''receiver''),
                                                  (''value'', JStr receiver)]])]])]])]"

definition brokenTx :: json where
  \<comment> \<open>a transaction from whose logs no receiver can be read: the attributes of its
      packet event are \<open>null\<close>\<close>
  "brokenTx =
     JObj [(''txhash'', JStr ''CC''),
           (''logs'',
            JArr [JObj [(''events'',
                         JArr [JObj [(''type'', JStr ''recv_packet''),
                                     (''attributes'', JNull)]])]])]"

definition ackNetwork :: network where
  \<comment> \<open>Mintscan answers with three transactions: the receiver of the first differs from
      the example address in letter case only, the second names it exactly\<close>
  "ackNetwork =
     (\<lambda>req k. HttpResponse 200 []
        (Some (JObj [(''transactions'',
                      JArr [ackTx ''AA'' ''NOBLE1qqqqqqqqqqqqqqqqqqqqqqqqqqqqqqqqqqqqqq'',
                            ackTx ''BB'' ''noble1qqqqqqqqqqqqqqqqqqqqqqqqqqqqqqqqqqqqqq'',
                            brokenTx])])))"

definition burnTx :: "string \<Rightarrow> string \<Rightarrow> string \<Rightarrow> json" where
  \<comment> \<open>a Noble transaction with a burn event for the given domain and recipient blob and a
      MsgBurn message of 1000000 uusdc\<close>
  "burnTx h domain blob =
     JObj [(''txhash'', JStr h),
           (''height'', JNum 100),
           (''code'', JNum 0),
           (''timestamp'', JStr ''2024-01-01T00:00:00Z''),
           (''logs'',
            JArr [JObj [(''events'',
                         JArr [JObj [(''type'', JStr ''circle.cctp.v1.DepositForBurn''),
                                     (''attributes'',
                                      JArr [JObj [(''key'', JStr ''mint_recipient''),
                                                  (''value'', JStr blob)],
                                            JObj [(''key'', JStr ''destination_domain''),
                                                  (''value'', JStr domain)]])]])]]),
           (''tx'',
            JObj [(''body'',
                   JObj [(''messages'',
                          JArr [JObj [(''@type'', JStr ''/circle.fiattokenfactory.v1.MsgBurn''),
                                      (''amount'',
                                       JObj [(''amount'', JStr ''1000000''),
                                             (''denom'', JStr ''uusdc'')])]])])])]"

definition burnNetwork :: network where
  \<comment> \<open>Mintscan answers with two burns to the example address: the first for domain 3,
      the second for domain 1\<close>
  "burnNetwork =
     (\<lambda>req k. HttpResponse 200 []
        (Some (JObj [(''transactions'',
                      JArr [burnTx ''D3'' ''3'' ''EjRWeJCrze8SNFZ4kKvN7xI0q80='',
                            burnTx ''D1'' ''1'' ''EjRWeJCrze8SNFZ4kKvN7xI0q80='',
                            burnTx ''D1b'' ''1'' ''EjRWeJCrze8SNFZ4kKvN7xI0q80=''])])))"

definition executeTx :: json where
  "executeTx =
     JObj [(''hash'', JStr ''0xcc''),
           (''from'', JStr ''0xaa''),
           (''to'', JStr ''0x1234567890abcdef1234567890abcdef1234abcd''),
           (''timeStamp'', JStr ''1704067200''),
           (''functionName'', JStr ''execute(bytes32 commandId)'')]"

definition transferLog :: json where
  \<comment> \<open>a Transfer of 1000000 base units to the example address\<close>
  "transferLog =
     JObj [(''topics'',
            JArr [JStr ''0xddf252ad1be2c89b69c2b068fc378daa952ba7f163c4a11628f55a4df523b3ef'',
                  JStr ''0x0000000000000000000000000000000000000000000000000000000000000000'',
                  JStr ''0x0000000000000000000000001234567890ABCDEF1234567890abcdef1234abcd'']),
           (''data'',
            JStr ''0x00000000000000000000000000000000000000000000000000000000000f4240'')]"

definition evmNetwork :: network where
  \<comment> \<open>Etherscan answers the transaction list with one \<open>execute\<close> transaction and the
      receipt request with one Transfer log\<close>
  "evmNetwork =
     (\<lambda>req k.
        if (''action'', ''txlist'') \<in> set (searchParams req)
        then HttpResponse 200 []
               (Some (JObj [(''status'', JStr ''1''), (''message'', JStr ''OK''),
                            (''result'', JArr [executeTx])]))
        else HttpResponse 200 []
               (Some (JObj [(''result'', JObj [(''logs'', JArr [transferLog])])])))"

definition bareGmp :: json where
  \<comment> \<open>an answer of the GMP index with one record that has neither a call nor an approval\<close>
  "bareGmp = JObj [(''data'', JArr [JObj [(''status'', JStr ''called'')]])]"

definition bareGmpResult :: json where
  "bareGmpResult =
     JObj [(''title'', JStr ''Axelar GMP (make account)''),
           (''found'', JBool True),
           (''transaction'',
            JObj [(''gmpId'', JStr []), (''event'', JUndefined), (''destTxHash'', JUndefined),
                  (''sourceTxHash'', JUndefined), (''timestamp'', JUndefined),
                  (''explorerUrl'', JUndefined), (''gmpUrl'', JUndefined)]),
           (''items'', JArr [])]"

definition mintscanPage :: "json list \<Rightarrow> json" where
  \<comment> \<open>an answer of Mintscan with the given transactions\<close>
  "mintscanPage txs = JObj [(''transactions'', JArr txs)]"

definition mapTx :: json where
  \<comment> \<open>a transaction whose packet event carries its attributes as an object, not as an
      array of key and value pairs\<close>
  "mapTx =
     JObj [(''txhash'', JStr ''AA''),
           (''logs'',
            JArr [JObj [(''events'',
                         JArr [JObj [(''type'', JStr ''recv_packet''),
                                     (''attributes'',
                                      JObj [(''packet_data'', JStr ''{}'')])]])]])]"

definition undatedTx :: json where
  \<comment> \<open>a burn for domain 1 to the example address, without a timestamp\<close>
  "undatedTx = JObj [(''txhash'', JStr ''D1''), (''logs'', JArr burnEventLogs)]"

definition mapBurnTx :: json where
  \<comment> \<open>a transaction whose burn event carries its attributes as an object\<close>
  "mapBurnTx =
     JObj [(''txhash'', JStr ''D0''),
           (''logs'',
            JArr [JObj [(''events'',
                         JArr [JObj [(''type'', JStr ''circle.cctp.v1.DepositForBurn''),
                                     (''attributes'',
                                      JObj [(''destination_domain'', JStr ''1'')])]])]])]"

definition countedTx :: json where
  \<comment> \<open>a burn for domain 1 to the example address whose body gives the number of its
      messages in place of the messages\<close>
  "countedTx =
     JObj [(''txhash'', JStr ''D1''),
           (''timestamp'', JStr ''2024-01-01T00:00:00Z''),
           (''logs'', JArr burnEventLogs),
           (''tx'', JObj [(''body'', JObj [(''messages'', JNum 1)])])]"

definition etherscanList :: "json list \<Rightarrow> json" where
  \<comment> \<open>an answer of Etherscan with the given transactions\<close>
  "etherscanList ts =
     JObj [(''status'', JStr ''1''), (''message'', JStr ''OK''), (''result'', JArr ts)]"

definition unhashedTx :: json where
  \<comment> \<open>an \<open>execute\<close> transaction whose hash is the empty string\<close>
  "unhashedTx =
     JObj [(''hash'', JStr []),
           (''from'', JStr ''0xaa''),
           (''to'', JStr ''0x1234567890abcdef1234567890abcdef1234abcd''),
           (''timeStamp'', JStr ''1704067200''),
           (''functionName'', JStr ''execute(bytes32 commandId)'')]"

section \<open>Properties of address normalization\<close>

lemma lowerChar_idem: "lowerChar (lowerChar c) = lowerChar c"
  unfolding lowerChar_def charCode_def Let_def
  by (auto simp: of_char_of)

lemma isWhiteSpace_lowerChar: "isWhiteSpace (lowerChar c) = isWhiteSpace c"
  unfolding lowerChar_def charCode_def Let_def isWhiteSpace_def
  by auto

lemma toLowerCase_idem: "toLowerCase (toLowerCase s) = toLowerCase s"
  by (simp add: toLowerCase_def lowerChar_idem)

lemma trim_toLowerCase: "trim (toLowerCase s) = toLowerCase (trim s)"
proof -
  have ws: "isWhiteSpace \<circ> lowerChar = isWhiteSpace"
    by (rule ext) (simp add: isWhiteSpace_lowerChar)
  show ?thesis
    by (simp add: trim_def toLowerCase_def dropWhile_map rev_map ws)
qed

lemma trim_no_ws: "\<forall>c\<in>set s. \<not> isWhiteSpace c \<Longrightarrow> trim s = s"
proof (cases s)
  case Nil
  then show ?thesis by (simp add: trim_def)
next
  case (Cons a list)
  assume h: "\<forall>c\<in>set s. \<not> isWhiteSpace c"
  have 1: "dropWhile isWhiteSpace s = s" using h Cons by simp
  have "rev s \<noteq> []" using Cons by simp
  then obtain b r where br: "rev s = b # r" by (cases "rev s") auto
  then have "b \<in> set s" by (metis list.set_intros(1) set_rev)
  then have 2: "dropWhile isWhiteSpace (rev s) = rev s" using h br by simp
  show ?thesis by (simp add: trim_def 1 2)
qed

lemma hex_lower_props:
  assumes "isHexDigit c"
  shows "isHexDigit (lowerChar c)" "\<not> isWhiteSpace (lowerChar c)" "lowerChar c \<noteq> CHR ''x''"
  using assms unfolding isHexDigit_def lowerChar_def charCode_def Let_def isWhiteSpace_def
  by (auto simp: char_of_eq_iff take_bit_eq_mod)

lemma strip0x_hex:
  assumes "list_all isHexDigit H"
  shows "strip0x (toLowerCase H) = toLowerCase H"
proof (cases H)
  case Nil
  then show ?thesis by (simp add: strip0x_def startsWith_def toLowerCase_def)
next
  case (Cons a t)
  show ?thesis
  proof (cases t)
    case Nil
    with Cons show ?thesis by (simp add: strip0x_def startsWith_def toLowerCase_def)
  next
    case (Cons b u)
    with \<open>H = a # t\<close> assms have "isHexDigit b" by simp
    then have "lowerChar b \<noteq> CHR ''x''" by (rule hex_lower_props)
    with Cons \<open>H = a # t\<close> show ?thesis
      by (simp add: strip0x_def startsWith_def toLowerCase_def)
  qed
qed

text \<open>
  Claim C3, as amended. For an address-like string (hexadecimal digits \<open>H\<close> with an optional
  leading \<open>0x\<close> or \<open>0X\<close>), every string \<open>Y\<close> that differs from it only in letter case
  normalizes to the lowercase digits without the prefix, and normalizing again changes
  nothing: on address-like strings normalization is idempotent, and neither case nor the
  prefix affects the result.
\<close>

theorem normalizeAddress_address_like:
  assumes hex: "list_all isHexDigit H"
      and pre: "p = [] \<or> p = ''0x'' \<or> p = ''0X''"
      and var: "toLowerCase Y = toLowerCase (p @ H)"
  shows "normalizeAddress Y = toLowerCase H
       \<and> normalizeAddress (normalizeAddress Y) = normalizeAddress Y"
proof -
  have nows: "\<forall>c\<in>set (toLowerCase H). \<not> isWhiteSpace c"
    using hex by (auto simp: toLowerCase_def list_all_iff hex_lower_props)
  have lp: "toLowerCase p = [] \<or> toLowerCase p = ''0x''"
    using pre by (auto simp: toLowerCase_def lowerChar_def charCode_def char_of_eq_iff)
  have nows2: "\<forall>c\<in>set (toLowerCase (p @ H)). \<not> isWhiteSpace c"
    using nows lp by (auto simp: toLowerCase_def isWhiteSpace_def charCode_def)
  have "normalizeAddress Y = strip0x (trim (toLowerCase (p @ H)))"
    by (simp add: normalizeAddress_def trim_toLowerCase [symmetric] var)
  also have "\<dots> = strip0x (toLowerCase (p @ H))"
    using nows2 by (simp add: trim_no_ws)
  also have "\<dots> = toLowerCase H"
    using lp
  proof
    assume "toLowerCase p = []"
    then have "p = []" by (simp add: toLowerCase_def)
    then show ?thesis using strip0x_hex [OF hex] by simp
  next
    assume "toLowerCase p = ''0x''"
    then have "toLowerCase (p @ H) = ''0x'' @ toLowerCase H" by (simp add: toLowerCase_def)
    then show ?thesis by (simp add: strip0x_def startsWith_def)
  qed
  finally have 1: "normalizeAddress Y = toLowerCase H" .
  have "normalizeAddress (toLowerCase H) = strip0x (toLowerCase (toLowerCase H))"
    using nows by (simp add: normalizeAddress_def trim_no_ws)
  then have 2: "normalizeAddress (toLowerCase H) = toLowerCase H"
    by (simp add: toLowerCase_idem strip0x_hex [OF hex])
  show ?thesis using 1 2 by simp
qed

text \<open>The instance of the specification: \<open>0xABC\<close> and \<open>abc\<close> normalize to the same string.\<close>

theorem normalizeAddress_address_like_witness:
  "normalizeAddress ''0xABC'' = normalizeAddress ''abc''
   \<and> normalizeAddress (normalizeAddress ''0xABC'') = normalizeAddress ''0xABC''"
proof -
  have hex: "list_all isHexDigit ''abc''" by (simp add: isHexDigit_def charCode_def)
  have a: "toLowerCase ''0xABC'' = toLowerCase (''0x'' @ ''abc'')"
    by (simp add: toLowerCase_def lowerChar_def charCode_def char_of_eq_iff)
  have b: "toLowerCase ''abc'' = toLowerCase ([] @ ''abc'')" by simp
  show ?thesis
    using normalizeAddress_address_like [OF hex _ a] normalizeAddress_address_like [OF hex _ b]
    by metis
qed

text \<open>
  Claim C3 as stated asks for idempotence on every string. Only one leading \<open>0x\<close> is
  removed, so \<open>0x0xabc\<close> normalizes to \<open>0xabc\<close>, and that to \<open>abc\<close>.
\<close>

theorem normalizeAddress_idempotent_counterexample:
  "normalizeAddress (normalizeAddress ''0x0xabc'') \<noteq> normalizeAddress ''0x0xabc''"
  by (simp add: normalizeAddress_def strip0x_def startsWith_def toLowerCase_def trim_def
      isWhiteSpace_def lowerChar_def charCode_def)

section \<open>Properties of the recipient decoder\<close>

lemma hexDigit_props:
  assumes "n < 16"
  shows "isLowerHexDigit (hexDigit n)" "hexValue (hexDigit n) = n"
  using assms by (auto simp: hexDigit_def isLowerHexDigit_def hexValue_def charCode_def)

lemma char_of_48: "char_of (48::nat) = CHR ''0''"
  by (simp add: char_of_eq_iff)

lemma byteHex_eq: "byteHex b = [hexDigit (unat b div 16), hexDigit (unat b mod 16)]"
proof -
  have "unat b < 256" using unsigned_less [of b, where ?'a = nat] by simp
  then show ?thesis
    by (auto simp: byteHex_def toString16_def padStart2_def hexDigit_def char_of_48)
qed

lemma byteHex_props:
  "length (byteHex b) = 2" "\<forall>c\<in>set (byteHex b). isLowerHexDigit c"
  "bytesOfHex (byteHex b @ rest) = unat b # bytesOfHex rest"
proof -
  have lt: "unat b < 256" using unsigned_less [of b, where ?'a = nat] by simp
  then have d: "unat b div 16 < 16" by simp
  have m: "unat b mod 16 < 16" by simp
  show "length (byteHex b) = 2" by (simp add: byteHex_eq)
  show "\<forall>c\<in>set (byteHex b). isLowerHexDigit c"
    using d m by (simp add: byteHex_eq hexDigit_props)
  show "bytesOfHex (byteHex b @ rest) = unat b # bytesOfHex rest"
    using d m by (simp add: byteHex_eq hexDigit_props)
qed

lemma concat_byteHex:
  "length (concat (map byteHex bs)) = 2 * length bs"
  "\<forall>c\<in>set (concat (map byteHex bs)). isLowerHexDigit c"
  "bytesOfHex (concat (map byteHex bs)) = map unat bs"
  by (induction bs) (auto simp: byteHex_props)

lemma unat_byte_of_char: "unat (word_of_nat (charCode c) :: 8 word) = charCode c"
  by (simp add: charCode_def unat_of_nat)

text \<open>
  Claim C5. \<open>decodeMintRecipient\<close> returns a value on every input string: \<open>null\<close> when
  \<open>atob\<close> rejects the string and when the decoded blob has fewer than 20 bytes, and
  otherwise \<open>0x\<close> followed by 40 lowercase hexadecimal digits that read back as the last
  20 bytes of the blob.
\<close>

theorem decodeMintRecipient_total:
  "(atob s = Inl e \<longrightarrow> decodeMintRecipient s = None)
   \<and> (atob s = Inr bin \<and> length bin < 20 \<longrightarrow> decodeMintRecipient s = None)
   \<and> (atob s = Inr bin \<and> 20 \<le> length bin \<longrightarrow>
        (\<exists>h. decodeMintRecipient s = Some (''0x'' @ h) \<and> length h = 40
             \<and> (\<forall>c\<in>set h. isLowerHexDigit c)
             \<and> bytesOfHex h = map charCode (drop (length bin - 20) bin)))"
proof (intro conjI impI)
  assume "atob s = Inl e"
  then show "decodeMintRecipient s = None" by (simp add: decodeMintRecipient_def)
next
  assume "atob s = Inr bin \<and> length bin < 20"
  then show "decodeMintRecipient s = None" by (simp add: decodeMintRecipient_def)
next
  assume a: "atob s = Inr bin \<and> 20 \<le> length bin"
  define bs where "bs = drop (length bin - 20) (map (\<lambda>c. (word_of_nat (charCode c) :: 8 word)) bin)"
  have len: "length bs = 20" using a by (simp add: bs_def)
  have dec: "decodeMintRecipient s = Some (''0x'' @ concat (map byteHex bs))"
    using a by (simp add: decodeMintRecipient_def bs_def Let_def)
  have un: "map unat bs = map charCode (drop (length bin - 20) bin)"
    by (simp add: bs_def drop_map unat_byte_of_char comp_def)
  show "\<exists>h. decodeMintRecipient s = Some (''0x'' @ h) \<and> length h = 40
             \<and> (\<forall>c\<in>set h. isLowerHexDigit c)
             \<and> bytesOfHex h = map charCode (drop (length bin - 20) bin)"
    using dec len un concat_byteHex [of bs] by auto
qed


text \<open>An invalid blob, a blob of three bytes and a blob of twenty bytes.\<close>

theorem decodeMintRecipient_total_witness:
  "atob ''not base64!'' = Inl InvalidCharacterError
   \<and> decodeMintRecipient ''not base64!'' = None
   \<and> atob ''AAAA'' = Inr (map char_of [0::nat, 0, 0])
   \<and> decodeMintRecipient ''AAAA'' = None
   \<and> atob ''EjRWeJCrze8SNFZ4kKvN7xI0q80='' =
       Inr (map char_of [18::nat, 52, 86, 120, 144, 171, 205, 239, 18, 52, 86, 120, 144, 171,
                         205, 239, 18, 52, 171, 205])
   \<and> (\<exists>h. decodeMintRecipient ''EjRWeJCrze8SNFZ4kKvN7xI0q80='' = Some (''0x'' @ h)
          \<and> length h = 40 \<and> (\<forall>c\<in>set h. isLowerHexDigit c)
          \<and> bytesOfHex h = [18, 52, 86, 120, 144, 171, 205, 239, 18, 52, 86, 120, 144, 171,
                             205, 239, 18, 52, 171, 205])"
proof -
  have a1: "atob ''not base64!'' = Inl InvalidCharacterError"
    by (simp add: atob_def removePadding_def isAsciiWhitespace_def base64Index_def charCode_def)
  have a2: "atob ''AAAA'' = Inr (map char_of [0::nat, 0, 0])"
    by (simp add: atob_def removePadding_def isAsciiWhitespace_def base64Index_def charCode_def)
  have a3: "atob ''EjRWeJCrze8SNFZ4kKvN7xI0q80='' =
       Inr (map char_of [18::nat, 52, 86, 120, 144, 171, 205, 239, 18, 52, 86, 120, 144, 171,
                         205, 239, 18, 52, 171, 205])"
    by (simp add: atob_def removePadding_def isAsciiWhitespace_def base64Index_def charCode_def)
  show ?thesis
    using decodeMintRecipient_total [of "''not base64!''" InvalidCharacterError "[]"]
      decodeMintRecipient_total [of "''AAAA''" TypeError "map char_of [0::nat, 0, 0]"]
      decodeMintRecipient_total [of "''EjRWeJCrze8SNFZ4kKvN7xI0q80=''" TypeError
        "map char_of [18::nat, 52, 86, 120, 144, 171, 205, 239, 18, 52, 86, 120, 144, 171,
                         205, 239, 18, 52, 171, 205]"]
    by (simp add: a1 a2 a3 charCode_def)
qed

section \<open>Properties of the burn event extraction\<close>

text \<open>
  Claim C6. When no event of the logs has the type \<open>circle.cctp.v1.DepositForBurn\<close>, both
  fields of the result are \<open>null\<close>. A field that is not \<open>null\<close> comes from the attributes
  of the first event of that type: the destination domain is its \<open>destination_domain\<close>
  attribute and the recipient is decoded from its \<open>mint_recipient\<close> attribute.
\<close>

theorem extractCctpDataFromLogs_marker_absent:
  "(list_all (\<lambda>ev. \<not> isDepositForBurn ev) (flatMapEvents ls) \<longrightarrow>
      extractCctpDataFromLogs (JArr ls) = Inr \<lparr>mintRecipient = None, destinationDomain = None\<rparr>)
   \<and> (extractCctpDataFromLogs (JArr ls) = Inr d
        \<and> (mintRecipient d \<noteq> None \<or> destinationDomain d \<noteq> None) \<longrightarrow>
        (\<exists>evt as. find isDepositForBurn (flatMapEvents ls) = Some evt
           \<and> optMember evt ''type'' = JStr ''circle.cctp.v1.DepositForBurn''
           \<and> coalesce (getProp evt ''attributes'') (JArr []) = JArr as
           \<and> destinationDomain d = foldl collectAttr Map.empty as ''destination_domain''
           \<and> (mintRecipient d \<noteq> None \<longrightarrow>
                (\<exists>b. foldl collectAttr Map.empty as ''mint_recipient'' = Some b
                     \<and> mintRecipient d = decodeMintRecipient b))))"
proof (intro conjI impI)
  assume "list_all (\<lambda>ev. \<not> isDepositForBurn ev) (flatMapEvents ls)"
  then have "find isDepositForBurn (flatMapEvents ls) = None"
    by (simp add: find_None_iff list_all_iff)
  then show "extractCctpDataFromLogs (JArr ls)
             = Inr \<lparr>mintRecipient = None, destinationDomain = None\<rparr>"
    by (simp add: extractCctpDataFromLogs_def coalesce_def arrayOf_def)
next
  assume a: "extractCctpDataFromLogs (JArr ls) = Inr d
        \<and> (mintRecipient d \<noteq> None \<or> destinationDomain d \<noteq> None)"
  then obtain evt where f: "find isDepositForBurn (flatMapEvents ls) = Some evt"
    by (cases "find isDepositForBurn (flatMapEvents ls)")
       (auto simp: extractCctpDataFromLogs_def coalesce_def [of "JArr ls"] arrayOf_def [of "JArr ls"])
  then have ty: "optMember evt ''type'' = JStr ''circle.cctp.v1.DepositForBurn''"
    by (auto simp: find_Some_iff isDepositForBurn_def strictEqStr_def)
  from a f obtain as where
    as: "arrayOf (coalesce (getProp evt ''attributes'') (JArr [])) = Inr as"
    by (cases "arrayOf (coalesce (getProp evt ''attributes'') (JArr []))")
       (auto simp: extractCctpDataFromLogs_def coalesce_def [of "JArr ls"]
          arrayOf_def [of "JArr ls"] split: if_splits)
  then have as': "coalesce (getProp evt ''attributes'') (JArr []) = JArr as"
    by (auto simp: arrayOf_def split: json.splits)
  have ls: "arrayOf (coalesce (JArr ls) (JArr [])) = Inr ls"
    by (simp add: coalesce_def arrayOf_def)
  have tr: "truthy evt"
    using a f by (auto simp: extractCctpDataFromLogs_def ls split: if_splits)
  have "extractCctpDataFromLogs (JArr ls) =
          Inr \<lparr>mintRecipient =
               (case foldl collectAttr Map.empty as ''mint_recipient'' of
                  None \<Rightarrow> None
                | Some r \<Rightarrow> if r \<noteq> [] then decodeMintRecipient r else None),
             destinationDomain = foldl collectAttr Map.empty as ''destination_domain''\<rparr>"
    by (simp add: extractCctpDataFromLogs_def ls f tr as Let_def)
  with a have
    d: "d = \<lparr>mintRecipient =
               (case foldl collectAttr Map.empty as ''mint_recipient'' of
                  None \<Rightarrow> None
                | Some r \<Rightarrow> if r \<noteq> [] then decodeMintRecipient r else None),
             destinationDomain = foldl collectAttr Map.empty as ''destination_domain''\<rparr>"
    by simp
  show "\<exists>evt as. find isDepositForBurn (flatMapEvents ls) = Some evt
           \<and> optMember evt ''type'' = JStr ''circle.cctp.v1.DepositForBurn''
           \<and> coalesce (getProp evt ''attributes'') (JArr []) = JArr as
           \<and> destinationDomain d = foldl collectAttr Map.empty as ''destination_domain''
           \<and> (mintRecipient d \<noteq> None \<longrightarrow>
                (\<exists>b. foldl collectAttr Map.empty as ''mint_recipient'' = Some b
                     \<and> mintRecipient d = decodeMintRecipient b))"
    using f ty as' d by (auto split: option.splits if_splits)
qed



lemmas json_eval =
  flatMapEvents_def coalesce_def optMember_def member_def isDepositForBurn_def strictEqStr_def
  collectAttr_def arrayOf_def stripQuotes_def or_js_def iterate_def

lemma burnEventLogs_data:
  "extractCctpDataFromLogs (JArr burnEventLogs) =
     Inr \<lparr>mintRecipient = Some ''0x1234567890abcdef1234567890abcdef1234abcd'',
          destinationDomain = Some ''1''\<rparr>"
  by (simp add: extractCctpDataFromLogs_def burnEventLogs_def json_eval Let_def
      decodeMintRecipient_def atob_def removePadding_def isAsciiWhitespace_def base64Index_def
      charCode_def byteHex_def toString16_def padStart2_def hexDigit_def char_of_eq_iff)

text \<open>
  Logs whose only event has another type but carries both attributes, and the same logs
  with the burn event.
\<close>

theorem extractCctpDataFromLogs_marker_absent_witness:
  "list_all (\<lambda>ev. \<not> isDepositForBurn ev) (flatMapEvents otherEventLogs)
   \<and> extractCctpDataFromLogs (JArr otherEventLogs)
       = Inr \<lparr>mintRecipient = None, destinationDomain = None\<rparr>
   \<and> extractCctpDataFromLogs (JArr burnEventLogs)
       = Inr \<lparr>mintRecipient = Some ''0x1234567890abcdef1234567890abcdef1234abcd'',
              destinationDomain = Some ''1''\<rparr>
   \<and> (\<exists>evt. find isDepositForBurn (flatMapEvents burnEventLogs) = Some evt
          \<and> optMember evt ''type'' = JStr ''circle.cctp.v1.DepositForBurn'')"
proof -
  have 1: "list_all (\<lambda>ev. \<not> isDepositForBurn ev) (flatMapEvents otherEventLogs)"
    by (simp add: otherEventLogs_def json_eval)
  show ?thesis
    using 1 burnEventLogs_data
      extractCctpDataFromLogs_marker_absent
        [of otherEventLogs "\<lparr>mintRecipient = None, destinationDomain = None\<rparr>"]
      extractCctpDataFromLogs_marker_absent [of burnEventLogs
        "\<lparr>mintRecipient = Some ''0x1234567890abcdef1234567890abcdef1234abcd'',
          destinationDomain = Some ''1''\<rparr>"]
    by auto
qed

section \<open>Properties of the handlers: upstream failures\<close>

lemma chain_table:
  assumes "getChainInfo x = Some ci"
  shows "FACTORY_CONTRACTS ci \<noteq> []" "EXPLORER_URL ci \<noteq> []"
    "DOMAIN ci \<in> {''0'', ''1'', ''2'', ''3'', ''6''}"
  using assms by (auto simp: getChainInfo_def EVM_CHAIN_INFO_def split: if_splits)

lemma makeRequest_attempts_exhausted:
  "(\<forall>k. attempt \<le> k \<and> k < retries \<longrightarrow> requestFails (fetch k))
   \<Longrightarrow> makeRequest_attempts fetch toJson retries attempt = JNull"
proof (induction fetch toJson retries attempt rule: makeRequest_attempts.induct)
  case (1 fetch toJson retries attempt)
  show ?case
  proof (cases "attempt < retries")
    case False
    then show ?thesis by (simp add: makeRequest_attempts.simps [of fetch toJson retries attempt])
  next
    case True
    with "1.prems" have f: "requestFails (fetch attempt)" by simp
    have rest: "\<forall>k. Suc attempt \<le> k \<and> k < retries \<longrightarrow> requestFails (fetch k)"
      using "1.prems" by simp
    show ?thesis
    proof (cases "fetch attempt")
      case NetworkFailure
      with True "1.IH"(1) rest show ?thesis
        by (simp add: makeRequest_attempts.simps [of fetch toJson retries attempt])
    next
      case (HttpResponse status content parsed)
      with f have "\<not> responseOk status" by (simp add: requestFails_def)
      with True HttpResponse "1.IH"(2) rest show ?thesis
        by (simp add: makeRequest_attempts.simps [of fetch toJson retries attempt])
    qed
  qed
qed

lemma httpGet_down:
  "\<forall>req k. k < 3 \<longrightarrow> requestFails (net req k) \<Longrightarrow> httpGet net u ps ah tj 3 ch = JNull"
  by (simp add: httpGet_def makeRequest_def makeRequest_attempts_exhausted)

lemma post_down:
  "\<forall>req k. k < 3 \<longrightarrow> requestFails (net req k) \<Longrightarrow> post net u b = JNull"
  by (simp add: post_def makeRequest_def makeRequest_attempts_exhausted)

lemma probeFactories_none:
  "\<forall>f\<in>set fs. \<not> nonEmptyData (searchGMP net (gmpBody sz a f ch))
   \<Longrightarrow> probeFactories net sz a ch fs posted = (JNull, posted @ map (\<lambda>f. gmpBody sz a f ch) fs)"
  by (induction fs arbitrary: posted) (simp_all add: Let_def)

lemma responseTransactions_null: "responseTransactions JNull = JArr []"
  by (simp add: responseTransactions_def optMember_def or_js_def)

lemma gmpResult_null: "gmpResult rt ci JNull = Inr gmpNotFound"
  by (simp add: gmpResult_def optMember_def optLength_def)

lemma finalEvmTrace_unfold:
  assumes "getChainInfo (canonicalizeChain c) = Some ci" "ETHERSCAN_API_KEY e = Some key" "key \<noteq> []"
  shows "finalEvmTxHandler rt e net (Some c) (Some d) ex =
    (if c = [] \<or> d = [] then ErrorText ''Missing required parameters''
     else if \<not> truthy (txlistResponse net ci key d) then ErrorText ''Etherscan API request failed''
     else (case evmSelect rt net ci key d ex (txlistResponse net ci key d) of
             Inl x \<Rightarrow> CaughtError ''Error tracing final EVM transaction: '' x
           | Inr r \<Rightarrow> r))"
  using assms
  by (simp add: finalEvmTxHandler_def finalEvmTrace_def getEtherscanApiKey_def txlistResponse_def Let_def)

text \<open>
  Claim C1 asks every step to return an error when its request has failed on all three
  attempts. The client returns \<open>null\<close> then. Step 4 tests for it and returns the error
  \<open>Etherscan API request failed\<close>; Steps 1, 2 and 3 read the transactions off the
  \<open>null\<close> response with optional chaining, find none, and return a successful result
  with \<open>found = false\<close>. The theorem evaluates the four handlers on a network where
  every attempt fails.
\<close>

theorem upstream_failure_results:
  assumes down: "\<forall>req k. k < 3 \<longrightarrow> requestFails (net req k)"
      and chain: "getChainInfo (canonicalizeChain c) = Some ci"
      and params: "a \<noteq> []" "n \<noteq> []" "c \<noteq> []" "d \<noteq> []"
      and key: "ETHERSCAN_API_KEY e = Some key" "key \<noteq> []"
  shows "fst (axelarGmpTxHandler rt net (Some c) (Some a) sz) = Success gmpNotFound
       \<and> agoricFundingTxHandler rt e net (Some a) (Some n) tk =
           Success (JObj [(''title'', JStr ''Funding of Noble ICA + IBC ACK''),
                          (''found'', JBool False),
                          (''items'', JArr []),
                          (''message'',
                           JStr ''No relevant IBC acknowledgment transactions found in the last 0 transactions (Mintscan limit: 20)'')])
       \<and> cctpNobleTxHandler rt e net (Some n) (Some c) (Some d) tk = Success cctpNotFound
       \<and> finalEvmTxHandler rt e net (Some c) (Some d) ex
           = ErrorText ''Etherscan API request failed''"
proof (intro conjI)
  have "\<forall>f\<in>set (FACTORY_CONTRACTS ci).
          \<not> nonEmptyData (searchGMP net (gmpBody (case sz of None \<Rightarrow> 1 | Some n \<Rightarrow> n) a f (canonicalizeChain c)))"
    using down by (simp add: searchGMP_def post_down nonEmptyData_def optMember_def)
  then show "fst (axelarGmpTxHandler rt net (Some c) (Some a) sz) = Success gmpNotFound"
    using chain params chain_table(1) [OF chain]
    by (simp add: axelarGmpTxHandler_def axelarGmpTrace_def Let_def probeFactories_none
        gmpResult_null)
next
  show "agoricFundingTxHandler rt e net (Some a) (Some n) tk =
           Success (JObj [(''title'', JStr ''Funding of Noble ICA + IBC ACK''),
                          (''found'', JBool False),
                          (''items'', JArr []),
                          (''message'',
                           JStr ''No relevant IBC acknowledgment transactions found in the last 0 transactions (Mintscan limit: 20)'')])"
    using params
    by (simp add: agoricFundingTxHandler_def agoricFundingTrace_def Let_def
        httpGet_down [OF down] responseTransactions_null iterate_def decimalInt_def char_of_eq_iff)
next
  show "cctpNobleTxHandler rt e net (Some n) (Some c) (Some d) tk = Success cctpNotFound"
    using params chain
    by (simp add: cctpNobleTxHandler_def cctpNobleTrace_def Let_def
        httpGet_down [OF down] responseTransactions_null iterate_def)
next
  show "finalEvmTxHandler rt e net (Some c) (Some d) ex
           = ErrorText ''Etherscan API request failed''"
    using params
    by (simp add: finalEvmTrace_unfold [OF chain key] txlistResponse_def httpGet_down [OF down])
qed

lemma avalanche_info: "getChainInfo (canonicalizeChain ''avalanche'') = Some avalanche"
  by (simp add: getChainInfo_def canonicalizeChain_def EVM_CHAIN_INFO_def toUpperCase_def
      toLowerCase_def upperChar_def lowerChar_def charCode_def char_of_eq_iff avalanche_def)

text \<open>
  The four handlers on a network that answers every attempt with status 500.
\<close>

theorem upstream_failure_results_witness:
  "fst (axelarGmpTxHandler exampleRuntime downNetwork (Some ''avalanche'') (Some exampleAgoric) None)
     = Success gmpNotFound
   \<and> getProp gmpNotFound ''found'' = JBool False
   \<and> cctpNobleTxHandler exampleRuntime exampleEnv downNetwork (Some exampleNoble)
        (Some ''avalanche'') (Some exampleEvm) None = Success cctpNotFound
   \<and> getProp cctpNotFound ''found'' = JBool False
   \<and> finalEvmTxHandler exampleRuntime exampleEnv downNetwork (Some ''avalanche'')
        (Some exampleEvm) None = ErrorText ''Etherscan API request failed''"
proof -
  have down: "\<forall>req k. k < 3 \<longrightarrow> requestFails (downNetwork req k)"
    by (simp add: downNetwork_def requestFails_def responseOk_def)
  have key: "ETHERSCAN_API_KEY exampleEnv = Some ''key''" "''key'' \<noteq> []"
    by (simp_all add: exampleEnv_def)
  have params: "exampleAgoric \<noteq> []" "exampleNoble \<noteq> []" "''avalanche'' \<noteq> []" "exampleEvm \<noteq> []"
    by (simp_all add: exampleAgoric_def exampleNoble_def exampleEvm_def)
  show ?thesis
    using upstream_failure_results [OF down avalanche_info params key,
        of exampleRuntime None None None]
    by (simp add: gmpNotFound_def cctpNotFound_def)
qed

section \<open>Properties of Step 1\<close>

lemma probeFactories_find:
  "probeFactories net sz a ch fs posted =
     (case find (gmpHit net sz a ch) fs of
        None \<Rightarrow> (JNull, posted @ map (\<lambda>f. gmpBody sz a f ch) fs)
      | Some f \<Rightarrow>
          (searchGMP net (gmpBody sz a f ch),
           posted @ map (\<lambda>f. gmpBody sz a f ch)
                      (takeWhile (\<lambda>g. \<not> gmpHit net sz a ch g) fs @ [f])))"
  by (induction fs arbitrary: posted) (auto simp: Let_def gmpHit_def split: option.splits)

lemma gmpResult_found:
  assumes "nonEmptyData g" "gmpResult rt ci g = Inr data"
  shows "getProp data ''found'' = JBool True"
proof -
  from assms(1) obtain xs where xs: "optMember g ''data'' = JArr xs" "xs \<noteq> []"
    by (auto simp: nonEmptyData_def split: json.splits)
  then have "truthy (optLength (optMember g ''data''))"
    by (simp add: optLength_def)
  with assms(2) show ?thesis
    by (auto simp: gmpResult_def Let_def split: sum.splits if_splits)
qed

text \<open>
  Claim C7. Step 1 posts one query per factory contract, in the order of the chain
  profile, up to and including the first contract for which the index returns a
  non-empty list; the result is computed from the answer for that contract, and a
  successful result then has \<open>found = true\<close>. When no contract has a non-empty answer,
  every contract has been queried once and the result is \<open>found = false\<close>.
\<close>

theorem axelar_probe_order:
  assumes chain: "getChainInfo (canonicalizeChain c) = Some ci"
      and params: "c \<noteq> []" "a \<noteq> []"
      and size: "n = (case sz of None \<Rightarrow> 1 | Some k \<Rightarrow> k)"
      and run: "axelarGmpTxHandler rt net (Some c) (Some a) sz = (r, posted)"
  shows "case find (gmpHit net n a (canonicalizeChain c)) (FACTORY_CONTRACTS ci) of
           None \<Rightarrow>
             posted = map (\<lambda>f. gmpBody n a f (canonicalizeChain c)) (FACTORY_CONTRACTS ci)
             \<and> r = Success gmpNotFound
         | Some f \<Rightarrow>
             posted = map (\<lambda>f. gmpBody n a f (canonicalizeChain c))
                        (takeWhile (\<lambda>g. \<not> gmpHit net n a (canonicalizeChain c) g)
                           (FACTORY_CONTRACTS ci) @ [f])
             \<and> r = (case gmpResult rt ci (searchGMP net (gmpBody n a f (canonicalizeChain c))) of
                      Inl ex \<Rightarrow> CaughtError ''Error tracing Axelar GMP step: '' ex
                    | Inr data \<Rightarrow> Success data)
             \<and> (\<forall>data. r = Success data \<longrightarrow> getProp data ''found'' = JBool True)"
proof -
  let ?ch = "canonicalizeChain c"
  have nonempty: "FACTORY_CONTRACTS ci \<noteq> []" by (rule chain_table(1) [OF chain])
  have run': "(r, posted) =
      (let (gmpData, posted) = probeFactories net n a ?ch (FACTORY_CONTRACTS ci) []
       in (case gmpResult rt ci gmpData of
             Inl ex \<Rightarrow> CaughtError ''Error tracing Axelar GMP step: '' ex
           | Inr data \<Rightarrow> Success data, posted))"
    using run chain params nonempty size
    by (simp add: axelarGmpTxHandler_def axelarGmpTrace_def Let_def)
  show ?thesis
  proof (cases "find (gmpHit net n a ?ch) (FACTORY_CONTRACTS ci)")
    case None
    with run' show ?thesis
      by (simp add: probeFactories_find gmpResult_null)
  next
    case (Some f)
    then have hit: "nonEmptyData (searchGMP net (gmpBody n a f ?ch))"
      by (auto simp: find_Some_iff gmpHit_def)
    from Some run' have
      r: "r = (case gmpResult rt ci (searchGMP net (gmpBody n a f ?ch)) of
                 Inl ex \<Rightarrow> CaughtError ''Error tracing Axelar GMP step: '' ex
               | Inr data \<Rightarrow> Success data)"
      and p: "posted = map (\<lambda>f. gmpBody n a f ?ch)
                        (takeWhile (\<lambda>g. \<not> gmpHit net n a ?ch g) (FACTORY_CONTRACTS ci) @ [f])"
      by (simp_all add: probeFactories_find)
    have "\<forall>data. r = Success data \<longrightarrow> getProp data ''found'' = JBool True"
      using r gmpResult_found [OF hit] by (auto split: sum.splits)
    with Some r p show ?thesis by simp
  qed
qed

lemma ethereum_info: "getChainInfo (canonicalizeChain ''ethereum'') = Some ethereum"
  by (simp add: getChainInfo_def canonicalizeChain_def EVM_CHAIN_INFO_def toUpperCase_def
      toLowerCase_def upperChar_def lowerChar_def charCode_def char_of_eq_iff ethereum_def)

lemma canonicalize_ethereum: "canonicalizeChain ''ethereum'' = ''ethereum''"
  by (simp add: canonicalizeChain_def toLowerCase_def lowerChar_def charCode_def)

lemma searchGMP_gmpNetwork:
  "searchGMP gmpNetwork (gmpBody n a f ch) =
     (if f = ''0x3bF3056835f7C25b1f71aff99B734Ad07d644577''
      then JObj [(''data'', JArr [gmpRecord])] else JObj [(''data'', JArr [])])"
  by (simp add: searchGMP_def post_def makeRequest_def makeRequest_attempts.simps
      gmpNetwork_def gmpBody_def responseOk_def)

text \<open>
  Ethereum has three factory contracts. The index is empty for the first and has a record
  for the second: two queries are posted, none for the third contract, and the result
  carries the record of the second.
\<close>

theorem axelar_probe_order_witness:
  "snd (axelarGmpTxHandler exampleRuntime gmpNetwork (Some ''ethereum'') (Some exampleAgoric) None)
     = [gmpBody 1 exampleAgoric ''0x647Ead1a35dbC2b0160Cbe6e565f25C4915a125F'' ''ethereum'',
        gmpBody 1 exampleAgoric ''0x3bF3056835f7C25b1f71aff99B734Ad07d644577'' ''ethereum'']
   \<and> (\<exists>data. fst (axelarGmpTxHandler exampleRuntime gmpNetwork (Some ''ethereum'')
                     (Some exampleAgoric) None) = Success data
        \<and> getProp data ''found'' = JBool True
        \<and> getProp (getProp data ''transaction'') ''gmpId'' = JStr ''gmp-1'')"
proof -
  have params: "''ethereum'' \<noteq> []" "exampleAgoric \<noteq> []"
    by (simp_all add: exampleAgoric_def)
  have size: "(1::int) = (case None of None \<Rightarrow> 1 | Some k \<Rightarrow> k)" by simp
  have run: "axelarGmpTxHandler exampleRuntime gmpNetwork (Some ''ethereum'') (Some exampleAgoric) None
      = (fst (axelarGmpTxHandler exampleRuntime gmpNetwork (Some ''ethereum'') (Some exampleAgoric) None),
         snd (axelarGmpTxHandler exampleRuntime gmpNetwork (Some ''ethereum'') (Some exampleAgoric) None))"
    by simp
  have hit: "find (gmpHit gmpNetwork 1 exampleAgoric ''ethereum'') (FACTORY_CONTRACTS ethereum)
             = Some ''0x3bF3056835f7C25b1f71aff99B734Ad07d644577''"
    by (simp add: ethereum_def gmpHit_def searchGMP_gmpNetwork nonEmptyData_def optMember_def)
  have pre: "takeWhile (\<lambda>g. \<not> gmpHit gmpNetwork 1 exampleAgoric ''ethereum'' g)
               (FACTORY_CONTRACTS ethereum) = [''0x647Ead1a35dbC2b0160Cbe6e565f25C4915a125F'']"
    by (simp add: ethereum_def gmpHit_def searchGMP_gmpNetwork nonEmptyData_def optMember_def)
  have res: "gmpResult exampleRuntime ethereum (JObj [(''data'', JArr [gmpRecord])]) =
     Inr (JObj [(''title'', JStr ''Axelar GMP (make account)''),
                (''found'', JBool True),
                (''transaction'',
                 JObj [(''gmpId'', JStr ''gmp-1''), (''event'', JStr ''ContractCall''),
                       (''destTxHash'', JStr ''0xbb''), (''sourceTxHash'', JStr ''0xaa''),
                       (''timestamp'', JStr ''2024-01-01T00:00:00.000Z''),
                       (''explorerUrl'', JStr ''https://etherscan.io/tx/0xbb''),
                       (''gmpUrl'', JStr ''https://axelarscan.io/gmp/gmp-1'')]),
                (''items'',
                 JArr [itemHref ''Destination Tx'' (JStr ''0xbb'')
                         (JStr ''https://etherscan.io/tx/0xbb''),
                       itemHref ''Source Tx'' (JStr ''0xaa'')
                         (JStr ''https://axelarscan.io/tx/0xaa''),
                       itemHref ''Axelar GMP ID'' (JStr ''gmp-1'')
                         (JStr ''https://axelarscan.io/gmp/gmp-1''),
                       item ''Event'' (JStr ''ContractCall'')])])"
    by (simp add: gmpResult_def gmpRecord_def ethereum_def exampleRuntime_def optMember_def
        optLength_def or_js_def coalesce_def whenTruthy_def newDateISO_def toISOString_def
        Let_def)
  show ?thesis
    using axelar_probe_order [OF ethereum_info params size run]
    by (simp add: canonicalize_ethereum hit pre searchGMP_gmpNetwork res)
qed

section \<open>Properties of Step 4: the Etherscan status\<close>

lemma map_sum_Success: "map_sum id Success x \<noteq> Inr (ErrorText m)"
  by (cases x) auto

lemma evmSelect_outcome:
  "evmSelect rt net ci key d ex response = Inr (ErrorText m) \<Longrightarrow>
     getProp response ''status'' = JStr ''0'' \<and> \<not> isArray (getProp response ''result'')
     \<and> m = ''Etherscan error: '' @ String_js (case getProp response ''result'' of JStr s \<Rightarrow> JStr s
                                   | _ \<Rightarrow> or_js (getProp response ''message'') (JStr ''NOTOK''))"
  by (auto simp: evmSelect_def Let_def strictEqStr_def map_sum_Success
      split: if_splits sum.splits list.splits)

text \<open>
  Claim C10. When Etherscan has answered the transaction-list request, Step 4 returns an
  \<open>Etherscan error\<close> exactly when the status is \<open>"0"\<close> and the result is not an array.
  With an empty array as result, whatever the status, it returns the successful result
  with \<open>found = false\<close> and the message \<open>No execute* transactions found\<close>.
\<close>

theorem etherscan_status_zero:
  assumes chain: "getChainInfo (canonicalizeChain c) = Some ci"
      and key: "ETHERSCAN_API_KEY e = Some key" "key \<noteq> []"
      and params: "c \<noteq> []" "d \<noteq> []"
      and answered: "truthy (txlistResponse net ci key d)"
  shows "((\<exists>m. finalEvmTxHandler rt e net (Some c) (Some d) ex
                 = ErrorText (''Etherscan error: '' @ m))
          \<longleftrightarrow> getProp (txlistResponse net ci key d) ''status'' = JStr ''0''
              \<and> \<not> isArray (getProp (txlistResponse net ci key d) ''result''))
       \<and> (getProp (txlistResponse net ci key d) ''result'' = JArr [] \<longrightarrow>
            finalEvmTxHandler rt e net (Some c) (Some d) ex = Success evmNotFound)
       \<and> getProp evmNotFound ''found'' = JBool False
       \<and> getProp evmNotFound ''message'' = JStr ''No execute* transactions found''"
proof -
  let ?resp = "txlistResponse net ci key d"
  have h: "finalEvmTxHandler rt e net (Some c) (Some d) ex =
             (case evmSelect rt net ci key d ex ?resp of
                Inl x \<Rightarrow> CaughtError ''Error tracing final EVM transaction: '' x
              | Inr r \<Rightarrow> r)"
    using params answered by (simp add: finalEvmTrace_unfold [OF chain key])
  have 1: "(\<exists>m. finalEvmTxHandler rt e net (Some c) (Some d) ex
                 = ErrorText (''Etherscan error: '' @ m))
          \<longleftrightarrow> getProp ?resp ''status'' = JStr ''0'' \<and> \<not> isArray (getProp ?resp ''result'')"
  proof
    assume "\<exists>m. finalEvmTxHandler rt e net (Some c) (Some d) ex
                 = ErrorText (''Etherscan error: '' @ m)"
    then obtain m where "evmSelect rt net ci key d ex ?resp = Inr (ErrorText m)"
      using h by (auto split: sum.splits)
    then show "getProp ?resp ''status'' = JStr ''0'' \<and> \<not> isArray (getProp ?resp ''result'')"
      using evmSelect_outcome by blast
  next
    assume "getProp ?resp ''status'' = JStr ''0'' \<and> \<not> isArray (getProp ?resp ''result'')"
    then show "\<exists>m. finalEvmTxHandler rt e net (Some c) (Some d) ex
                 = ErrorText (''Etherscan error: '' @ m)"
      using h by (simp add: evmSelect_def Let_def strictEqStr_def)
  qed
  have 2: "getProp ?resp ''result'' = JArr [] \<longrightarrow>
            finalEvmTxHandler rt e net (Some c) (Some d) ex = Success evmNotFound"
    using h by (simp add: evmSelect_def Let_def isArray_def sortByTime_def)
  show ?thesis using 1 2 by (simp add: evmNotFound_def)
qed

lemma httpGet_answering: "httpGet (answering r) u ps ah True 3 ch = r"
  by (simp add: httpGet_def makeRequest_def makeRequest_attempts.simps answering_def
      responseOk_def)

text \<open>
  Two answers with status \<open>"0"\<close>: an empty array, and an error text.
\<close>

theorem etherscan_status_zero_witness:
  "finalEvmTxHandler exampleRuntime exampleEnv (answering noTransactions)
      (Some ''ethereum'') (Some exampleEvm) None = Success evmNotFound
   \<and> (\<exists>m. finalEvmTxHandler exampleRuntime exampleEnv (answering invalidKey)
             (Some ''ethereum'') (Some exampleEvm) None = ErrorText (''Etherscan error: '' @ m))"
proof -
  have key: "ETHERSCAN_API_KEY exampleEnv = Some ''key''" "''key'' \<noteq> []"
    by (simp_all add: exampleEnv_def)
  have params: "''ethereum'' \<noteq> []" "exampleEvm \<noteq> []"
    by (simp_all add: exampleEvm_def)
  have r1: "txlistResponse (answering noTransactions) ethereum ''key'' exampleEvm
            = noTransactions"
    and r2: "txlistResponse (answering invalidKey) ethereum ''key'' exampleEvm = invalidKey"
    by (simp_all add: txlistResponse_def httpGet_answering)
  have t1: "truthy (txlistResponse (answering noTransactions) ethereum ''key'' exampleEvm)"
    and t2: "truthy (txlistResponse (answering invalidKey) ethereum ''key'' exampleEvm)"
    by (simp_all only: r1 r2) (simp_all add: noTransactions_def invalidKey_def)
  from etherscan_status_zero [OF ethereum_info key params t1, of exampleRuntime None]
  have a: "finalEvmTxHandler exampleRuntime exampleEnv (answering noTransactions)
      (Some ''ethereum'') (Some exampleEvm) None = Success evmNotFound"
    unfolding r1 by (simp add: noTransactions_def)
  from etherscan_status_zero [OF ethereum_info key params t2, of exampleRuntime None]
  have b: "\<exists>m. finalEvmTxHandler exampleRuntime exampleEnv (answering invalidKey)
             (Some ''ethereum'') (Some exampleEvm) None = ErrorText (''Etherscan error: '' @ m)"
    unfolding r2 by (simp add: invalidKey_def isArray_def)
  from a b show ?thesis by simp
qed

section \<open>Properties of Step 2\<close>

lemma scanAckTxs_first:
  assumes "\<forall>t\<in>set pre. \<exists>r. receiverOf rt t = Inr r \<and> r \<noteq> JStr n"
      and "receiverOf rt tx = Inr (JStr n)"
  shows "scanAckTxs rt net n (pre @ tx # rest) = map_sum id Some (fundingFound net n tx)"
  using assms
  by (induction pre) (auto simp: receiverOf_def strictEqStr_def)

text \<open>
  Claim C8, as amended. In the page fetched by Step 2, let \<open>tx\<close> be the first
  transaction whose extracted receiver is the target Noble address itself, the extraction
  having completed, with another value, for each transaction before it (a string that
  differs in one character or in letter case is another value: the comparison is
  \<open>===\<close>). Then \<open>tx\<close> is the match and the result of the step is built from
  \<open>tx\<close> alone: it is \<open>found = true\<close> with the items of \<open>tx\<close>, the first two of
  which are the hash of \<open>tx\<close> and the receiver, or the step error when building the
  items raises an exception. Nothing depends on the transactions after \<open>tx\<close>, which
  are not read.
\<close>

theorem agoric_first_receiver_match:
  assumes params: "a \<noteq> []" "n \<noteq> []"
      and page: "iterate (fundingPage rt e net a (case tk of None \<Rightarrow> 20 | Some k \<Rightarrow> k))
                 = Inr (pre @ tx # rest)"
      and earlier: "\<forall>t\<in>set pre. \<exists>r. receiverOf rt t = Inr r \<and> r \<noteq> JStr n"
      and hit: "receiverOf rt tx = Inr (JStr n)"
  shows "agoricFundingTxHandler rt e net (Some a) (Some n) tk =
           (case fundingFound net n tx of
              Inl ex \<Rightarrow> CaughtError ''Error tracing Agoric funding ACK step: '' ex
            | Inr items \<Rightarrow>
                Success (JObj [(''title'', JStr ''Funding of Noble ICA + IBC ACK''),
                               (''found'', JBool True),
                               (''items'', JArr items),
                               (''message'', JUndefined)]))
       \<and> (\<forall>items. fundingFound net n tx = Inr items \<longrightarrow>
            take 2 items =
              [itemHref ''Agoric Tx'' (getProp tx ''txhash'')
                 (JStr (''https://www.mintscan.io/agoric/txs/''
                        @ String_js (getProp tx ''txhash''))),
               item ''Receiver'' (JStr n)])"
proof
  show "agoricFundingTxHandler rt e net (Some a) (Some n) tk =
           (case fundingFound net n tx of
              Inl ex \<Rightarrow> CaughtError ''Error tracing Agoric funding ACK step: '' ex
            | Inr items \<Rightarrow>
                Success (JObj [(''title'', JStr ''Funding of Noble ICA + IBC ACK''),
                               (''found'', JBool True),
                               (''items'', JArr items),
                               (''message'', JUndefined)]))"
    using params page scanAckTxs_first [OF earlier hit, of net rest]
    by (simp add: agoricFundingTxHandler_def agoricFundingTrace_def fundingPage_def Let_def
        split: sum.splits)
  show "\<forall>items. fundingFound net n tx = Inr items \<longrightarrow>
            take 2 items =
              [itemHref ''Agoric Tx'' (getProp tx ''txhash'')
                 (JStr (''https://www.mintscan.io/agoric/txs/''
                        @ String_js (getProp tx ''txhash''))),
               item ''Receiver'' (JStr n)]"
    by (auto simp: fundingFound_def Let_def split: sum.splits)
qed

lemma httpGet_ackNetwork:
  "httpGet ackNetwork u ps ah True 3 ch =
     JObj [(''transactions'',
            JArr [ackTx ''AA'' ''NOBLE1qqqqqqqqqqqqqqqqqqqqqqqqqqqqqqqqqqqqqq'',
                  ackTx ''BB'' ''noble1qqqqqqqqqqqqqqqqqqqqqqqqqqqqqqqqqqqqqq'',
                  brokenTx])]"
  by (simp add: httpGet_def makeRequest_def makeRequest_attempts.simps ackNetwork_def
      responseOk_def)

lemma receiverOf_ackTx: "receiverOf rt (ackTx h r) = Inr (JStr r)" if "r \<noteq> []"
  using that
  by (simp add: receiverOf_def ackTx_def extractReceiverFromLogs_def or_js_def optMember_def
      flatMapEvents_def coalesce_def packetReceiver_def tokenPacketReceiver_def
      strictEqStr_def RecvPacket_def WriteAcknowledgement_def FungibleTokenPacket_def
      findByKey_def arrayOf_def member_def Let_def)

lemma receiverOf_brokenTx: "receiverOf rt brokenTx = Inl TypeError"
  by (simp add: receiverOf_def brokenTx_def extractReceiverFromLogs_def or_js_def optMember_def
      flatMapEvents_def coalesce_def packetReceiver_def tokenPacketReceiver_def
      strictEqStr_def RecvPacket_def WriteAcknowledgement_def FungibleTokenPacket_def
      findByKey_def arrayOf_def member_def Let_def)

text \<open>
  A page of three transactions. The receiver of the first is the target address in
  capitals and is not a match; the second is the match; the logs of the third would raise
  a TypeError if they were read.
\<close>

theorem agoric_first_receiver_match_witness:
  "receiverOf exampleRuntime (ackTx ''AA'' ''NOBLE1qqqqqqqqqqqqqqqqqqqqqqqqqqqqqqqqqqqqqq'')
     = Inr (JStr ''NOBLE1qqqqqqqqqqqqqqqqqqqqqqqqqqqqqqqqqqqqqq'')
   \<and> receiverOf exampleRuntime brokenTx = Inl TypeError
   \<and> agoricFundingTxHandler exampleRuntime exampleEnv ackNetwork (Some exampleAgoric)
        (Some exampleNoble) None =
      Success (JObj [(''title'', JStr ''Funding of Noble ICA + IBC ACK''),
                     (''found'', JBool True),
                     (''items'',
                      JArr [itemHref ''Agoric Tx'' (JStr ''BB'')
                              (JStr ''https://www.mintscan.io/agoric/txs/BB''),
                            item ''Receiver'' (JStr exampleNoble)]),
                     (''message'', JUndefined)])"
proof -
  have params: "exampleAgoric \<noteq> []" "exampleNoble \<noteq> []"
    by (simp_all add: exampleAgoric_def exampleNoble_def)
  have page: "iterate (fundingPage exampleRuntime exampleEnv ackNetwork exampleAgoric
                         (case None of None \<Rightarrow> 20 | Some k \<Rightarrow> k))
              = Inr ([ackTx ''AA'' ''NOBLE1qqqqqqqqqqqqqqqqqqqqqqqqqqqqqqqqqqqqqq'']
                     @ ackTx ''BB'' ''noble1qqqqqqqqqqqqqqqqqqqqqqqqqqqqqqqqqqqqqq'' # [brokenTx])"
    by (simp add: fundingPage_def httpGet_ackNetwork responseTransactions_def optMember_def
        or_js_def iterate_def)
  have earlier: "\<forall>t\<in>set [ackTx ''AA'' ''NOBLE1qqqqqqqqqqqqqqqqqqqqqqqqqqqqqqqqqqqqqq''].
                   \<exists>r. receiverOf exampleRuntime t = Inr r \<and> r \<noteq> JStr exampleNoble"
    by (simp add: receiverOf_ackTx exampleNoble_def)
  have hit: "receiverOf exampleRuntime (ackTx ''BB'' ''noble1qqqqqqqqqqqqqqqqqqqqqqqqqqqqqqqqqqqqqq'')
             = Inr (JStr exampleNoble)"
    by (simp add: receiverOf_ackTx exampleNoble_def)
  have found: "fundingFound ackNetwork exampleNoble
                 (ackTx ''BB'' ''noble1qqqqqqqqqqqqqqqqqqqqqqqqqqqqqqqqqqqqqq'')
               = Inr [itemHref ''Agoric Tx'' (JStr ''BB'')
                        (JStr ''https://www.mintscan.io/agoric/txs/BB''),
                      item ''Receiver'' (JStr exampleNoble)]"
    by (simp add: fundingFound_def ackTx_def txMessages_def optMember_def or_js_def iterate_def
        arrayOf_def nobleTxItems_def Let_def)
  show ?thesis
    using agoric_first_receiver_match [OF params page earlier hit]
    by (simp add: found receiverOf_ackTx receiverOf_brokenTx)
qed

lemma receiverOf_mapTx: "receiverOf rt mapTx = Inl TypeError"
  by (simp add: receiverOf_def mapTx_def extractReceiverFromLogs_def or_js_def optMember_def
      flatMapEvents_def coalesce_def packetReceiver_def strictEqStr_def RecvPacket_def
      findByKey_def arrayOf_def Let_def)

text \<open>
  Claim C8 as stated speaks of every fetched page. A page of two transactions: the packet
  event of the first carries its attributes as an object, and \<open>attributes.find\<close> raises
  a TypeError; the receiver of the second is the target address. The second transaction
  is the first whose extracted receiver equals the target, and it is not the match: the
  step returns its error.
\<close>

theorem agoric_first_receiver_match_counterexample:
  "receiverOf exampleRuntime mapTx = Inl TypeError
   \<and> receiverOf exampleRuntime (ackTx ''BB'' ''noble1qqqqqqqqqqqqqqqqqqqqqqqqqqqqqqqqqqqqqq'')
       = Inr (JStr exampleNoble)
   \<and> agoricFundingTxHandler exampleRuntime exampleEnv
        (answering (mintscanPage [mapTx, ackTx ''BB'' ''noble1qqqqqqqqqqqqqqqqqqqqqqqqqqqqqqqqqqqqqq'']))
        (Some exampleAgoric) (Some exampleNoble) None
       = CaughtError ''Error tracing Agoric funding ACK step: '' TypeError"
proof -
  have params: "exampleAgoric \<noteq> []" "exampleNoble \<noteq> []"
    by (simp_all add: exampleAgoric_def exampleNoble_def)
  have scan: "scanAckTxs exampleRuntime net exampleNoble (mapTx # rest) = Inl TypeError"
    for net rest
    using receiverOf_mapTx [of exampleRuntime] by (simp add: receiverOf_def)
  show ?thesis
    using params
    by (simp add: receiverOf_mapTx receiverOf_ackTx exampleNoble_def [symmetric]
        agoricFundingTxHandler_def agoricFundingTrace_def httpGet_answering
        mintscanPage_def responseTransactions_def optMember_def or_js_def iterate_def scan
        Let_def del: scanAckTxs.simps)
qed

section \<open>Properties of Step 3\<close>

lemma normalizeAddress_Nil: "normalizeAddress [] = []"
  by (simp add: normalizeAddress_def trim_def toLowerCase_def strip0x_def startsWith_def)

lemma cctpMatch_burnMatches:
  assumes "normalizeAddress d \<noteq> []" "dm \<noteq> ''null''" "DOMAIN ci = dm"
      and "cctpDataOf tx = Inr x"
  shows "cctpMatch dm d x \<longleftrightarrow> burnMatches ci d tx"
  using assms
  by (cases "mintRecipient x"; cases "destinationDomain x")
     (auto simp: cctpMatch_def burnMatches_def normalizeAddress_Nil)

lemma scanBurnTxs_find:
  assumes "normalizeAddress d \<noteq> []" "DOMAIN ci \<noteq> ''null''"
      and "\<forall>t\<in>set (takeWhile (\<lambda>t. \<not> burnMatches ci d t) txs). \<exists>x. cctpDataOf t = Inr x"
  shows "scanBurnTxs rt (DOMAIN ci) d txs =
           (case find (burnMatches ci d) txs of
              None \<Rightarrow> Inr cctpNotFound
            | Some tx \<Rightarrow> (case cctpDataOf tx of Inl e \<Rightarrow> Inl e | Inr x \<Rightarrow> cctpFound rt d x tx))"
  using assms(3)
proof (induction txs)
  case Nil
  then show ?case by simp
next
  case (Cons t txs)
  show ?case
  proof (cases "burnMatches ci d t")
    case True
    then obtain x where x: "cctpDataOf t = Inr x"
      by (auto simp: burnMatches_def split: sum.splits)
    with True assms(1,2) have "cctpMatch (DOMAIN ci) d x"
      using cctpMatch_burnMatches by blast
    with True x show ?thesis by (simp add: cctpDataOf_def [symmetric])
  next
    case False
    with Cons.prems obtain x where x: "cctpDataOf t = Inr x" by auto
    with False assms(1,2) have "\<not> cctpMatch (DOMAIN ci) d x"
      using cctpMatch_burnMatches by blast
    moreover have "\<forall>t\<in>set (takeWhile (\<lambda>t. \<not> burnMatches ci d t) txs). \<exists>x. cctpDataOf t = Inr x"
      using Cons.prems False by simp
    ultimately show ?thesis
      using False x Cons.IH by (simp add: cctpDataOf_def [symmetric])
  qed
qed

lemma cctpFound_fields:
  assumes "iterate (txMessages tx) = Inr msgs"
      and "newDateISO rt (getProp tx ''timestamp'') = Inr isoTime"
  shows "\<exists>r. cctpFound rt d x tx = Inr r
           \<and> getProp r ''found'' = JBool True
           \<and> getProp r ''txHash'' = JStr (String_js (getProp tx ''txhash''))
           \<and> getProp r ''burnAmount'' = fst (burnOf msgs)
           \<and> getProp r ''burnDenom'' = snd (burnOf msgs)"
  using assms by (simp add: cctpFound_def Let_def split: prod.splits)

text \<open>
  Claim C4, as amended. Let the provider return the transactions \<open>txs\<close> for a supported
  chain and a target address that does not normalize to the empty string (every \<open>0x\<close>
  address of 40 digits), the logs of the transactions before the first match being
  readable: the extraction raises no exception on them. A transaction matches when a
  recipient was decoded from its burn event and equals the target address after
  normalization, and a domain was extracted and equals the domain id of the chain
  profile. When no transaction matches, Step 3 returns \<open>found = false\<close>. Otherwise,
  when the message list of the first matching transaction in the order of the provider is
  iterable and its timestamp is a valid date, Step 3 returns \<open>found = true\<close> with the
  hash of that transaction and the amount and denomination of its first MsgBurn message
  that has an amount (both \<open>null\<close> without such a message).
\<close>

theorem cctp_first_burn_match:
  assumes chain: "getChainInfo (canonicalizeChain c) = Some ci"
      and params: "n \<noteq> []" "c \<noteq> []" "d \<noteq> []"
      and target: "normalizeAddress d \<noteq> []"
      and page: "iterate (burnPage rt e net n (case tk of None \<Rightarrow> 20 | Some k \<Rightarrow> k)) = Inr txs"
      and readable:
        "\<forall>t\<in>set (takeWhile (\<lambda>t. \<not> burnMatches ci d t) txs). \<exists>x. cctpDataOf t = Inr x"
  shows "case find (burnMatches ci d) txs of
           None \<Rightarrow>
             cctpNobleTxHandler rt e net (Some n) (Some c) (Some d) tk = Success cctpNotFound
             \<and> getProp cctpNotFound ''found'' = JBool False
         | Some tx \<Rightarrow>
             (\<forall>msgs isoTime.
                iterate (txMessages tx) = Inr msgs
                \<and> newDateISO rt (getProp tx ''timestamp'') = Inr isoTime \<longrightarrow>
                (\<exists>r. cctpNobleTxHandler rt e net (Some n) (Some c) (Some d) tk = Success r
                    \<and> getProp r ''found'' = JBool True
                    \<and> getProp r ''txHash'' = JStr (String_js (getProp tx ''txhash''))
                    \<and> (case find isMsgBurn msgs of
                          None \<Rightarrow> getProp r ''burnAmount'' = JNull
                                  \<and> getProp r ''burnDenom'' = JNull
                        | Some msg \<Rightarrow>
                            getProp r ''burnAmount'' = getProp (getProp msg ''amount'') ''amount''
                            \<and> getProp r ''burnDenom'' = getProp (getProp msg ''amount'') ''denom'')))"
proof -
  have dmn: "DOMAIN ci \<noteq> ''null''" using chain_table(3) [OF chain] by auto
  have h: "cctpNobleTxHandler rt e net (Some n) (Some c) (Some d) tk =
             (case scanBurnTxs rt (DOMAIN ci) d txs of
                Inl ex \<Rightarrow> CaughtError ''Error tracing CCTP Noble step: '' ex
              | Inr data \<Rightarrow> Success data)"
    using params chain page
    by (simp add: cctpNobleTxHandler_def cctpNobleTrace_def burnPage_def Let_def)
  note scan = scanBurnTxs_find [OF target dmn readable, of rt]
  show ?thesis
  proof (cases "find (burnMatches ci d) txs")
    case None
    with h scan show ?thesis by (simp add: cctpNotFound_def)
  next
    case (Some tx)
    then have "burnMatches ci d tx" by (auto simp: find_Some_iff)
    then obtain x where x: "cctpDataOf tx = Inr x"
      by (auto simp: burnMatches_def split: sum.splits)
    have "\<exists>r. cctpNobleTxHandler rt e net (Some n) (Some c) (Some d) tk = Success r
            \<and> getProp r ''found'' = JBool True
            \<and> getProp r ''txHash'' = JStr (String_js (getProp tx ''txhash''))
            \<and> (case find isMsgBurn msgs of
                  None \<Rightarrow> getProp r ''burnAmount'' = JNull \<and> getProp r ''burnDenom'' = JNull
                | Some msg \<Rightarrow>
                    getProp r ''burnAmount'' = getProp (getProp msg ''amount'') ''amount''
                    \<and> getProp r ''burnDenom'' = getProp (getProp msg ''amount'') ''denom'')"
      if m: "iterate (txMessages tx) = Inr msgs"
        and t: "newDateISO rt (getProp tx ''timestamp'') = Inr isoTime" for msgs isoTime
    proof -
      from cctpFound_fields [OF m t, of d x] obtain r where
        r: "cctpFound rt d x tx = Inr r" "getProp r ''found'' = JBool True"
          "getProp r ''txHash'' = JStr (String_js (getProp tx ''txhash''))"
          "getProp r ''burnAmount'' = fst (burnOf msgs)"
          "getProp r ''burnDenom'' = snd (burnOf msgs)"
        by blast
      have "cctpNobleTxHandler rt e net (Some n) (Some c) (Some d) tk = Success r"
        using h scan Some x r(1) by simp
      with r show ?thesis
        by (auto simp: burnOf_def split: option.splits)
    qed
    with Some show ?thesis by simp
  qed
qed

lemma cctpDataOf_burnTx:
  "cctpDataOf (burnTx h ''1'' ''EjRWeJCrze8SNFZ4kKvN7xI0q80='') =
     Inr \<lparr>mintRecipient = Some ''0x1234567890abcdef1234567890abcdef1234abcd'',
          destinationDomain = Some ''1''\<rparr>"
  "cctpDataOf (burnTx h ''3'' ''EjRWeJCrze8SNFZ4kKvN7xI0q80='') =
     Inr \<lparr>mintRecipient = Some ''0x1234567890abcdef1234567890abcdef1234abcd'',
          destinationDomain = Some ''3''\<rparr>"
  by (simp_all add: cctpDataOf_def burnTx_def extractCctpDataFromLogs_def json_eval Let_def
      decodeMintRecipient_def atob_def removePadding_def isAsciiWhitespace_def base64Index_def
      charCode_def byteHex_def toString16_def padStart2_def hexDigit_def char_of_eq_iff)

lemma normalize_exampleEvm:
  "normalizeAddress ''0x1234567890abcdef1234567890abcdef1234abcd''
     = ''1234567890abcdef1234567890abcdef1234abcd''"
  by (simp add: normalizeAddress_def strip0x_def startsWith_def toLowerCase_def trim_def
      isWhiteSpace_def lowerChar_def charCode_def)

lemma burnMatches_burnTx:
  "burnMatches avalanche exampleEvm (burnTx h ''1'' ''EjRWeJCrze8SNFZ4kKvN7xI0q80='')"
  "\<not> burnMatches avalanche exampleEvm (burnTx h ''3'' ''EjRWeJCrze8SNFZ4kKvN7xI0q80='')"
  by (simp_all add: burnMatches_def cctpDataOf_burnTx avalanche_def exampleEvm_def)

lemma httpGet_burnNetwork:
  "httpGet burnNetwork u ps ah True 3 ch =
     JObj [(''transactions'',
            JArr [burnTx ''D3'' ''3'' ''EjRWeJCrze8SNFZ4kKvN7xI0q80='',
                  burnTx ''D1'' ''1'' ''EjRWeJCrze8SNFZ4kKvN7xI0q80='',
                  burnTx ''D1b'' ''1'' ''EjRWeJCrze8SNFZ4kKvN7xI0q80=''])]"
  by (simp add: httpGet_def makeRequest_def makeRequest_attempts.simps burnNetwork_def
      responseOk_def)

text \<open>
  Three burns to the example address, for domain 3, domain 1 and domain 1 again, traced
  for Avalanche (domain 1): the result is the second transaction, with the amount of its
  message.
\<close>

theorem cctp_first_burn_match_witness:
  "\<exists>r. cctpNobleTxHandler exampleRuntime exampleEnv burnNetwork (Some exampleNoble)
          (Some ''avalanche'') (Some exampleEvm) None = Success r
       \<and> getProp r ''found'' = JBool True
       \<and> getProp r ''txHash'' = JStr ''D1''
       \<and> getProp r ''burnAmount'' = JStr ''1000000''
       \<and> getProp r ''burnDenom'' = JStr ''uusdc''"
proof -
  let ?txs = "[burnTx ''D3'' ''3'' ''EjRWeJCrze8SNFZ4kKvN7xI0q80='',
               burnTx ''D1'' ''1'' ''EjRWeJCrze8SNFZ4kKvN7xI0q80='',
               burnTx ''D1b'' ''1'' ''EjRWeJCrze8SNFZ4kKvN7xI0q80='']"
  let ?msg = "JObj [(''@type'', JStr ''/circle.fiattokenfactory.v1.MsgBurn''),
                    (''amount'', JObj [(''amount'', JStr ''1000000''), (''denom'', JStr ''uusdc'')])]"
  have params: "exampleNoble \<noteq> []" "''avalanche'' \<noteq> []" "exampleEvm \<noteq> []"
    by (simp_all add: exampleNoble_def exampleEvm_def)
  have target: "normalizeAddress exampleEvm \<noteq> []"
    by (simp add: exampleEvm_def normalize_exampleEvm)
  have page: "iterate (burnPage exampleRuntime exampleEnv burnNetwork exampleNoble
                         (case None of None \<Rightarrow> 20 | Some k \<Rightarrow> k)) = Inr ?txs"
    by (simp add: burnPage_def httpGet_burnNetwork responseTransactions_def optMember_def
        or_js_def iterate_def)
  have readable: "\<forall>t\<in>set (takeWhile (\<lambda>t. \<not> burnMatches avalanche exampleEvm t) ?txs).
                    \<exists>x. cctpDataOf t = Inr x"
    by (simp add: burnMatches_burnTx cctpDataOf_burnTx)
  have first: "find (burnMatches avalanche exampleEvm) ?txs
               = Some (burnTx ''D1'' ''1'' ''EjRWeJCrze8SNFZ4kKvN7xI0q80='')"
    by (simp add: burnMatches_burnTx)
  have msgs: "iterate (txMessages (burnTx ''D1'' ''1'' ''EjRWeJCrze8SNFZ4kKvN7xI0q80='')) = Inr [?msg]"
    by (simp add: txMessages_def burnTx_def optMember_def or_js_def iterate_def)
  have time: "newDateISO exampleRuntime
                (getProp (burnTx ''D1'' ''1'' ''EjRWeJCrze8SNFZ4kKvN7xI0q80='') ''timestamp'')
              = Inr ''2024-01-01T00:00:00.000Z''"
    by (simp add: burnTx_def newDateISO_def toISOString_def exampleRuntime_def)
  have hash: "getProp (burnTx ''D1'' ''1'' ''EjRWeJCrze8SNFZ4kKvN7xI0q80='') ''txhash'' = JStr ''D1''"
    by (simp add: burnTx_def)
  from cctp_first_burn_match [OF avalanche_info params target page readable]
  show ?thesis
    unfolding first using msgs time
    by (simp add: hash isMsgBurn_def strictEqStr_def optMember_def)
qed

lemma cctpDataOf_burnEventLogs:
  "cctpDataOf (JObj ((''txhash'', h) # (''logs'', JArr burnEventLogs) # others)) =
     Inr \<lparr>mintRecipient = Some ''0x1234567890abcdef1234567890abcdef1234abcd'',
          destinationDomain = Some ''1''\<rparr>"
  "cctpDataOf (JObj [(''txhash'', h), (''timestamp'', t), (''logs'', JArr burnEventLogs), x]) =
     Inr \<lparr>mintRecipient = Some ''0x1234567890abcdef1234567890abcdef1234abcd'',
          destinationDomain = Some ''1''\<rparr>"
  by (simp_all add: cctpDataOf_def optMember_def or_js_def burnEventLogs_data)

lemma cctpDataOf_mapBurnTx: "cctpDataOf mapBurnTx = Inl TypeError"
  by (simp add: cctpDataOf_def mapBurnTx_def extractCctpDataFromLogs_def json_eval Let_def)

lemma burnMatches_examples:
  "burnMatches avalanche exampleEvm undatedTx"
  "burnMatches avalanche exampleEvm countedTx"
  "\<not> burnMatches avalanche exampleEvm mapBurnTx"
  by (simp_all add: burnMatches_def undatedTx_def countedTx_def cctpDataOf_burnEventLogs
      cctpDataOf_mapBurnTx avalanche_def exampleEvm_def)

lemma cctpMatch_example:
  "cctpMatch ''1'' exampleEvm
     \<lparr>mintRecipient = Some ''0x1234567890abcdef1234567890abcdef1234abcd'',
      destinationDomain = Some ''1''\<rparr>"
  by (simp add: cctpMatch_def exampleEvm_def)

lemma cctpNoble_answering:
  "cctpNobleTxHandler exampleRuntime exampleEnv (answering (mintscanPage txs))
     (Some exampleNoble) (Some ''avalanche'') (Some exampleEvm) None =
   (case scanBurnTxs exampleRuntime ''1'' exampleEvm txs of
      Inl ex \<Rightarrow> CaughtError ''Error tracing CCTP Noble step: '' ex
    | Inr data \<Rightarrow> Success data)"
proof -
  have ne: "exampleNoble \<noteq> []" "exampleEvm \<noteq> []"
    by (simp_all add: exampleNoble_def exampleEvm_def)
  have d: "DOMAIN avalanche = ''1''" by (simp add: avalanche_def)
  show ?thesis
    using ne
    by (simp add: cctpNobleTxHandler_def cctpNobleTrace_def avalanche_info d
        httpGet_answering mintscanPage_def responseTransactions_def optMember_def or_js_def
        iterate_def Let_def)
qed

text \<open>
  Claim C4 as stated speaks of every list of burn transactions. Three pages on which the
  first matching transaction exists and the step returns its error: the matching
  transaction has no timestamp (\<open>toISOString\<close> raises a RangeError); its body gives a
  number in place of the message list (the loop over the messages raises a TypeError);
  the burn event of a transaction before it carries its attributes as an object
  (\<open>reduce\<close> raises a TypeError).
\<close>

theorem cctp_first_burn_match_counterexample:
  "burnMatches avalanche exampleEvm undatedTx
   \<and> cctpNobleTxHandler exampleRuntime exampleEnv (answering (mintscanPage [undatedTx]))
        (Some exampleNoble) (Some ''avalanche'') (Some exampleEvm) None
       = CaughtError ''Error tracing CCTP Noble step: '' RangeError
   \<and> burnMatches avalanche exampleEvm countedTx
   \<and> cctpNobleTxHandler exampleRuntime exampleEnv (answering (mintscanPage [countedTx]))
        (Some exampleNoble) (Some ''avalanche'') (Some exampleEvm) None
       = CaughtError ''Error tracing CCTP Noble step: '' TypeError
   \<and> \<not> burnMatches avalanche exampleEvm mapBurnTx
   \<and> burnMatches avalanche exampleEvm (burnTx ''D1'' ''1'' ''EjRWeJCrze8SNFZ4kKvN7xI0q80='')
   \<and> cctpNobleTxHandler exampleRuntime exampleEnv
        (answering (mintscanPage [mapBurnTx, burnTx ''D1'' ''1'' ''EjRWeJCrze8SNFZ4kKvN7xI0q80='']))
        (Some exampleNoble) (Some ''avalanche'') (Some exampleEvm) None
       = CaughtError ''Error tracing CCTP Noble step: '' TypeError"
proof -
  have 1: "scanBurnTxs exampleRuntime ''1'' exampleEvm [undatedTx] = Inl RangeError"
    using cctpDataOf_burnEventLogs(1) [of "JStr ''D1''" "[]"] cctpMatch_example
    by (simp add: cctpDataOf_def undatedTx_def cctpFound_def txMessages_def optMember_def
        or_js_def iterate_def burnOf_def newDateISO_def toISOString_def Let_def)
  have 2: "scanBurnTxs exampleRuntime ''1'' exampleEvm [countedTx] = Inl TypeError"
    using cctpDataOf_burnEventLogs(2) [of "JStr ''D1''" "JStr ''2024-01-01T00:00:00Z''"
        "(''tx'', JObj [(''body'', JObj [(''messages'', JNum 1)])])"] cctpMatch_example
    by (simp add: cctpDataOf_def countedTx_def cctpFound_def txMessages_def optMember_def
        or_js_def iterate_def Let_def)
  have 3: "scanBurnTxs exampleRuntime ''1'' exampleEvm (mapBurnTx # rest) = Inl TypeError"
    for rest
    using cctpDataOf_mapBurnTx by (simp add: cctpDataOf_def)
  show ?thesis
    by (simp add: burnMatches_examples burnMatches_burnTx cctpNoble_answering 1 2 3
        del: scanBurnTxs.simps)
qed

section \<open>Properties of Step 4: the amount match\<close>







lemma evmItems_no_match:
  assumes "evmItems rt ci evmTx = Inr its1"
  shows "amountMatchItem \<notin> set its1"
proof -
  define timeItems where
    "timeItems = (if truthy (getProp evmTx ''timeStamp'')
         then map_sum id (\<lambda>s. [item ''Time'' (JStr s)]) (secondsISO rt (getProp evmTx ''timeStamp''))
         else Inr [])"
  note a = assms [unfolded evmItems_def Let_def, folded timeItems_def]
  from a obtain tis where tis: "timeItems = Inr tis"
    by (cases timeItems) simp_all
  have ti: "amountMatchItem \<notin> set tis"
  proof (cases "truthy (getProp evmTx ''timeStamp'')")
    case True
    with tis [unfolded timeItems_def] show ?thesis
      by (cases "secondsISO rt (getProp evmTx ''timeStamp'')")
         (auto simp: item_def amountMatchItem_def)
  next
    case False
    with tis [unfolded timeItems_def] show ?thesis by auto
  qed
  from a [unfolded tis] have
    "its1 = (if truthy (getProp evmTx ''hash'')
                   then [itemHref ''Tx Hash'' (getProp evmTx ''hash'') (explorerLink ci evmTx)]
                   else [])
                  @ (if truthy (getProp evmTx ''from'') then [item ''From'' (getProp evmTx ''from'')] else [])
                  @ (if truthy (getProp evmTx ''to'') then [item ''To'' (getProp evmTx ''to'')] else [])
                  @ (if truthy (getProp evmTx ''blockNumber'')
                     then [item ''Block'' (JStr (String_js (getProp evmTx ''blockNumber'')))] else [])
                  @ tis
                  @ (if truthy (getProp evmTx ''functionName'')
                     then [item ''Method'' (JStr (methodName (getProp evmTx ''functionName'')))]
                     else [])
                  @ (if truthy (getProp evmTx ''gasUsed'')
                     then [item ''Gas Used'' (JStr (String_js (getProp evmTx ''gasUsed'')))] else [])
                  @ (if truthy (getProp evmTx ''gasPrice'')
                     then [item ''Gas Price (Gwei)''
                             (JStr (gweiFixed2 rt (Number_js rt (getProp evmTx ''gasPrice''))))]
                     else [])"
    by simp
  then show ?thesis
    using ti by (simp add: item_def itemHref_def amountMatchItem_def)
qed

lemma sanitizedEvmTx_hash:
  assumes "sanitizedEvmTx rt ci evmTx = Inr stx"
  shows "getProp stx ''hash'' = JStr (String_js (getProp evmTx ''hash''))"
  using assms
  by (cases "secondsISO rt (getProp evmTx ''timeStamp'')")
     (auto simp: sanitizedEvmTx_def Let_def)

lemma evmFound_items:
  assumes "evmFound rt net ci key d ex evmTx = Inr r"
  shows "\<exists>its1. getProp r ''items''
                  = JArr (its1 @ snd (receiptTransfer rt net (CHAIN_ID ci) key d ex evmTx))
           \<and> amountMatchItem \<notin> set its1"
    and "getProp r ''found'' = JBool True"
    and "getProp r ''txHash'' = JStr (String_js (getProp evmTx ''hash''))"
proof -
  from assms obtain its1 where i1: "evmItems rt ci evmTx = Inr its1"
    by (cases "evmItems rt ci evmTx") (simp_all add: evmFound_def)
  from assms i1 obtain stx where st: "sanitizedEvmTx rt ci evmTx = Inr stx"
    by (cases "sanitizedEvmTx rt ci evmTx") (simp_all add: evmFound_def split: prod.splits)
  obtain tta its2 where rc: "receiptTransfer rt net (CHAIN_ID ci) key d ex evmTx = (tta, its2)"
    by (cases "receiptTransfer rt net (CHAIN_ID ci) key d ex evmTx")
  from assms have r: "r = JObj [(''title'', JStr ''Final EVM Transaction''),
                             (''found'', JBool True),
                             (''txHash'', getProp stx ''hash''),
                             (''tokenTransferAmount'', tta),
                             (''transaction'', stx),
                             (''items'', JArr (its1 @ its2))]"
    by (simp add: evmFound_def i1 st rc)
  show "\<exists>its1. getProp r ''items''
                  = JArr (its1 @ snd (receiptTransfer rt net (CHAIN_ID ci) key d ex evmTx))
           \<and> amountMatchItem \<notin> set its1"
    using evmItems_no_match [OF i1] by (simp add: r rc)
  show "getProp r ''found'' = JBool True" by (simp add: r)
  show "getProp r ''txHash'' = JStr (String_js (getProp evmTx ''hash''))"
    by (simp add: r sanitizedEvmTx_hash [OF st])
qed

lemma map_sum_Success_eq: "map_sum id Success x = Inr (Success r) \<longleftrightarrow> x = Inr r"
  by (cases x) auto

lemma evmSelect_Success:
  assumes "evmSelect rt net ci key d ex resp = Inr (Success r)"
      and "getProp r ''found'' = JBool True"
  shows "\<exists>evmTx. selectedTx rt resp = Some evmTx
           \<and> evmFound rt net ci key d ex evmTx = Inr r"
proof -
  have nf: "r \<noteq> evmNotFound" using assms(2) by (auto simp: evmNotFound_def)
  let ?ts = "case getProp resp ''result'' of JArr ts \<Rightarrow> ts | _ \<Rightarrow> []"
  from assms(1) have
    sel: "(case filterExecutes ?ts of
             Inl e \<Rightarrow> Inl e
           | Inr executes \<Rightarrow>
               (case sortByTime rt executes of
                  [] \<Rightarrow> Inr (Success evmNotFound)
                | evmTx # others \<Rightarrow>
                    if \<not> truthy evmTx then Inr (Success evmNotFound)
                    else map_sum id Success (evmFound rt net ci key d ex evmTx)))
          = Inr (Success r)"
    by (simp add: evmSelect_def Let_def split: if_splits)
  then obtain executes where ex: "filterExecutes ?ts = Inr executes"
    by (cases "filterExecutes ?ts") simp_all
  from sel ex nf obtain evmTx others where so: "sortByTime rt executes = evmTx # others"
    by (cases "sortByTime rt executes") simp_all
  from sel ex so nf have "evmFound rt net ci key d ex evmTx = Inr r"
    by (simp add: map_sum_Success_eq split: if_splits)
  moreover have "selectedTx rt resp = Some evmTx"
    by (simp add: selectedTx_def ex so)
  ultimately show ?thesis by blast
qed

lemma finalEvm_Success:
  assumes chain: "getChainInfo (canonicalizeChain c) = Some ci"
      and key: "ETHERSCAN_API_KEY e = Some key" "key \<noteq> []"
      and run: "finalEvmTxHandler rt e net (Some c) (Some d) ex = Success r"
      and found: "getProp r ''found'' = JBool True"
  shows "\<exists>evmTx. selectedTx rt (txlistResponse net ci key d) = Some evmTx
           \<and> evmFound rt net ci key d ex evmTx = Inr r"
proof -
  from run have "evmSelect rt net ci key d ex (txlistResponse net ci key d) = Inr (Success r)"
    by (auto simp: finalEvmTrace_unfold [OF chain key] split: if_splits sum.splits)
  then show ?thesis using found by (rule evmSelect_Success)
qed


lemma txlist_evmNetwork:
  "txlistResponse evmNetwork ethereum ''key'' exampleEvm =
     JObj [(''status'', JStr ''1''), (''message'', JStr ''OK''), (''result'', JArr [executeTx])]"
  by (simp add: txlistResponse_def httpGet_def makeRequest_def makeRequest_attempts.simps
      evmNetwork_def responseOk_def)


lemma timeStamp_executeTx: "getProp executeTx ''timeStamp'' = JStr ''1704067200''"
  by (simp add: executeTx_def)

lemma seconds_executeTx:
  "secondsISO exampleRuntime (JStr ''1704067200'') = Inr ''2024-01-01T00:00:00.000Z''"
  by (simp add: secondsISO_def exampleRuntime_def parseRadix_def digitValue_def
      charCode_def timeClip_def toISOString_def)

lemma sortByTime_executeTx: "sortByTime exampleRuntime [executeTx] = [executeTx]"
proof -
  have "Number_js exampleRuntime (JStr ''1704067200'') = JNum 1704067200"
    by (simp add: exampleRuntime_def parseRadix_def digitValue_def charCode_def)
  then have "numericTime exampleRuntime executeTx"
    by (simp add: numericTime_def timeStamp_executeTx or_js_def)
  then show ?thesis by (simp add: sortByTime_def)
qed

lemma selectedTx_evmNetwork:
  "selectedTx exampleRuntime (txlistResponse evmNetwork ethereum ''key'' exampleEvm)
     = Some executeTx"
proof -
  have fe: "filterExecutes [executeTx] = Inr [executeTx]"
    by (simp add: member_def executeTx_def or_js_def startsWith_def)
  show ?thesis
    by (simp add: txlist_evmNetwork selectedTx_def fe sortByTime_executeTx
        del: filterExecutes.simps)
qed





lemma run_evmNetwork:
  "\<exists>r. finalEvmTxHandler exampleRuntime exampleEnv evmNetwork (Some ''ethereum'')
          (Some exampleEvm) ex = Success r \<and> getProp r ''found'' = JBool True"
proof -
  have key: "ETHERSCAN_API_KEY exampleEnv = Some ''key''" "''key'' \<noteq> []"
    by (simp_all add: exampleEnv_def)
  obtain its1 where i1: "evmItems exampleRuntime ethereum executeTx = Inr its1"
    by (simp add: evmItems_def Let_def timeStamp_executeTx seconds_executeTx)
  obtain stx where st: "sanitizedEvmTx exampleRuntime ethereum executeTx = Inr stx"
    by (simp add: sanitizedEvmTx_def Let_def timeStamp_executeTx seconds_executeTx)
  obtain r where r: "evmFound exampleRuntime evmNetwork ethereum ''key'' exampleEvm ex executeTx
                     = Inr r"
    by (cases "receiptTransfer exampleRuntime evmNetwork (CHAIN_ID ethereum) ''key'' exampleEvm
                 ex executeTx")
       (simp add: evmFound_def i1 st)
  have fe: "filterExecutes [executeTx] = Inr [executeTx]"
    by (simp add: member_def executeTx_def or_js_def startsWith_def)
  note so = sortByTime_executeTx
  have tr: "truthy executeTx" by (simp add: executeTx_def)
  have ne: "exampleEvm \<noteq> []" by (simp add: exampleEvm_def)
  have sel: "evmSelect exampleRuntime evmNetwork ethereum ''key'' exampleEvm ex
               (JObj [(''status'', JStr ''1''), (''message'', JStr ''OK''),
                      (''result'', JArr [executeTx])])
             = Inr (Success r)"
    by (simp add: evmSelect_def strictEqStr_def Let_def fe so tr r del: filterExecutes.simps)
  have "finalEvmTxHandler exampleRuntime exampleEnv evmNetwork (Some ''ethereum'')
          (Some exampleEvm) ex = Success r"
    using ne by (simp add: finalEvmTrace_unfold [OF ethereum_info key] txlist_evmNetwork sel)
  with evmFound_items(2) [OF r] show ?thesis by blast
qed


section \<open>The transaction hash of a found result\<close>

lemma searchGMP_answering: "searchGMP (answering r) b = r"
  by (simp add: searchGMP_def post_def makeRequest_def makeRequest_attempts.simps answering_def
      responseOk_def)

lemma bareGmp_run:
  "fst (axelarGmpTxHandler exampleRuntime (answering bareGmp) (Some ''ethereum'')
          (Some exampleAgoric) None) = Success bareGmpResult"
proof -
  have ne: "exampleAgoric \<noteq> []" by (simp add: exampleAgoric_def)
  have hit: "nonEmptyData bareGmp" by (simp add: nonEmptyData_def bareGmp_def optMember_def)
  have res: "gmpResult exampleRuntime ethereum bareGmp = Inr bareGmpResult"
    by (simp add: gmpResult_def bareGmp_def bareGmpResult_def optMember_def optLength_def
        or_js_def coalesce_def whenTruthy_def Let_def)
  have fc: "FACTORY_CONTRACTS ethereum \<noteq> []" by (simp add: ethereum_def)
  obtain f fs where fs: "FACTORY_CONTRACTS ethereum = f # fs"
    using fc by (cases "FACTORY_CONTRACTS ethereum") auto
  have pf: "fst (probeFactories (answering bareGmp) 1 exampleAgoric (canonicalizeChain ''ethereum'')
                   (FACTORY_CONTRACTS ethereum) []) = bareGmp"
    by (simp add: fs searchGMP_answering hit Let_def)
  show ?thesis
    using ne fc pf
    by (auto simp: axelarGmpTxHandler_def axelarGmpTrace_def ethereum_info Let_def res
        split: prod.splits)
qed

lemma cctpFound_txHash:
  assumes "cctpFound rt d x tx = Inr r"
  shows "getProp r ''txHash'' = JStr (String_js (getProp tx ''txhash''))"
proof -
  from assms obtain msgs where m: "iterate (txMessages tx) = Inr msgs"
    by (cases "iterate (txMessages tx)") (simp_all add: cctpFound_def Let_def)
  from assms m obtain isoTime where t: "newDateISO rt (getProp tx ''timestamp'') = Inr isoTime"
    by (cases "newDateISO rt (getProp tx ''timestamp'')")
       (simp_all add: cctpFound_def Let_def split: prod.splits)
  from cctpFound_fields [OF m t, of d x] assms show ?thesis by auto
qed

lemma scanBurnTxs_matched:
  assumes "scanBurnTxs rt dm d txs = Inr r" "getProp r ''found'' = JBool True"
  shows "\<exists>tx. find (scanMatch dm d) txs = Some tx
           \<and> getProp r ''txHash'' = JStr (String_js (getProp tx ''txhash''))"
  using assms
proof (induction txs)
  case Nil
  then show ?case by (auto simp: cctpNotFound_def)
next
  case (Cons t txs)
  from Cons.prems(1) obtain x where x: "cctpDataOf t = Inr x"
    by (cases "cctpDataOf t") (simp_all add: cctpDataOf_def)
  show ?case
  proof (cases "cctpMatch dm d x")
    case True
    with Cons.prems(1) x have "cctpFound rt d x t = Inr r" by (simp add: cctpDataOf_def)
    from cctpFound_txHash [OF this] True x show ?thesis by (simp add: scanMatch_def)
  next
    case False
    with Cons.prems(1) x have "scanBurnTxs rt dm d txs = Inr r" by (simp add: cctpDataOf_def)
    from Cons.IH [OF this Cons.prems(2)] False x show ?thesis by (simp add: scanMatch_def)
  qed
qed

lemma cctpNoble_Success:
  assumes "cctpNobleTxHandler rt e net n c d tk = Success r"
  shows "\<exists>n' c' d' ci txs.
           n = Some n' \<and> c = Some c' \<and> d = Some d'
           \<and> getChainInfo (canonicalizeChain c') = Some ci
           \<and> iterate (burnPage rt e net n' (case tk of None \<Rightarrow> 20 | Some k \<Rightarrow> k)) = Inr txs
           \<and> scanBurnTxs rt (DOMAIN ci) d' txs = Inr r"
proof -
  let ?k = "case tk of None \<Rightarrow> 20 | Some k \<Rightarrow> k"
  from assms obtain n' c' d' where p: "n = Some n'" "c = Some c'" "d = Some d'"
    by (cases n; cases c; cases d) (simp_all add: cctpNobleTxHandler_def)
  from assms p have run: "cctpNobleTrace rt e net n' c' d' ?k = Success r"
    by (simp add: cctpNobleTxHandler_def split: if_splits)
  then obtain ci where ci: "getChainInfo (canonicalizeChain c') = Some ci"
    by (cases "getChainInfo (canonicalizeChain c')") (simp_all add: cctpNobleTrace_def Let_def)
  from run ci obtain txs where txs: "iterate (burnPage rt e net n' ?k) = Inr txs"
    by (cases "iterate (burnPage rt e net n' ?k)")
       (simp_all add: cctpNobleTrace_def burnPage_def Let_def)
  from run ci txs have "scanBurnTxs rt (DOMAIN ci) d' txs = Inr r"
    by (simp add: cctpNobleTrace_def burnPage_def Let_def split: sum.splits)
  with p ci txs show ?thesis by blast
qed

lemma finalEvm_Success_params:
  assumes "finalEvmTxHandler rt e net c d ex = Success r"
  shows "\<exists>c' d' ci key.
           c = Some c' \<and> d = Some d'
           \<and> getChainInfo (canonicalizeChain c') = Some ci
           \<and> ETHERSCAN_API_KEY e = Some key \<and> key \<noteq> []"
proof -
  from assms obtain c' d' where p: "c = Some c'" "d = Some d'"
    by (cases c; cases d) (simp_all add: finalEvmTxHandler_def)
  from assms p have run: "finalEvmTrace rt e net c' d' ex = Success r"
    by (simp add: finalEvmTxHandler_def split: if_splits)
  then obtain ci where ci: "getChainInfo (canonicalizeChain c') = Some ci"
    by (cases "getChainInfo (canonicalizeChain c')") (simp_all add: finalEvmTrace_def Let_def)
  from run ci obtain key where "ETHERSCAN_API_KEY e = Some key" "key \<noteq> []"
    by (cases "ETHERSCAN_API_KEY e")
       (auto simp: finalEvmTrace_def getEtherscanApiKey_def Let_def split: if_splits)
  with p ci show ?thesis by blast
qed

lemma gmpResult_no_txHash: "gmpResult rt ci g = Inr r \<Longrightarrow> getProp r ''txHash'' = JUndefined"
  by (auto simp: gmpResult_def gmpNotFound_def Let_def split: if_splits sum.splits)

lemma axelar_no_txHash:
  assumes "fst (axelarGmpTxHandler rt net c a sz) = Success r"
  shows "getProp r ''txHash'' = JUndefined"
proof -
  from assms obtain c' a' where ca: "c = Some c'" "a = Some a'" "c' \<noteq> []" "a' \<noteq> []"
    by (cases c; cases a) (auto simp: axelarGmpTxHandler_def split: if_splits)
  from assms ca obtain ci where ci: "getChainInfo (canonicalizeChain c') = Some ci"
    by (cases "getChainInfo (canonicalizeChain c')")
       (auto simp: axelarGmpTxHandler_def axelarGmpTrace_def Let_def)
  from assms ca ci obtain g where "gmpResult rt ci g = Inr r"
    by (auto simp: axelarGmpTxHandler_def axelarGmpTrace_def Let_def
        split: if_splits prod.splits sum.splits)
  then show ?thesis by (rule gmpResult_no_txHash)
qed

lemma agoric_no_txHash:
  assumes "agoricFundingTxHandler rt e net a n tk = Success r"
  shows "getProp r ''txHash'' = JUndefined"
proof -
  from assms obtain a' n' where an: "a = Some a'" "n = Some n'" "a' \<noteq> []" "n' \<noteq> []"
    by (cases a; cases n) (auto simp: agoricFundingTxHandler_def split: if_splits)
  from assms an show ?thesis
    by (auto simp: agoricFundingTxHandler_def agoricFundingTrace_def Let_def
        split: sum.splits option.splits)
qed


text \<open>
  Claim C2, as amended. In every result of Step 1 and of Step 2 the field \<open>txHash\<close>
  is undefined: the two handlers never set it. In a result of Step 3 with
  \<open>found = true\<close> the field \<open>txHash\<close> is the string form of the hash (\<open>txhash\<close>)
  of the matched transaction: the first transaction of the fetched page, in the order of
  the provider, that passes the test of the step. In a result of Step 4 with
  \<open>found = true\<close> it is the string form of the hash of the transaction the step
  selected: the first of the \<open>execute\<close> transactions of the answer after the sort.
\<close>

theorem found_txHash_populated:
  "(fst (axelarGmpTxHandler rt net c1 a1 sz) = Success r \<longrightarrow>
      getProp r ''txHash'' = JUndefined)
   \<and> (agoricFundingTxHandler rt e net a2 n2 tk = Success r \<longrightarrow>
      getProp r ''txHash'' = JUndefined)
   \<and> (cctpNobleTxHandler rt e net n3 c3 d3 tk = Success r
        \<and> getProp r ''found'' = JBool True \<longrightarrow>
      (\<exists>n c d ci txs tx.
         n3 = Some n \<and> c3 = Some c \<and> d3 = Some d
         \<and> getChainInfo (canonicalizeChain c) = Some ci
         \<and> iterate (burnPage rt e net n (case tk of None \<Rightarrow> 20 | Some k \<Rightarrow> k)) = Inr txs
         \<and> find (scanMatch (DOMAIN ci) d) txs = Some tx
         \<and> getProp r ''txHash'' = JStr (String_js (getProp tx ''txhash''))))
   \<and> (finalEvmTxHandler rt e net c4 d4 ex = Success r
        \<and> getProp r ''found'' = JBool True \<longrightarrow>
      (\<exists>c d ci key evmTx.
         c4 = Some c \<and> d4 = Some d
         \<and> getChainInfo (canonicalizeChain c) = Some ci
         \<and> ETHERSCAN_API_KEY e = Some key
         \<and> selectedTx rt (txlistResponse net ci key d) = Some evmTx
         \<and> getProp r ''txHash'' = JStr (String_js (getProp evmTx ''hash''))))"
proof (intro conjI impI)
  assume "fst (axelarGmpTxHandler rt net c1 a1 sz) = Success r"
  then show "getProp r ''txHash'' = JUndefined" by (rule axelar_no_txHash)
next
  assume "agoricFundingTxHandler rt e net a2 n2 tk = Success r"
  then show "getProp r ''txHash'' = JUndefined" by (rule agoric_no_txHash)
next
  assume a: "cctpNobleTxHandler rt e net n3 c3 d3 tk = Success r
               \<and> getProp r ''found'' = JBool True"
  from cctpNoble_Success [of rt e net n3 c3 d3 tk r] a obtain n c d ci txs where
    p: "n3 = Some n" "c3 = Some c" "d3 = Some d"
       "getChainInfo (canonicalizeChain c) = Some ci"
       "iterate (burnPage rt e net n (case tk of None \<Rightarrow> 20 | Some k \<Rightarrow> k)) = Inr txs"
    and scan: "scanBurnTxs rt (DOMAIN ci) d txs = Inr r"
    by blast
  from scanBurnTxs_matched [OF scan] a obtain tx where
    "find (scanMatch (DOMAIN ci) d) txs = Some tx"
    "getProp r ''txHash'' = JStr (String_js (getProp tx ''txhash''))"
    by blast
  with p show "\<exists>n c d ci txs tx.
         n3 = Some n \<and> c3 = Some c \<and> d3 = Some d
         \<and> getChainInfo (canonicalizeChain c) = Some ci
         \<and> iterate (burnPage rt e net n (case tk of None \<Rightarrow> 20 | Some k \<Rightarrow> k)) = Inr txs
         \<and> find (scanMatch (DOMAIN ci) d) txs = Some tx
         \<and> getProp r ''txHash'' = JStr (String_js (getProp tx ''txhash''))"
    by blast
next
  assume a: "finalEvmTxHandler rt e net c4 d4 ex = Success r
               \<and> getProp r ''found'' = JBool True"
  from finalEvm_Success_params [of rt e net c4 d4 ex r] a obtain c d ci key where
    p: "c4 = Some c" "d4 = Some d" "getChainInfo (canonicalizeChain c) = Some ci"
       "ETHERSCAN_API_KEY e = Some key" "key \<noteq> []"
    by blast
  from finalEvm_Success [OF p(3,4,5)] a p(1,2) obtain evmTx where
    sel: "selectedTx rt (txlistResponse net ci key d) = Some evmTx"
    and ef: "evmFound rt net ci key d ex evmTx = Inr r"
    by blast
  from evmFound_items(3) [OF ef] sel p
  show "\<exists>c d ci key evmTx.
         c4 = Some c \<and> d4 = Some d
         \<and> getChainInfo (canonicalizeChain c) = Some ci
         \<and> ETHERSCAN_API_KEY e = Some key
         \<and> selectedTx rt (txlistResponse net ci key d) = Some evmTx
         \<and> getProp r ''txHash'' = JStr (String_js (getProp evmTx ''hash''))"
    by blast
qed

lemma burnNetwork_page:
  "iterate (burnPage exampleRuntime exampleEnv burnNetwork exampleNoble 20) =
     Inr [burnTx ''D3'' ''3'' ''EjRWeJCrze8SNFZ4kKvN7xI0q80='',
          burnTx ''D1'' ''1'' ''EjRWeJCrze8SNFZ4kKvN7xI0q80='',
          burnTx ''D1b'' ''1'' ''EjRWeJCrze8SNFZ4kKvN7xI0q80='']"
  by (simp add: burnPage_def httpGet_burnNetwork responseTransactions_def optMember_def
      or_js_def iterate_def)

lemma burnNetwork_run:
  "\<exists>r. cctpNobleTxHandler exampleRuntime exampleEnv burnNetwork (Some exampleNoble)
          (Some ''avalanche'') (Some exampleEvm) None = Success r
       \<and> getProp r ''found'' = JBool True"
proof -
  let ?tx = "burnTx ''D1'' ''1'' ''EjRWeJCrze8SNFZ4kKvN7xI0q80=''"
  let ?txs = "[burnTx ''D3'' ''3'' ''EjRWeJCrze8SNFZ4kKvN7xI0q80='', ?tx,
               burnTx ''D1b'' ''1'' ''EjRWeJCrze8SNFZ4kKvN7xI0q80='']"
  have ne: "exampleNoble \<noteq> []" "exampleEvm \<noteq> []"
    by (simp_all add: exampleNoble_def exampleEvm_def)
  have target: "normalizeAddress exampleEvm \<noteq> []"
    by (simp add: exampleEvm_def normalize_exampleEvm)
  have dmn: "DOMAIN avalanche \<noteq> ''null''" by (simp add: avalanche_def)
  have readable: "\<forall>t\<in>set (takeWhile (\<lambda>t. \<not> burnMatches avalanche exampleEvm t) ?txs).
                    \<exists>x. cctpDataOf t = Inr x"
    by (simp add: burnMatches_burnTx cctpDataOf_burnTx)
  have first: "find (burnMatches avalanche exampleEvm) ?txs = Some ?tx"
    by (simp add: burnMatches_burnTx)
  obtain msgs where msgs: "iterate (txMessages ?tx) = Inr msgs"
    by (simp add: txMessages_def burnTx_def optMember_def or_js_def iterate_def)
  have time: "newDateISO exampleRuntime (getProp ?tx ''timestamp'')
              = Inr ''2024-01-01T00:00:00.000Z''"
    by (simp add: burnTx_def newDateISO_def toISOString_def exampleRuntime_def)
  from cctpFound_fields [OF msgs time] obtain r where
    r: "cctpFound exampleRuntime exampleEvm
          \<lparr>mintRecipient = Some ''0x1234567890abcdef1234567890abcdef1234abcd'',
           destinationDomain = Some ''1''\<rparr> ?tx = Inr r"
       "getProp r ''found'' = JBool True"
    by blast
  have "scanBurnTxs exampleRuntime (DOMAIN avalanche) exampleEvm ?txs = Inr r"
    by (simp only: scanBurnTxs_find [OF target dmn readable] first option.case
        cctpDataOf_burnTx sum.case r)
  then have "cctpNobleTxHandler exampleRuntime exampleEnv burnNetwork (Some exampleNoble)
          (Some ''avalanche'') (Some exampleEvm) None = Success r"
    using ne burnNetwork_page
    by (simp add: cctpNobleTxHandler_def cctpNobleTrace_def avalanche_info burnPage_def Let_def)
  with r(2) show ?thesis by blast
qed

lemma agoric_answering_run:
  assumes "r \<noteq> []"
  shows "agoricFundingTxHandler exampleRuntime exampleEnv (answering (mintscanPage [ackTx h r]))
           (Some exampleAgoric) (Some r) None =
         Success (JObj [(''title'', JStr ''Funding of Noble ICA + IBC ACK''),
                        (''found'', JBool True),
                        (''items'',
                         JArr [itemHref ''Agoric Tx'' (JStr h)
                                 (JStr (''https://www.mintscan.io/agoric/txs/'' @ h)),
                               item ''Receiver'' (JStr r)]),
                        (''message'', JUndefined)])"
proof -
  have ne: "exampleAgoric \<noteq> []" by (simp add: exampleAgoric_def)
  have found: "fundingFound net r (ackTx h r)
               = Inr [itemHref ''Agoric Tx'' (JStr h)
                        (JStr (''https://www.mintscan.io/agoric/txs/'' @ h)),
                      item ''Receiver'' (JStr r)]" for net
    by (simp add: fundingFound_def ackTx_def txMessages_def optMember_def or_js_def iterate_def
        arrayOf_def nobleTxItems_def Let_def)
  have "scanAckTxs exampleRuntime net r ([] @ ackTx h r # []) =
          map_sum id Some (fundingFound net r (ackTx h r))" for net
    by (rule scanAckTxs_first) (simp_all add: receiverOf_ackTx assms)
  then have scan: "scanAckTxs exampleRuntime net r [ackTx h r] =
          Inr (Some [itemHref ''Agoric Tx'' (JStr h)
                        (JStr (''https://www.mintscan.io/agoric/txs/'' @ h)),
                      item ''Receiver'' (JStr r)])" for net
    by (simp add: found del: scanAckTxs.simps)
  show ?thesis
    using ne assms
    by (simp add: agoricFundingTxHandler_def agoricFundingTrace_def httpGet_answering
        mintscanPage_def responseTransactions_def optMember_def or_js_def iterate_def scan
        Let_def del: scanAckTxs.simps)
qed

lemma scanMatch_burnTx:
  "scanMatch ''1'' exampleEvm (burnTx h ''1'' ''EjRWeJCrze8SNFZ4kKvN7xI0q80='')"
  "\<not> scanMatch ''1'' exampleEvm (burnTx h ''3'' ''EjRWeJCrze8SNFZ4kKvN7xI0q80='')"
  by (simp_all add: scanMatch_def cctpDataOf_burnTx cctpMatch_def exampleEvm_def)

lemma burn_answering_run:
  "\<exists>r. cctpNobleTxHandler exampleRuntime exampleEnv
          (answering (mintscanPage [burnTx h ''1'' ''EjRWeJCrze8SNFZ4kKvN7xI0q80='']))
          (Some exampleNoble) (Some ''avalanche'') (Some exampleEvm) None = Success r
       \<and> getProp r ''found'' = JBool True
       \<and> getProp r ''txHash'' = JStr h"
proof -
  let ?tx = "burnTx h ''1'' ''EjRWeJCrze8SNFZ4kKvN7xI0q80=''"
  have msgs: "iterate (txMessages ?tx) =
                Inr [JObj [(''@type'', JStr ''/circle.fiattokenfactory.v1.MsgBurn''),
                           (''amount'', JObj [(''amount'', JStr ''1000000''),
                                              (''denom'', JStr ''uusdc'')])]]"
    by (simp add: txMessages_def burnTx_def optMember_def or_js_def iterate_def)
  have time: "newDateISO exampleRuntime (getProp ?tx ''timestamp'')
              = Inr ''2024-01-01T00:00:00.000Z''"
    by (simp add: burnTx_def newDateISO_def toISOString_def exampleRuntime_def)
  from cctpFound_fields [OF msgs time] obtain r where
    r: "cctpFound exampleRuntime exampleEvm
          \<lparr>mintRecipient = Some ''0x1234567890abcdef1234567890abcdef1234abcd'',
           destinationDomain = Some ''1''\<rparr> ?tx = Inr r"
       "getProp r ''found'' = JBool True"
       "getProp r ''txHash'' = JStr (String_js (getProp ?tx ''txhash''))"
    by blast
  have "scanBurnTxs exampleRuntime ''1'' exampleEvm [?tx] = Inr r"
    using cctpDataOf_burnTx(1) [of h] cctpMatch_example r(1) by (simp add: cctpDataOf_def)
  then have "cctpNobleTxHandler exampleRuntime exampleEnv (answering (mintscanPage [?tx]))
          (Some exampleNoble) (Some ''avalanche'') (Some exampleEvm) None = Success r"
    by (simp add: cctpNoble_answering del: scanBurnTxs.simps)
  moreover have "getProp r ''txHash'' = JStr h" using r(3) by (simp add: burnTx_def)
  ultimately show ?thesis using r(2) by blast
qed

lemma unhashed_run:
  "\<exists>r. finalEvmTxHandler exampleRuntime exampleEnv (answering (etherscanList [unhashedTx]))
          (Some ''ethereum'') (Some exampleEvm) None = Success r
       \<and> getProp r ''found'' = JBool True
       \<and> getProp r ''txHash'' = JStr []"
proof -
  define net where "net = answering (etherscanList [unhashedTx])"
  have key: "ETHERSCAN_API_KEY exampleEnv = Some ''key''" "''key'' \<noteq> []"
    by (simp_all add: exampleEnv_def)
  have ts: "getProp unhashedTx ''timeStamp'' = JStr ''1704067200''"
    by (simp add: unhashedTx_def)
  obtain its1 where i1: "evmItems exampleRuntime ethereum unhashedTx = Inr its1"
    by (simp add: evmItems_def Let_def ts seconds_executeTx)
  obtain stx where st: "sanitizedEvmTx exampleRuntime ethereum unhashedTx = Inr stx"
    by (simp add: sanitizedEvmTx_def Let_def ts seconds_executeTx)
  obtain r where r: "evmFound exampleRuntime net ethereum ''key'' exampleEvm None unhashedTx
                     = Inr r"
    by (cases "receiptTransfer exampleRuntime net (CHAIN_ID ethereum) ''key'' exampleEvm
                 None unhashedTx")
       (simp add: evmFound_def i1 st)
  have fe: "filterExecutes [unhashedTx] = Inr [unhashedTx]"
    by (simp add: member_def unhashedTx_def or_js_def startsWith_def)
  have "Number_js exampleRuntime (JStr ''1704067200'') = JNum 1704067200"
    by (simp add: exampleRuntime_def parseRadix_def digitValue_def charCode_def)
  then have "numericTime exampleRuntime unhashedTx"
    by (simp add: numericTime_def ts or_js_def)
  then have so: "sortByTime exampleRuntime [unhashedTx] = [unhashedTx]"
    by (simp add: sortByTime_def)
  have tr: "truthy unhashedTx" by (simp add: unhashedTx_def)
  have ne: "exampleEvm \<noteq> []" by (simp add: exampleEvm_def)
  have sel: "evmSelect exampleRuntime net ethereum ''key'' exampleEvm None
               (etherscanList [unhashedTx]) = Inr (Success r)"
    by (simp add: evmSelect_def etherscanList_def strictEqStr_def Let_def fe so tr r
        del: filterExecutes.simps)
  have tl: "txlistResponse net ethereum ''key'' exampleEvm = etherscanList [unhashedTx]"
    by (simp add: txlistResponse_def net_def httpGet_answering)
  have tt: "truthy (etherscanList [unhashedTx])" by (simp add: etherscanList_def)
  have "finalEvmTxHandler exampleRuntime exampleEnv net (Some ''ethereum'')
          (Some exampleEvm) None = Success r"
    using ne by (simp add: finalEvmTrace_unfold [OF ethereum_info key] tl tt sel)
  moreover have "getProp r ''txHash'' = JStr []"
    using evmFound_items(3) [OF r] by (simp add: unhashedTx_def)
  ultimately show ?thesis using evmFound_items(2) [OF r] unfolding net_def by blast
qed

text \<open>
  Claim C2 as stated asks every result with \<open>found = true\<close> to carry a transaction hash
  that is not empty. Step 1 reports \<open>found = true\<close> as soon as the GMP index returns a
  non-empty list: for a record without call and approval the result has no \<open>txHash\<close>
  field, no items and no hash in its transaction summary. Step 2 has no \<open>txHash\<close>
  field either, and for a matched transaction whose hash is the empty string its item
  carries the empty string. Step 3 and Step 4 copy the hash of the provider: for a
  matched transaction whose hash is the empty string, \<open>txHash\<close> is the empty string.
\<close>

theorem found_without_txHash_counterexample:
  "fst (axelarGmpTxHandler exampleRuntime (answering bareGmp) (Some ''ethereum'')
          (Some exampleAgoric) None) = Success bareGmpResult
   \<and> getProp bareGmpResult ''found'' = JBool True
   \<and> getProp bareGmpResult ''txHash'' = JUndefined
   \<and> getProp bareGmpResult ''items'' = JArr []
   \<and> agoricFundingTxHandler exampleRuntime exampleEnv
        (answering (mintscanPage [ackTx [] ''noble1qqqqqqqqqqqqqqqqqqqqqqqqqqqqqqqqqqqqqq'']))
        (Some exampleAgoric) (Some ''noble1qqqqqqqqqqqqqqqqqqqqqqqqqqqqqqqqqqqqqq'') None =
      Success (JObj [(''title'', JStr ''Funding of Noble ICA + IBC ACK''),
                     (''found'', JBool True),
                     (''items'',
                      JArr [itemHref ''Agoric Tx'' (JStr [])
                              (JStr ''https://www.mintscan.io/agoric/txs/''),
                            item ''Receiver''
                              (JStr ''noble1qqqqqqqqqqqqqqqqqqqqqqqqqqqqqqqqqqqqqq'')]),
                     (''message'', JUndefined)])
   \<and> resultField
        (cctpNobleTxHandler exampleRuntime exampleEnv
           (answering (mintscanPage [burnTx [] ''1'' ''EjRWeJCrze8SNFZ4kKvN7xI0q80='']))
           (Some exampleNoble) (Some ''avalanche'') (Some exampleEvm) None) ''found''
       = Some (JBool True)
   \<and> resultField
        (cctpNobleTxHandler exampleRuntime exampleEnv
           (answering (mintscanPage [burnTx [] ''1'' ''EjRWeJCrze8SNFZ4kKvN7xI0q80='']))
           (Some exampleNoble) (Some ''avalanche'') (Some exampleEvm) None) ''txHash''
       = Some (JStr [])
   \<and> resultField
        (finalEvmTxHandler exampleRuntime exampleEnv (answering (etherscanList [unhashedTx]))
           (Some ''ethereum'') (Some exampleEvm) None) ''found''
       = Some (JBool True)
   \<and> resultField
        (finalEvmTxHandler exampleRuntime exampleEnv (answering (etherscanList [unhashedTx]))
           (Some ''ethereum'') (Some exampleEvm) None) ''txHash''
       = Some (JStr [])"
proof -
  from burn_answering_run [of "[]"] obtain r3 where
    r3: "cctpNobleTxHandler exampleRuntime exampleEnv
           (answering (mintscanPage [burnTx [] ''1'' ''EjRWeJCrze8SNFZ4kKvN7xI0q80='']))
           (Some exampleNoble) (Some ''avalanche'') (Some exampleEvm) None = Success r3"
        "getProp r3 ''found'' = JBool True" "getProp r3 ''txHash'' = JStr []"
    by blast
  from unhashed_run obtain r4 where
    r4: "finalEvmTxHandler exampleRuntime exampleEnv (answering (etherscanList [unhashedTx]))
           (Some ''ethereum'') (Some exampleEvm) None = Success r4"
        "getProp r4 ''found'' = JBool True" "getProp r4 ''txHash'' = JStr []"
    by blast
  have 2: "agoricFundingTxHandler exampleRuntime exampleEnv
        (answering (mintscanPage [ackTx [] ''noble1qqqqqqqqqqqqqqqqqqqqqqqqqqqqqqqqqqqqqq'']))
        (Some exampleAgoric) (Some ''noble1qqqqqqqqqqqqqqqqqqqqqqqqqqqqqqqqqqqqqq'') None =
      Success (JObj [(''title'', JStr ''Funding of Noble ICA + IBC ACK''),
                     (''found'', JBool True),
                     (''items'',
                      JArr [itemHref ''Agoric Tx'' (JStr [])
                              (JStr ''https://www.mintscan.io/agoric/txs/''),
                            item ''Receiver''
                              (JStr ''noble1qqqqqqqqqqqqqqqqqqqqqqqqqqqqqqqqqqqqqq'')]),
                     (''message'', JUndefined)])"
    using agoric_answering_run [of "''noble1qqqqqqqqqqqqqqqqqqqqqqqqqqqqqqqqqqqqqq''" "[]"]
    by simp
  show ?thesis
    using bareGmp_run
    by (simp only: 2 r3 r4 resultField_def response.case) (simp add: bareGmpResult_def)
qed

text \<open>
  The four handlers on example networks: a GMP record without hashes, a funding page with
  one match, three burns of which the second is the first match, and one \<open>execute\<close>
  transaction.
\<close>

theorem found_txHash_populated_witness:
  "(\<exists>r. fst (axelarGmpTxHandler exampleRuntime (answering bareGmp) (Some ''ethereum'')
                 (Some exampleAgoric) None) = Success r
        \<and> getProp r ''found'' = JBool True
        \<and> getProp r ''txHash'' = JUndefined)
   \<and> (\<exists>r. agoricFundingTxHandler exampleRuntime exampleEnv
              (answering (mintscanPage [ackTx ''BB'' ''noble1qqqqqqqqqqqqqqqqqqqqqqqqqqqqqqqqqqqqqq'']))
              (Some exampleAgoric) (Some ''noble1qqqqqqqqqqqqqqqqqqqqqqqqqqqqqqqqqqqqqq'') None
            = Success r
        \<and> getProp r ''found'' = JBool True
        \<and> getProp r ''txHash'' = JUndefined)
   \<and> (\<exists>r. cctpNobleTxHandler exampleRuntime exampleEnv burnNetwork (Some exampleNoble)
           (Some ''avalanche'') (Some exampleEvm) None = Success r
        \<and> getProp r ''found'' = JBool True
        \<and> getProp r ''txHash'' = JStr ''D1'')
   \<and> (\<exists>r. finalEvmTxHandler exampleRuntime exampleEnv evmNetwork (Some ''ethereum'')
           (Some exampleEvm) None = Success r
        \<and> getProp r ''found'' = JBool True
        \<and> getProp r ''txHash'' = JStr ''0xcc'')"
proof -
  have 1: "\<exists>r. fst (axelarGmpTxHandler exampleRuntime (answering bareGmp) (Some ''ethereum'')
                 (Some exampleAgoric) None) = Success r
        \<and> getProp r ''found'' = JBool True
        \<and> getProp r ''txHash'' = JUndefined"
  proof -
    have "getProp bareGmpResult ''txHash'' = JUndefined"
      using found_txHash_populated [THEN conjunct1, rule_format, OF bareGmp_run] .
    moreover have "getProp bareGmpResult ''found'' = JBool True"
      by (simp add: bareGmpResult_def)
    ultimately show ?thesis using bareGmp_run by blast
  qed
  have 2: "\<exists>r. agoricFundingTxHandler exampleRuntime exampleEnv
              (answering (mintscanPage [ackTx ''BB'' ''noble1qqqqqqqqqqqqqqqqqqqqqqqqqqqqqqqqqqqqqq'']))
              (Some exampleAgoric) (Some ''noble1qqqqqqqqqqqqqqqqqqqqqqqqqqqqqqqqqqqqqq'') None
            = Success r
        \<and> getProp r ''found'' = JBool True
        \<and> getProp r ''txHash'' = JUndefined"
  proof -
    note run = agoric_answering_run [of "''noble1qqqqqqqqqqqqqqqqqqqqqqqqqqqqqqqqqqqqqq''" "''BB''",
        simplified]
    from found_txHash_populated [THEN conjunct2, THEN conjunct1, rule_format, OF run] run
    show ?thesis by simp
  qed
  have 3: "\<exists>r. cctpNobleTxHandler exampleRuntime exampleEnv burnNetwork (Some exampleNoble)
           (Some ''avalanche'') (Some exampleEvm) None = Success r
        \<and> getProp r ''found'' = JBool True
        \<and> getProp r ''txHash'' = JStr ''D1''"
  proof -
    from burnNetwork_run obtain r where
      r: "cctpNobleTxHandler exampleRuntime exampleEnv burnNetwork (Some exampleNoble)
           (Some ''avalanche'') (Some exampleEvm) None = Success r"
         "getProp r ''found'' = JBool True"
      by blast
    from found_txHash_populated [THEN conjunct2, THEN conjunct2, THEN conjunct1, rule_format,
        OF conjI [OF r(1) r(2)]]
    obtain ci txs tx where
      t: "getChainInfo (canonicalizeChain ''avalanche'') = Some ci"
         "iterate (burnPage exampleRuntime exampleEnv burnNetwork exampleNoble 20) = Inr txs"
         "find (scanMatch (DOMAIN ci) exampleEvm) txs = Some tx"
         "getProp r ''txHash'' = JStr (String_js (getProp tx ''txhash''))"
      by auto
    from t(1) have "ci = avalanche" by (simp add: avalanche_info)
    then have ci: "DOMAIN ci = ''1''" by (simp add: avalanche_def)
    from t(2,3) have "tx = burnTx ''D1'' ''1'' ''EjRWeJCrze8SNFZ4kKvN7xI0q80=''"
      by (auto simp: burnNetwork_page ci scanMatch_burnTx)
    with t(4) have "getProp r ''txHash'' = JStr ''D1''" by (simp add: burnTx_def)
    with r show ?thesis by blast
  qed
  have 4: "\<exists>r. finalEvmTxHandler exampleRuntime exampleEnv evmNetwork (Some ''ethereum'')
           (Some exampleEvm) None = Success r
        \<and> getProp r ''found'' = JBool True
        \<and> getProp r ''txHash'' = JStr ''0xcc''"
  proof -
    from run_evmNetwork [of None] obtain r where
      r: "finalEvmTxHandler exampleRuntime exampleEnv evmNetwork (Some ''ethereum'')
           (Some exampleEvm) None = Success r"
         "getProp r ''found'' = JBool True"
      by blast
    from found_txHash_populated [THEN conjunct2, THEN conjunct2, THEN conjunct2, rule_format,
        OF conjI [OF r(1) r(2)]]
    obtain ci key evmTx where
      t: "getChainInfo (canonicalizeChain ''ethereum'') = Some ci"
         "ETHERSCAN_API_KEY exampleEnv = Some key"
         "selectedTx exampleRuntime (txlistResponse evmNetwork ci key exampleEvm) = Some evmTx"
         "getProp r ''txHash'' = JStr (String_js (getProp evmTx ''hash''))"
      by auto
    from t(1) have ci: "ci = ethereum" by (simp add: ethereum_info)
    from t(2) have key: "key = ''key''" by (simp add: exampleEnv_def)
    from t(3) have "evmTx = executeTx" by (auto simp: ci key selectedTx_evmNetwork)
    with t(4) have "getProp r ''txHash'' = JStr ''0xcc''" by (simp add: executeTx_def)
    with r show ?thesis by blast
  qed
  from 1 2 3 4 show ?thesis by blast
qed


end
